theory Spec2Isabelle
  imports Complex_Main
begin

section \<open>Values thrown, strings\<close>

text \<open>
  A thrown JavaScript value. \<open>CloudflareApiError\<close> is the class of api-error.ts: the HTTP
  status of the response, the raw \<open>errorData\<close> (optional in the class; when present an
  array of payloads) and the message. \<open>Error\<close> is a plain \<open>new Error(message)\<close>;
  \<open>TypeError\<close> is what the runtime throws itself (an invalid URL, a method call on
  \<open>undefined\<close>).
\<close>

record CloudflareApiErrorPayload =
  code :: "int option"
  payload_message :: string

datatype thrown =
    CloudflareApiError (status: nat) (errorData: "CloudflareApiErrorPayload list option")
      (message: string)
  | Error string
  | TypeError string

text \<open>\<open>String.prototype.includes\<close>: the second string occurs somewhere in the first.\<close>

fun str_includes :: "string \<Rightarrow> string \<Rightarrow> bool" where
  "str_includes [] t = (t = [])"
| "str_includes (c # s) t = (take (length t) (c # s) = t \<or> str_includes s t)"

text \<open>\<open>Array.prototype.join\<close> with a separator.\<close>

fun join :: "string \<Rightarrow> string list \<Rightarrow> string" where
  "join sep [] = []"
| "join sep [x] = x"
| "join sep (x # y # ys) = x @ sep @ join sep (y # ys)"

text \<open>
  The elements of \<open>new Set(xs)\<close> in iteration order: each value once, at the place of its
  first occurrence.
\<close>

fun set_order :: "'a list \<Rightarrow> 'a list \<Rightarrow> 'a list" where
  "set_order seen [] = rev seen"
| "set_order seen (x # xs) = (if x \<in> set seen then set_order seen xs else set_order (x # seen) xs)"

definition new_Set :: "'a list \<Rightarrow> 'a list" where
  "new_Set xs = set_order [] xs"

section \<open>AiCrawler\<close>

text \<open>
  \<open>parseUrl\<close> hands the string to the platform's \<open>new URL\<close>, which is not part of the
  repository: it is the parameter \<open>url\<close>, giving the hostname and the pathname of a
  string, or \<open>None\<close> where the constructor throws a TypeError.
\<close>

record parsed_url =
  domain :: string
  path :: string

definition parseUrl :: "(string \<Rightarrow> (string \<times> string) option) \<Rightarrow> string \<Rightarrow> thrown + parsed_url" where
  "parseUrl url u =
     (let normalized = (if \<not> str_includes u ''://'' then ''https://'' @ u else u)
      in case url normalized of
           None \<Rightarrow> Inl (TypeError ''Invalid URL'')
         | Some (hostname, pathname) \<Rightarrow> Inr \<lparr>domain = hostname, path = pathname\<rparr>)"

text \<open>\<open>path.replace(/^\<bsol>//, "")\<close>: one leading slash is removed.\<close>

fun strip_leading_slash :: "string \<Rightarrow> string" where
  "strip_leading_slash (c # cs) = (if c = CHR ''/'' then cs else c # cs)"
| "strip_leading_slash [] = []"

definition pathToGlobPattern :: "string \<Rightarrow> string" where
  "pathToGlobPattern p =
     (let cleanPath = strip_leading_slash p
      in if cleanPath = [] \<or> cleanPath = ''/'' then ''**''
         else ''**/'' @ cleanPath @ ''**'')"

text \<open>\<open>urls.map(parseUrl)\<close>: the first URL that does not parse throws.\<close>

fun map_parseUrl :: "(string \<Rightarrow> (string \<times> string) option) \<Rightarrow> string list \<Rightarrow> thrown + parsed_url list" where
  "map_parseUrl url [] = Inr []"
| "map_parseUrl url (u # us) =
     (case parseUrl url u of
        Inl e \<Rightarrow> Inl e
      | Inr p \<Rightarrow> (case map_parseUrl url us of Inl e \<Rightarrow> Inl e | Inr ps \<Rightarrow> Inr (p # ps)))"

record parseOptions =
  include_headers :: "(string \<times> string) list option"
  include_images :: "bool option"
  specific_sitemaps :: "string list option"
  use_browser_rendering :: "bool option"

record storeOptions =
  storage_id :: string
  store_jurisdiction :: "string option"
  storage_type :: "string option"

text \<open>
  \<open>AiSearchWebCrawlerSource\<close>; its \<open>type\<close> is the constant \<open>"web-crawler"\<close>, which the
  datatype of sources below carries as the constructor.
\<close>

record AiSearchWebCrawlerSource =
  wc_domain :: string
  wc_includePaths :: "string list option"
  wc_excludePaths :: "string list option"
  wc_parseOptions :: "parseOptions option"
  wc_parseType :: "string option"
  wc_storeOptions :: "storeOptions option"

definition is_specific_path :: "string \<Rightarrow> bool" where
  "is_specific_path p = (p \<noteq> [] \<and> p \<noteq> ''/'')"

text \<open>The argument is \<open>None\<close> when the caller passes \<open>undefined\<close>.\<close>

definition AiCrawler :: "(string \<Rightarrow> (string \<times> string) option) \<Rightarrow> string list option \<Rightarrow> thrown + AiSearchWebCrawlerSource" where
  "AiCrawler url urls =
     (case urls of
        None \<Rightarrow> Inl (Error ''AiCrawler requires at least one URL'')
      | Some [] \<Rightarrow> Inl (Error ''AiCrawler requires at least one URL'')
      | Some (u # us) \<Rightarrow>
          (case map_parseUrl url (u # us) of
             Inl e \<Rightarrow> Inl e
           | Inr [] \<Rightarrow> Inl (TypeError ''parsed[0] is undefined'')
           | Inr (p0 # ps) \<Rightarrow>
               (let domains = new_Set (map domain (p0 # ps))
                in if length domains > 1
                   then Inl (Error (''All URLs must be from the same domain. Found: ''
                                    @ join '', '' domains))
                   else
                     (let paths = filter is_specific_path (map path (p0 # ps));
                          includePaths =
                            (if length paths > 0 then Some (map pathToGlobPattern paths) else None)
                      in Inr \<lparr>wc_domain = domain p0, wc_includePaths = includePaths,
                              wc_excludePaths = None, wc_parseOptions = None,
                              wc_parseType = None, wc_storeOptions = None\<rparr>))))"

text \<open>
  What \<open>new URL\<close> returns on the strings used as examples below (hostname, pathname).
\<close>

definition example_urls :: "string \<Rightarrow> (string \<times> string) option" where
  "example_urls u =
     (if u = ''https://docs.example.com'' then Some (''docs.example.com'', ''/'')
      else if u = ''https://example.com/blog'' then Some (''example.com'', ''/blog'')
      else if u = ''https://example.com/news'' then Some (''example.com'', ''/news'')
      else if u = ''https://example.com//'' then Some (''example.com'', ''//'')
      else if u = ''https://other.org/'' then Some (''other.org'', ''/'')
      else None)"


section \<open>Provider calls\<close>

text \<open>
  The data sent to and received from the Cloudflare API by the AI Search resources.
  \<open>search_settings\<close> groups the optional properties that the AiSearch handler copies
  one by one into the payload (\<open>aiSearchModel\<close> to \<open>ai_search_model\<close> and so on) and
  that the API returns in the same way.
\<close>

record search_settings =
  aiSearchModel :: "string option"
  embeddingModel :: "string option"
  chunk :: "bool option"
  chunkSize :: "int option"
  chunkOverlap :: "int option"
  maxNumResults :: "int option"
  scoreThreshold :: "rat option"
  reranking :: "bool option"
  rerankingModel :: "string option"
  rewriteQuery :: "bool option"
  rewriteModel :: "string option"
  cache :: "bool option"
  cacheThreshold :: "string option"
  metadata :: "(string \<times> string) list option"

record web_crawler_params =
  parse_type :: "string option"
  parse_options :: "parseOptions option"
  store_options :: "storeOptions option"

record source_params =
  include_items :: "string list option"
  exclude_items :: "string list option"
  r2_jurisdiction :: "string option"
  prefix :: "string option"
  web_crawler :: "web_crawler_params option"

text \<open>\<open>AiSearch.ApiPayload\<close>, with the fields the handler sets.\<close>

record ApiPayload =
  p_id :: string
  p_source :: string
  p_type :: string
  p_settings :: search_settings
  p_source_params :: source_params
  p_token_id :: string

text \<open>
  \<open>AiSearch.ApiResponse\<close>: its required fields, the token id and the settings; the other
  optional fields of the interface are returned to the caller in the same way and no
  handler reads them.
\<close>

record ApiResponse =
  r_id :: string
  r_account_id :: string
  r_account_tag :: string
  r_created_at :: string
  r_internal_id :: string
  r_modified_at :: string
  r_source :: string
  r_type :: string
  r_vectorize_name :: string
  r_settings :: search_settings
  r_token_id :: "string option"

record AiSearchTokenApiResponse =
  t_id :: string
  t_account_id :: string
  t_account_tag :: string
  t_name :: string
  t_cf_api_id :: string
  t_cf_api_key :: string
  t_enabled :: bool
  t_legacy :: bool
  t_created_at :: string
  t_modified_at :: string

record token_payload =
  tp_name :: string
  tp_cf_api_id :: string
  tp_cf_api_key :: string

text \<open>
  \<open>CloudflareApiOptions\<close> is declared in api.ts, which is not among the sources; these
  are the properties of it that the handlers read (ai-search.ts, ai-search-token.ts).
\<close>

record CloudflareApiOptions =
  baseUrl :: "string option"
  profile :: "string option"
  apiKey :: "string option"
  apiToken :: "string option"
  accountId :: "string option"
  email :: "string option"

datatype Secret = Secret (unencrypted: string)

text \<open>The output of the AiSearchToken resource.\<close>

record AiSearchToken =
  tokenId :: string
  accountTokenId :: string
  tk_accountId :: string
  tk_accountTag :: string
  tk_name :: string
  cfApiId :: string
  cfApiKey :: Secret
  tk_enabled :: bool
  tk_createdAt :: string
  tk_modifiedAt :: string

record AiSearchTokenProps =
  tkp_api :: CloudflareApiOptions
  tkp_name :: "string option"
  tkp_adopt :: "bool option"
  tkp_delete :: "bool option"

text \<open>
  The properties the AiSearchToken handler passes to the child resource AccountApiToken,
  and the part of its output that the handler reads (account-api-token.ts is not among
  the sources).
\<close>

record AccountApiTokenProps =
  aat_name :: string
  aat_permissionGroups :: "string list"
  aat_api :: CloudflareApiOptions
  aat_delete :: "bool option"

record AccountApiToken =
  aat_id :: string
  aat_value :: "Secret option"

text \<open>What the domain check of the dashboard answers.\<close>

record domain_check =
  dc_status :: nat
  dc_success :: bool
  dc_errors :: "(int \<times> string) list"

record AiSearchJobLogItem =
  log_id :: int
  log_created_at :: int
  log_message :: string
  log_message_type :: int


text \<open>
  The hosts of a VPC service. A TypeScript host object has the key \<open>hostname\<close>, or the
  keys \<open>ipv4\<close> and \<open>ipv6\<close> of which one or both are present: \<open>IPv4Host\<close>,
  \<open>IPv6Host\<close> and \<open>DualStackHost\<close> are the three ways to fill \<open>IPHost\<close>. A network
  names its tunnel by id or by a Tunnel resource (tunnel.ts, not among the sources; only
  its \<open>tunnelId\<close> is read). The resolver network of a hostname host is a network with the
  optional key \<open>resolverIps\<close>.
\<close>

record Tunnel =
  tunnel_tunnelId :: string

datatype Network = TunnelIdNetwork string | TunnelNetwork Tunnel

datatype Host =
    IPHost "string option" "string option" Network
  | HostnameHost string Network "string list option"

definition IPv4Host :: "string \<Rightarrow> Network \<Rightarrow> Host" where
  "IPv4Host a n = IPHost (Some a) None n"

definition IPv6Host :: "string \<Rightarrow> Network \<Rightarrow> Host" where
  "IPv6Host b n = IPHost None (Some b) n"

definition DualStackHost :: "string \<Rightarrow> string \<Rightarrow> Network \<Rightarrow> Host" where
  "DualStackHost a b n = IPHost (Some a) (Some b) n"

text \<open>
  The wire shape, \<open>ConnectivityService.Host\<close>. A network object on the wire has the key
  \<open>tunnel_id\<close> and, for a resolver network, the optional key \<open>resolver_ips\<close>. The object
  that \<open>normalizeNetwork\<close> builds also carries every other key of its argument (the rest
  of the destructuring): for a resolver network that is the key \<open>resolverIps\<close>, kept
  here as \<open>rest_resolverIps\<close>.
\<close>

record wire_network =
  tunnel_id :: string
  resolver_ips :: "string list option"
  rest_resolverIps :: "string list option"

datatype wire_host =
    WireIPHost "string option" "string option" wire_network
  | WireHostnameHost string wire_network

record ConnectivityService_Input =
  in_name :: string
  in_type :: string
  tcp_port :: "int option"
  app_protocol :: "string option"
  http_port :: "int option"
  https_port :: "int option"
  in_host :: wire_host

record ConnectivityService = ConnectivityService_Input +
  service_id :: string
  created_at :: string
  updated_at :: string

record VpcServiceProps =
  vp_api :: CloudflareApiOptions
  vp_name :: "string option"
  serviceType :: "string option"
  tcpPort :: "int option"
  appProtocol :: "string option"
  httpPort :: "int option"
  httpsPort :: "int option"
  vp_host :: Host
  vp_adopt :: "bool option"

text \<open>The output of the VpcService resource (its \<open>type\<close> is the constant \<open>"vpc_service"\<close>).\<close>

record VpcService =
  vs_name :: string
  serviceId :: string
  vs_serviceType :: string
  vs_tcpPort :: "int option"
  vs_appProtocol :: "string option"
  vs_httpPort :: "int option"
  vs_httpsPort :: "int option"
  vs_host :: Host
  vs_createdAt :: int
  vs_updatedAt :: int

text \<open>D1 databases.\<close>

record D1ResponseObject =
  uuid :: string
  d1_name :: string
  d1_created_at :: string
  d1_version :: string
  num_tables :: int
  file_size :: int
  running_in_region :: string
  read_replication :: string
  d1_jurisdiction :: "string option"

record D1SqlFile =
  sql_id :: string
  sql :: string

record d1_create_payload =
  cp_name :: string
  cp_jurisdiction :: "string option"
  cp_primary_location_hint :: "string option"

text \<open>
  The \<open>clone\<close> property: a D1Database, \<open>{ id }\<close> or \<open>{ name }\<close>, as the keys that
  \<open>cloneDb\<close> looks at.
\<close>

record clone_source =
  clone_id :: "string option"
  clone_name :: "string option"
  clone_type :: "string option"

record D1DatabaseProps =
  d1_api :: CloudflareApiOptions
  d1p_name :: "string option"
  primaryLocationHint :: "string option"
  readReplication :: "string option"
  d1p_delete :: "bool option"
  d1p_adopt :: "bool option"
  clone :: "clone_source option"
  migrationsFiles :: "D1SqlFile list option"
  importFiles :: "D1SqlFile list option"
  migrationsTable :: "string option"
  migrationsDir :: "string option"
  dev_remote :: "bool option"
  dev_force :: "bool option"
  d1p_jurisdiction :: "string option"

record d1_dev =
  dev_id :: string
  dev_is_remote :: bool

text \<open>
  The output of the D1Database resource (its \<open>type\<close> is the constant \<open>"d1"\<close>). A stored
  output of an earlier version may lack \<open>dev\<close> and \<open>jurisdiction\<close>.
\<close>

record D1Database =
  db_id :: string
  db_name :: string
  db_readReplication :: "string option"
  db_primaryLocationHint :: "string option"
  db_migrationsDir :: "string option"
  db_migrationsTable :: "string option"
  db_dev :: "d1_dev option"
  db_jurisdiction :: "string option"

text \<open>
  PlanetScale: the role data that \<open>resetDefaultRole\<close> returns, and the answer of
  \<open>getDefaultRole\<close> called with \<open>throwOnError: false\<close> (data, error, response status).
\<close>

record role_data =
  rd_id :: string
  rd_name :: string
  expires_at :: string
  access_host_url :: string
  rd_username :: string
  rd_ttl :: int
  rd_password :: string
  database_name :: string
  inherited_roles :: "string list"

record role_lookup =
  lookup_data :: "role_data option"
  lookup_error :: bool
  lookup_status :: nat

record role_path =
  path_organization :: string
  path_database :: string
  path_branch :: string

text \<open>
  Every request a handler sends to a provider, and every call of a collaborator of the
  repository whose source is not at hand (\<open>getBucket\<close>, \<open>deleteIndex\<close>, the child
  resources, the migration helpers, \<open>waitForBranchReady\<close>). \<open>runAiSearchJob\<close> starts an
  indexing job and polls it until it ends; it is one call here.
\<close>

datatype call =
    C_getBucket string string
  | C_postAiSearchDomains string
  | C_createAiSearchInstance ApiPayload
  | C_getAiSearchInstance string
  | C_updateAiSearchInstance string ApiPayload
  | C_deleteAiSearchInstance string
  | C_deleteIndex "string option"
  | C_runAiSearchJob string
  | C_listAiSearchJobLogs string string
  | C_AiSearchToken string AiSearchTokenProps
  | C_AccountApiToken string AccountApiTokenProps
  | C_createAiSearchToken token_payload
  | C_listAiSearchTokens
  | C_deleteAiSearchToken string
  | C_getAiSearchToken string
  | C_createService ConnectivityService_Input
  | C_deleteService string
  | C_getService string
  | C_listServices
  | C_updateService string ConnectivityService_Input
  | C_applyLocalD1Migrations string string "D1SqlFile list" "D1SqlFile list" string
  | C_deleteMiniflareBinding string
  | C_postD1Database d1_create_payload
  | C_getDatabase string
  | C_deleteDatabase string
  | C_listDatabases "string option"
  | C_updateReadReplicationMode string string
  | C_cloneD1Database string string
  | C_applyMigrations "D1SqlFile list" string string
  | C_importD1Database string string string
  | C_getDefaultRole role_path
  | C_resetDefaultRole role_path
  | C_waitForBranchReady role_path

text \<open>
  A provider answers a call with a value or with a thrown error; the answer may depend on
  the calls made before it. The record has one answering function for each type of
  result. \<open>source_settles_first\<close> says, for two operations running at the same time that
  both wait for the provider and both fail, which failure comes first.
\<close>

record provider =
  answer_unit :: "call list \<Rightarrow> call \<Rightarrow> thrown + unit"
  answer_instance :: "call list \<Rightarrow> call \<Rightarrow> thrown + ApiResponse"
  answer_domain_check :: "call list \<Rightarrow> call \<Rightarrow> thrown + domain_check"
  answer_logs :: "call list \<Rightarrow> call \<Rightarrow> thrown + AiSearchJobLogItem list"
  answer_token :: "call list \<Rightarrow> call \<Rightarrow> thrown + AiSearchTokenApiResponse"
  answer_tokens :: "call list \<Rightarrow> call \<Rightarrow> thrown + AiSearchTokenApiResponse list"
  answer_token_resource :: "call list \<Rightarrow> call \<Rightarrow> thrown + AiSearchToken"
  answer_account_token :: "call list \<Rightarrow> call \<Rightarrow> thrown + AccountApiToken"
  answer_service :: "call list \<Rightarrow> call \<Rightarrow> thrown + ConnectivityService"
  answer_services :: "call list \<Rightarrow> call \<Rightarrow> thrown + ConnectivityService list"
  answer_database :: "call list \<Rightarrow> call \<Rightarrow> thrown + D1ResponseObject"
  answer_databases :: "call list \<Rightarrow> call \<Rightarrow> thrown + D1ResponseObject list"
  answer_role_lookup :: "call list \<Rightarrow> call \<Rightarrow> thrown + role_lookup"
  answer_role :: "call list \<Rightarrow> call \<Rightarrow> thrown + role_data"
  source_settles_first :: "call list \<Rightarrow> bool"

text \<open>
  An operation runs on the list of calls made so far and returns its result, a value or
  a thrown error, with the list extended by its own calls.
\<close>

type_synonym 'a io = "call list \<Rightarrow> (thrown + 'a) \<times> call list"

definition io_return :: "'a \<Rightarrow> 'a io" where
  "io_return a = (\<lambda>h. (Inr a, h))"

definition io_throw :: "thrown \<Rightarrow> 'a io" where
  "io_throw e = (\<lambda>h. (Inl e, h))"

definition io_bind :: "'a io \<Rightarrow> ('a \<Rightarrow> 'b io) \<Rightarrow> 'b io" where
  "io_bind m f = (\<lambda>h. case m h of (Inl e, h') \<Rightarrow> (Inl e, h') | (Inr a, h') \<Rightarrow> f a h')"

definition io_catch :: "'a io \<Rightarrow> (thrown \<Rightarrow> 'a io) \<Rightarrow> 'a io" where
  "io_catch m handler = (\<lambda>h. case m h of (Inl e, h') \<Rightarrow> handler e h' | (Inr a, h') \<Rightarrow> (Inr a, h'))"

definition request :: "(call list \<Rightarrow> call \<Rightarrow> thrown + 'a) \<Rightarrow> call \<Rightarrow> 'a io" where
  "request answer c = (\<lambda>h. (answer h c, h @ [c]))"

text \<open>
  \<open>Promise.all([normalizeSource(props.source), normalizeTokenId()])\<close>, the one use of
  \<open>Promise.all\<close> in the handlers: \<open>m1\<close> is the first call, \<open>m2\<close> the second. Both are
  started, \<open>m1\<close> first: each runs up to its first request before the other one
  continues, so the requests of \<open>m1\<close> (it sends at most one) are in the list before those
  of \<open>m2\<close>. Nothing stops \<open>m2\<close> when \<open>m1\<close> fails. The promise rejects with the failure
  that comes first. \<open>normalizeTokenId\<close> fails before sending anything only by the
  \<open>throw\<close> of \<open>validateTokenId\<close> in its own body: its promise is rejected already when
  \<open>Promise.all\<close> subscribes. \<open>normalizeSource\<close> fails only inside a call that it awaits,
  so its promise is rejected one step of the job queue later at the earliest. So the
  failure of \<open>m2\<close> comes first when \<open>m2\<close> failed before sending anything; else the one
  of \<open>m1\<close> when \<open>m1\<close> failed before sending anything (\<open>m2\<close> has then waited for an
  answer); else, both having waited for an answer, as \<open>source_settles_first\<close> says.
\<close>

definition promise_all2 :: "provider \<Rightarrow> 'a io \<Rightarrow> 'b io \<Rightarrow> ('a \<times> 'b) io" where
  "promise_all2 api m1 m2 =
     (\<lambda>h. case m1 h of (r1, h1) \<Rightarrow>
           (case m2 h1 of (r2, h2) \<Rightarrow>
             (case r1 of
                Inr a \<Rightarrow> (case r2 of Inr b \<Rightarrow> (Inr (a, b), h2) | Inl e2 \<Rightarrow> (Inl e2, h2))
              | Inl e1 \<Rightarrow>
                  (case r2 of
                     Inr b \<Rightarrow> (Inl e1, h2)
                   | Inl e2 \<Rightarrow>
                       (if h2 = h1 then (Inl e2, h2)
                        else if h1 = h then (Inl e1, h2)
                        else if source_settles_first api h then (Inl e1, h2)
                        else (Inl e2, h2))))))"

text \<open>
  The scope, the phase and the context of a handler. A handler ends with an output, with
  the value of \<open>this.destroy()\<close>, or by leaving through \<open>this.replace(force)\<close>
  (\<open>Replace False\<close> when called without an argument); a thrown error is the left
  summand of the result.
\<close>

record scope =
  scope_adopt :: bool
  scope_local :: bool
  rootDir :: string
  appName :: string
  stage :: string

datatype phase = Create | Update | Delete

record 'o Context =
  ctx_phase :: phase
  ctx_output :: "'o option"
  ctx_scope :: scope

datatype 'o outcome = Output 'o | Destroy | Replace bool

text \<open>
  Modelled from the spec: \<open>Scope.createPhysicalName(logicalId, separator, maxLength)\<close>;
  scope.ts is not among the sources. The spec gives the name as
  \<open>${app}-${stage}-${logicalId}\<close>, truncated to satisfy \<open>maxLength\<close>; it gives no rule
  of sanitising, and none is modelled. The separator is \<open>"-"\<close> unless one is passed, and
  nothing is cut off when no \<open>maxLength\<close> is passed.
\<close>

definition createPhysicalName :: "scope \<Rightarrow> string \<Rightarrow> string option \<Rightarrow> nat option \<Rightarrow> string" where
  "createPhysicalName sc logicalId separator maxLength =
     (let sep = (case separator of None \<Rightarrow> ''-'' | Some s \<Rightarrow> s);
          full = appName sc @ sep @ stage sc @ sep @ logicalId
      in case maxLength of None \<Rightarrow> full | Some n \<Rightarrow> take n full)"

text \<open>A string that JavaScript takes as true: present and not empty.\<close>

definition truthy :: "string option \<Rightarrow> bool" where
  "truthy s = (case s of None \<Rightarrow> False | Some v \<Rightarrow> v \<noteq> [])"

fun show_nat :: "nat \<Rightarrow> string" where
  "show_nat n = (if n < 10 then [char_of (48 + n)] else show_nat (n div 10) @ [char_of (48 + n mod 10)])"

definition thrown_message :: "thrown \<Rightarrow> string" where
  "thrown_message e = (case e of CloudflareApiError st ed m \<Rightarrow> m | Error m \<Rightarrow> m | TypeError m \<Rightarrow> m)"


section \<open>Helpers of the Cloudflare API\<close>

text \<open>
  \<open>isCloudflareApiError(error, { status, code })\<close> of api-error.ts; an absent criterion is
  \<open>None\<close>.
\<close>

definition isCloudflareApiError :: "thrown \<Rightarrow> nat option \<Rightarrow> int option \<Rightarrow> bool" where
  "isCloudflareApiError error match_status match_code =
     (case error of
        CloudflareApiError st ed m \<Rightarrow>
          (match_status = None \<or> Some st = match_status) \<and>
          (match_code = None \<or>
             (case ed of
                None \<Rightarrow> False
              | Some es \<Rightarrow> list_ex (\<lambda>e. code e \<noteq> None \<and> code e = match_code) es))
      | Error m \<Rightarrow> False
      | TypeError m \<Rightarrow> False)"

text \<open>
  Each helper sends one request; \<open>extractCloudflareResult\<close> (api-response.ts, not among
  the sources) returns the result of the response or throws, which is the answer of the
  provider here.
\<close>

definition createAiSearchInstance :: "provider \<Rightarrow> ApiPayload \<Rightarrow> ApiResponse io" where
  "createAiSearchInstance api payload = request (answer_instance api) (C_createAiSearchInstance payload)"

definition getAiSearchInstance :: "provider \<Rightarrow> string \<Rightarrow> ApiResponse io" where
  "getAiSearchInstance api i = request (answer_instance api) (C_getAiSearchInstance i)"

definition updateAiSearchInstance :: "provider \<Rightarrow> string \<Rightarrow> ApiPayload \<Rightarrow> ApiResponse io" where
  "updateAiSearchInstance api i payload = request (answer_instance api) (C_updateAiSearchInstance i payload)"

definition deleteAiSearchInstance :: "provider \<Rightarrow> string \<Rightarrow> unit io" where
  "deleteAiSearchInstance api i =
     io_catch (request (answer_unit api) (C_deleteAiSearchInstance i))
       (\<lambda>error. case error of
                  CloudflareApiError st ed m \<Rightarrow> if st = 404 then io_return () else io_throw error
                | Error m \<Rightarrow> io_throw error
                | TypeError m \<Rightarrow> io_throw error)"

definition listAiSearchJobLogs :: "provider \<Rightarrow> string \<Rightarrow> string \<Rightarrow> AiSearchJobLogItem list io" where
  "listAiSearchJobLogs api aiSearchId jobId =
     io_catch (request (answer_logs api) (C_listAiSearchJobLogs aiSearchId jobId))
       (\<lambda>error. if isCloudflareApiError error None (Some 7002) then io_return [] else io_throw error)"

definition runAiSearchJob :: "provider \<Rightarrow> string \<Rightarrow> unit io" where
  "runAiSearchJob api aiSearchId = request (answer_unit api) (C_runAiSearchJob aiSearchId)"

definition getBucket :: "provider \<Rightarrow> string \<Rightarrow> string \<Rightarrow> unit io" where
  "getBucket api n jurisdiction = request (answer_unit api) (C_getBucket n jurisdiction)"

definition deleteIndex :: "provider \<Rightarrow> string option \<Rightarrow> unit io" where
  "deleteIndex api vectorizeName = request (answer_unit api) (C_deleteIndex vectorizeName)"

definition createAiSearchToken :: "provider \<Rightarrow> token_payload \<Rightarrow> AiSearchTokenApiResponse io" where
  "createAiSearchToken api payload = request (answer_token api) (C_createAiSearchToken payload)"

definition listAiSearchTokens :: "provider \<Rightarrow> AiSearchTokenApiResponse list io" where
  "listAiSearchTokens api = request (answer_tokens api) C_listAiSearchTokens"

definition deleteAiSearchToken :: "provider \<Rightarrow> string \<Rightarrow> unit io" where
  "deleteAiSearchToken api i =
     io_catch (request (answer_unit api) (C_deleteAiSearchToken i))
       (\<lambda>error. case error of
                  CloudflareApiError st ed m \<Rightarrow> if st = 404 then io_return () else io_throw error
                | Error m \<Rightarrow> io_throw error
                | TypeError m \<Rightarrow> io_throw error)"

definition getAiSearchToken :: "provider \<Rightarrow> string \<Rightarrow> AiSearchTokenApiResponse io" where
  "getAiSearchToken api i = request (answer_token api) (C_getAiSearchToken i)"

definition createService :: "provider \<Rightarrow> ConnectivityService_Input \<Rightarrow> ConnectivityService io" where
  "createService api body = request (answer_service api) (C_createService body)"

definition deleteService :: "provider \<Rightarrow> string \<Rightarrow> unit io" where
  "deleteService api i =
     io_catch (request (answer_unit api) (C_deleteService i))
       (\<lambda>err. if \<not> isCloudflareApiError err (Some 404) None then io_throw err else io_return ())"

definition getService :: "provider \<Rightarrow> string \<Rightarrow> ConnectivityService io" where
  "getService api i = request (answer_service api) (C_getService i)"

definition listServices :: "provider \<Rightarrow> ConnectivityService list io" where
  "listServices api = request (answer_services api) C_listServices"

definition updateService :: "provider \<Rightarrow> string \<Rightarrow> ConnectivityService_Input \<Rightarrow> ConnectivityService io" where
  "updateService api i body = request (answer_service api) (C_updateService i body)"

definition getDatabase :: "provider \<Rightarrow> string \<Rightarrow> D1ResponseObject io" where
  "getDatabase api i = request (answer_database api) (C_getDatabase i)"

definition deleteDatabase :: "provider \<Rightarrow> string \<Rightarrow> unit io" where
  "deleteDatabase api i =
     io_catch (request (answer_unit api) (C_deleteDatabase i))
       (\<lambda>error. case error of
                  CloudflareApiError st ed m \<Rightarrow> if st = 404 then io_return () else io_throw error
                | Error m \<Rightarrow> io_throw error
                | TypeError m \<Rightarrow> io_throw error)"

text \<open>The name goes into the query only when it is a non-empty string.\<close>

definition listDatabases :: "provider \<Rightarrow> string option \<Rightarrow> D1ResponseObject list io" where
  "listDatabases api n = request (answer_databases api) (C_listDatabases (if truthy n then n else None))"

definition updateReadReplicationMode :: "provider \<Rightarrow> string \<Rightarrow> string \<Rightarrow> D1ResponseObject io" where
  "updateReadReplicationMode api i readReplicationMode =
     request (answer_database api) (C_updateReadReplicationMode i readReplicationMode)"

definition createPayload :: "string \<Rightarrow> D1DatabaseProps \<Rightarrow> d1_create_payload" where
  "createPayload databaseName props =
     \<lparr>cp_name = databaseName,
      cp_jurisdiction =
        (if d1p_jurisdiction props \<noteq> Some ''default'' then d1p_jurisdiction props else None),
      cp_primary_location_hint = primaryLocationHint props\<rparr>"

definition createDatabase :: "provider \<Rightarrow> string \<Rightarrow> D1DatabaseProps \<Rightarrow> D1ResponseObject io" where
  "createDatabase api databaseName props =
     (let createPayload = createPayload databaseName props
      in io_bind (request (answer_database api) (C_postD1Database createPayload))
           (\<lambda>database.
              if uuid database = [] then io_throw (Error ''Missing UUID for created database'')
              else (case readReplication props of
                      None \<Rightarrow> io_return database
                    | Some mode \<Rightarrow>
                        if mode \<noteq> [] then updateReadReplicationMode api (uuid database) mode
                        else io_return database)))"

definition cloneD1Database :: "provider \<Rightarrow> string \<Rightarrow> string \<Rightarrow> unit io" where
  "cloneD1Database api sourceId targetDbId = request (answer_unit api) (C_cloneD1Database sourceId targetDbId)"

definition cloneDb :: "provider \<Rightarrow> clone_source \<Rightarrow> string \<Rightarrow> unit io" where
  "cloneDb api sourceDb targetDbId =
     (let by_name =
            (case clone_name sourceDb of
               None \<Rightarrow> None
             | Some n \<Rightarrow> if n \<noteq> [] then Some n else None);
          by_type =
            (case clone_id sourceDb of
               None \<Rightarrow> io_throw (Error ''Invalid clone property: must provide either id or name'')
             | Some i \<Rightarrow>
                 if clone_type sourceDb = Some ''d1'' then cloneD1Database api i targetDbId
                 else io_throw (Error ''Invalid clone property: must provide either id or name''))
      in case clone_id sourceDb of
           Some i \<Rightarrow>
             if i \<noteq> [] then cloneD1Database api i targetDbId
             else (case by_name of
                     Some n \<Rightarrow>
                       io_bind (listDatabases api (Some n))
                         (\<lambda>databases.
                            case find (\<lambda>db. d1_name db = n) databases of
                              None \<Rightarrow> io_throw (Error (''Source database with name '' @ [CHR 0x27]
                                                       @ n @ [CHR 0x27] @ '' not found for cloning''))
                            | Some foundDb \<Rightarrow> cloneD1Database api (uuid foundDb) targetDbId)
                   | None \<Rightarrow> by_type)
         | None \<Rightarrow>
             (case by_name of
                Some n \<Rightarrow>
                  io_bind (listDatabases api (Some n))
                    (\<lambda>databases.
                       case find (\<lambda>db. d1_name db = n) databases of
                         None \<Rightarrow> io_throw (Error (''Source database with name '' @ [CHR 0x27]
                                                  @ n @ [CHR 0x27] @ '' not found for cloning''))
                       | Some foundDb \<Rightarrow> cloneD1Database api (uuid foundDb) targetDbId)
              | None \<Rightarrow> by_type))"

section \<open>AiSearch\<close>

text \<open>
  An R2Bucket resource (bucket.ts, not among the sources): the properties the handler
  reads, \<open>name\<close>, \<open>jurisdiction\<close> and \<open>dev?.remote\<close>.
\<close>

record R2Bucket =
  bucket_name :: string
  bucket_jurisdiction :: "string option"
  bucket_dev_remote :: "bool option"

datatype bucket_ref = BucketName string | BucketResource R2Bucket

record AiSearchR2Source =
  r2_bucket :: bucket_ref
  r2s_jurisdiction :: "string option"
  r2s_prefix :: "string option"
  r2s_includePaths :: "string list option"
  r2s_excludePaths :: "string list option"

datatype AiSearchSource =
    SourceBucket R2Bucket
  | SourceR2 AiSearchR2Source
  | SourceWebCrawler AiSearchWebCrawlerSource

text \<open>The result of \<open>normalizeSource\<close>: an R2 source whose bucket is a name, or a web crawler.\<close>

record normalized_r2 =
  n_bucket :: string
  n_jurisdiction :: "string option"
  n_prefix :: "string option"
  n_includePaths :: "string list option"
  n_excludePaths :: "string list option"

datatype normalized_source = NormalizedR2 normalized_r2 | NormalizedWebCrawler AiSearchWebCrawlerSource

text \<open>
  The second half of \<open>AiSearchProps\<close>: a \<open>tokenId\<close>, or an optional \<open>token\<close>.
\<close>

datatype token_property = TokenIdProperty string | TokenProperty AiSearchToken | NoToken

record AiSearchProps =
  as_api :: CloudflareApiOptions
  as_name :: "string option"
  as_source :: AiSearchSource
  as_settings :: search_settings
  indexOnCreate :: "bool option"
  as_delete :: "bool option"
  as_adopt :: "bool option"
  as_token :: token_property

text \<open>
  The output of the AiSearch resource: the response with its keys in camel case, and
  \<open>name\<close>. A stored output is read back from the state, so the keys that the handler
  tests are optional here; \<open>sourceType\<close>, \<open>sourceBucket\<close> and \<open>sourceDomain\<close> are the
  keys of the development version of the resource.
\<close>

record AiSearch =
  o_id :: "string option"
  o_name :: string
  o_accountId :: string
  o_accountTag :: string
  o_createdAt :: string
  o_internalId :: string
  o_modifiedAt :: string
  o_source :: "string option"
  o_type :: "string option"
  o_vectorizeName :: "string option"
  o_settings :: search_settings
  o_tokenId :: "string option"
  sourceType :: "string option"
  sourceBucket :: "string option"
  sourceDomain :: "string option"

definition formatAiSearch :: "ApiResponse \<Rightarrow> AiSearch" where
  "formatAiSearch instance =
     \<lparr>o_id = Some (r_id instance), o_name = r_id instance,
      o_accountId = r_account_id instance, o_accountTag = r_account_tag instance,
      o_createdAt = r_created_at instance, o_internalId = r_internal_id instance,
      o_modifiedAt = r_modified_at instance, o_source = Some (r_source instance),
      o_type = Some (r_type instance), o_vectorizeName = Some (r_vectorize_name instance),
      o_settings = r_settings instance, o_tokenId = r_token_id instance,
      sourceType = None, sourceBucket = None, sourceDomain = None\<rparr>"

definition quoted :: "string \<Rightarrow> string" where
  "quoted s = [CHR 0x22] @ s @ [CHR 0x22]"

definition validateBucketSource :: "provider \<Rightarrow> scope \<Rightarrow> string \<Rightarrow> bucket_ref \<Rightarrow> string option \<Rightarrow> unit io" where
  "validateBucketSource api sc i bucket jurisdiction_arg =
     (let jurisdiction = (case jurisdiction_arg of None \<Rightarrow> ''default'' | Some j \<Rightarrow> j);
          check = (\<lambda>n. io_catch (getBucket api n jurisdiction)
                     (\<lambda>error. io_throw (Error (''Failed to validate R2 bucket '' @ quoted n @ '' (''
                                  @ jurisdiction @ '') for AI search '' @ quoted i @ '': ''
                                  @ thrown_message error))))
      in case bucket of
           BucketName n \<Rightarrow> check n
         | BucketResource b \<Rightarrow>
             if scope_local sc \<and> bucket_dev_remote b \<noteq> Some True
             then io_throw (Error (''AI Search '' @ quoted i
                     @ '' depends on an R2Bucket that is running locally, but AI Search requires the bucket to be deployed.''
                     @ [CHR 0x0A] @ ''Add `dev: { remote: true }` to the R2Bucket to use it with AI Search.''))
             else check (bucket_name b))"

text \<open>
  \<open>e.message in errorMap ? errorMap[e.message] : e.message\<close>. The operator \<open>in\<close> is true
  of the seven keys of the literal and of the keys that every object inherits from
  \<open>Object.prototype\<close>; at an inherited key the value is a built-in function (at
  \<open>__proto__\<close> the prototype object), which the template prints as Node prints it.
\<close>

definition Object_prototype_functions :: "string list" where
  "Object_prototype_functions =
     [''__defineGetter__'', ''__defineSetter__'', ''hasOwnProperty'', ''__lookupGetter__'',
      ''__lookupSetter__'', ''isPrototypeOf'', ''propertyIsEnumerable'', ''toString'',
      ''valueOf'', ''toLocaleString'']"

definition errorMap :: "string \<Rightarrow> string" where
  "errorMap m =
     (if m = ''not_a_valid_domain'' then ''Not a valid domain.''
      else if m = ''invalid_domain'' then ''Invalid domain. The domain needs to belong to this account.''
      else if m = ''fail_to_find_domain_info'' then ''Failed to find domain information.''
      else if m = ''missing_sitemap'' then ''Sitemap not found. Please check your robots.txt.''
      else if m = ''domain_not_owned_by_user'' then ''The domain needs to belong to this account.''
      else if m = ''forbidden_robots_txt'' then ''Failed to fetch robots.txt: The file is inaccessible.''
      else if m = ''forbidden_sitemap'' then ''Failed to fetch your sitemap: The file is inaccessible.''
      else if m = ''constructor'' then ''function Object() { [native code] }''
      else if m = ''__proto__'' then ''[object Object]''
      else if m \<in> set Object_prototype_functions then ''function '' @ m @ ''() { [native code] }''
      else m)"

definition show_int :: "int \<Rightarrow> string" where
  "show_int k = (if k < 0 then ''-'' @ show_nat (nat (- k)) else show_nat (nat k))"

definition validateWebCrawlerSourceDomain :: "provider \<Rightarrow> string \<Rightarrow> unit io" where
  "validateWebCrawlerSourceDomain api d =
     (if str_includes d ''://'' then
        io_throw (Error (''Invalid domain format '' @ quoted d
          @ ''. Provide just the domain (e.g., '' @ quoted ''docs.example.com'' @ ''), not a URL. For URL-based crawling, use AiCrawler instead of AiSearch.''))
      else if str_includes d ''/'' then
        io_throw (Error (''Invalid domain format '' @ quoted d
          @ ''. Provide just the domain without paths (e.g., '' @ quoted ''docs.example.com'' @ ''). Use includePaths to filter specific paths, or use AiCrawler for URL-based crawling.''))
      else
        io_bind (request (answer_domain_check api) (C_postAiSearchDomains d))
          (\<lambda>json.
             if dc_success json then io_return ()
             else io_throw (Error (join [CHR 0x0A]
                    ([''Failed to validate domain '' @ quoted d @ '' ('' @ show_nat (dc_status json) @ ''):'']
                     @ map (\<lambda>(c, m). ''- ['' @ show_int c @ ''] '' @ errorMap m) (dc_errors json)
                     @ [''Learn more: https://developers.cloudflare.com/ai-search/configuration/data-source/website/''])))))"

definition normalizeSource :: "provider \<Rightarrow> scope \<Rightarrow> string \<Rightarrow> AiSearchSource \<Rightarrow> normalized_source io" where
  "normalizeSource api sc i source =
     (case source of
        SourceBucket b \<Rightarrow>
          io_bind (validateBucketSource api sc i (BucketResource b) (bucket_jurisdiction b))
            (\<lambda>_. io_return (NormalizedR2
                    \<lparr>n_bucket = bucket_name b, n_jurisdiction = bucket_jurisdiction b,
                     n_prefix = None, n_includePaths = None, n_excludePaths = None\<rparr>))
      | SourceR2 s \<Rightarrow>
          (case r2_bucket s of
             BucketResource b \<Rightarrow>
               io_bind (validateBucketSource api sc i (BucketResource b) (bucket_jurisdiction b))
                 (\<lambda>_. io_return (NormalizedR2
                         \<lparr>n_bucket = bucket_name b, n_jurisdiction = bucket_jurisdiction b,
                          n_prefix = r2s_prefix s, n_includePaths = r2s_includePaths s,
                          n_excludePaths = r2s_excludePaths s\<rparr>))
           | BucketName n \<Rightarrow>
               io_bind (validateBucketSource api sc i (BucketName n) (r2s_jurisdiction s))
                 (\<lambda>_. io_return (NormalizedR2
                         \<lparr>n_bucket = n, n_jurisdiction = r2s_jurisdiction s,
                          n_prefix = r2s_prefix s, n_includePaths = r2s_includePaths s,
                          n_excludePaths = r2s_excludePaths s\<rparr>)))
      | SourceWebCrawler w \<Rightarrow>
          io_bind (validateWebCrawlerSourceDomain api (wc_domain w))
            (\<lambda>_. io_return (NormalizedWebCrawler w)))"

text \<open>
  The regular expression of \<open>validateTokenId\<close>, with the flag \<open>i\<close>: 8, 4, 4, 4 and 12
  hexadecimal digits, with hyphens between the groups and nothing before or after.
\<close>

definition is_hex :: "char \<Rightarrow> bool" where
  "is_hex c = (c \<in> set ''0123456789abcdefABCDEF'')"

fun hex_group :: "nat \<Rightarrow> string \<Rightarrow> string option" where
  "hex_group 0 s = Some s"
| "hex_group (Suc n) [] = None"
| "hex_group (Suc n) (c # s) = (if is_hex c then hex_group n s else None)"

fun hyphen :: "string \<Rightarrow> string option" where
  "hyphen (c # s) = (if c = CHR ''-'' then Some s else None)"
| "hyphen [] = None"

definition is_uuid :: "string \<Rightarrow> bool" where
  "is_uuid s =
     (case hex_group 8 s of None \<Rightarrow> False | Some s1 \<Rightarrow>
      case hyphen s1 of None \<Rightarrow> False | Some s2 \<Rightarrow>
      case hex_group 4 s2 of None \<Rightarrow> False | Some s3 \<Rightarrow>
      case hyphen s3 of None \<Rightarrow> False | Some s4 \<Rightarrow>
      case hex_group 4 s4 of None \<Rightarrow> False | Some s5 \<Rightarrow>
      case hyphen s5 of None \<Rightarrow> False | Some s6 \<Rightarrow>
      case hex_group 4 s6 of None \<Rightarrow> False | Some s7 \<Rightarrow>
      case hyphen s7 of None \<Rightarrow> False | Some s8 \<Rightarrow>
      case hex_group 12 s8 of None \<Rightarrow> False | Some s9 \<Rightarrow> s9 = [])"

definition invalid_token_id :: "string \<Rightarrow> thrown" where
  "invalid_token_id i =
     Error (''Invalid token ID: '' @ quoted i @ [CHR 0x0A]
       @ ''The token ID must be a valid UUID for an AI Search service token.'' @ [CHR 0x0A]
       @ ''See https://developers.cloudflare.com/ai-search/get-started/api/#2-create-a-service-api-token'')"

definition validateTokenId :: "string \<Rightarrow> unit io" where
  "validateTokenId i = (if \<not> is_uuid i then io_throw (invalid_token_id i) else io_return ())"

text \<open>
  Without a token the handler declares the child resource \<open>AiSearchToken("token", ...)\<close>;
  what the engine (resource.ts, not among the sources) makes of it is a call here.
\<close>

definition normalizeTokenId :: "provider \<Rightarrow> AiSearchProps \<Rightarrow> string io" where
  "normalizeTokenId api props =
     (case as_token props of
        TokenIdProperty i \<Rightarrow> io_bind (validateTokenId i) (\<lambda>_. io_return i)
      | TokenProperty token \<Rightarrow> io_bind (validateTokenId (tokenId token)) (\<lambda>_. io_return (tokenId token))
      | NoToken \<Rightarrow>
          io_bind (request (answer_token_resource api)
                     (C_AiSearchToken ''token''
                        \<lparr>tkp_api = as_api props, tkp_name = None,
                         tkp_adopt = as_adopt props, tkp_delete = as_delete props\<rparr>))
            (\<lambda>token. io_return (tokenId token)))"

definition AiSearch_payload :: "string \<Rightarrow> normalized_source \<Rightarrow> string \<Rightarrow> AiSearchProps \<Rightarrow> ApiPayload" where
  "AiSearch_payload n source token_id props =
     (case source of
        NormalizedR2 r \<Rightarrow>
          \<lparr>p_id = n, p_source = n_bucket r, p_type = ''r2'', p_settings = as_settings props,
           p_source_params =
             \<lparr>include_items = n_includePaths r, exclude_items = n_excludePaths r,
              r2_jurisdiction =
                (if n_jurisdiction r \<noteq> Some ''default'' then n_jurisdiction r else None),
              prefix = n_prefix r, web_crawler = None\<rparr>,
           p_token_id = token_id\<rparr>
      | NormalizedWebCrawler w \<Rightarrow>
          \<lparr>p_id = n, p_source = wc_domain w, p_type = ''web-crawler'', p_settings = as_settings props,
           p_source_params =
             \<lparr>include_items = wc_includePaths w, exclude_items = wc_excludePaths w,
              r2_jurisdiction = None, prefix = None,
              web_crawler = Some \<lparr>parse_type = wc_parseType w, parse_options = wc_parseOptions w,
                                  store_options = wc_storeOptions w\<rparr>\<rparr>,
           p_token_id = token_id\<rparr>)"

text \<open>
  The test of the \<open>catch\<close> around the create call. \<open>errorData\<close> is used as an array
  without a check, so an error with status 400 and no \<open>errorData\<close> makes the test itself
  throw a TypeError.
\<close>

definition isAlreadyExistsError :: "thrown \<Rightarrow> thrown + bool" where
  "isAlreadyExistsError error =
     (case error of
        CloudflareApiError st ed m \<Rightarrow>
          if st = 400 then
            (case ed of
               None \<Rightarrow> Inl (TypeError ''Cannot read properties of undefined (reading some)'')
             | Some es \<Rightarrow> Inr (list_ex (\<lambda>e. code e = Some 7022) es))
          else Inr False
      | Error m \<Rightarrow> Inr False
      | TypeError m \<Rightarrow> Inr False)"

definition replace_needed :: "ApiPayload \<Rightarrow> AiSearch \<Rightarrow> bool" where
  "replace_needed payload out =
     (let replace =
            (o_source out \<noteq> None \<and>
             (Some (p_type payload) \<noteq> o_type out \<or> Some (p_source payload) \<noteq> o_source out));
          replaceLegacy =
            (sourceType out \<noteq> None \<and>
             (Some (p_type payload) \<noteq> sourceType out \<or>
              (p_type payload = ''r2'' \<and> sourceBucket out \<noteq> None \<and>
               Some (p_source payload) \<noteq> sourceBucket out) \<or>
              (p_type payload = ''web-crawler'' \<and> sourceDomain out \<noteq> None \<and>
               Some (p_source payload) \<noteq> sourceDomain out)))
      in replace \<or> replaceLegacy)"

text \<open>
  What follows the creation (or adoption) of an instance: the indexing job, unless
  \<open>indexOnCreate\<close> is false, and the output.
\<close>

definition index_and_output :: "provider \<Rightarrow> AiSearchProps \<Rightarrow> ApiResponse \<Rightarrow> AiSearch outcome io" where
  "index_and_output api props instance =
     io_bind (if indexOnCreate props \<noteq> Some False
              then runAiSearchJob api (r_id instance) else io_return ())
       (\<lambda>_. io_return (Output (formatAiSearch instance)))"

text \<open>
  The handler of \<open>cloudflare::AiSearch\<close>. \<open>api\<close> is what \<open>createCloudflareApi(props)\<close> has
  returned (api.ts, not among the sources): the model starts after that call. Its
  constants \<open>name\<close> and \<open>adopt\<close> and the test of the name come first, then its parts
  from the payload on; the handler itself is the last definition.
\<close>

definition AiSearch_name :: "AiSearch Context \<Rightarrow> string \<Rightarrow> AiSearchProps \<Rightarrow> string" where
  "AiSearch_name this i props =
     (case as_name props of
        Some n \<Rightarrow> n
      | None \<Rightarrow> createPhysicalName (ctx_scope this) i (Some ''-'') (Some 32))"

definition invalid_name :: "string \<Rightarrow> bool" where
  "invalid_name n = (length n < 1 \<or> length n > 32)"

definition AiSearch_adopt :: "AiSearch Context \<Rightarrow> AiSearchProps \<Rightarrow> bool" where
  "AiSearch_adopt this props =
     (case as_adopt props of Some a \<Rightarrow> a | None \<Rightarrow> scope_adopt (ctx_scope this))"

text \<open>The \<open>else\<close> branch of the handler: create, or adopt, then index.\<close>

definition AiSearch_create :: "provider \<Rightarrow> AiSearchProps \<Rightarrow> bool \<Rightarrow> string \<Rightarrow> ApiPayload \<Rightarrow> AiSearch outcome io" where
  "AiSearch_create api props adopt n payload =
     io_bind
       (io_catch (createAiSearchInstance api payload)
          (\<lambda>error.
             case isAlreadyExistsError error of
               Inl e \<Rightarrow> io_throw e
             | Inr already \<Rightarrow>
                 if already \<and> adopt then
                   io_bind (getAiSearchInstance api n)
                     (\<lambda>instance. updateAiSearchInstance api (r_id instance) payload)
                 else io_throw error))
       (index_and_output api props)"

text \<open>The handler from the payload on, with the normalized source and the token id.\<close>

definition AiSearch_reconcile :: "provider \<Rightarrow> AiSearch Context \<Rightarrow> AiSearchProps \<Rightarrow> string \<Rightarrow> normalized_source \<Rightarrow> string \<Rightarrow> AiSearch outcome io" where
  "AiSearch_reconcile api this props n source token_id =
     (let payload = AiSearch_payload n source token_id props;
          create_path = AiSearch_create api props (AiSearch_adopt this props) n payload
      in case ctx_output this of
           None \<Rightarrow> create_path
         | Some out \<Rightarrow>
             (case o_id out of
                None \<Rightarrow> create_path
              | Some oid \<Rightarrow>
                  if ctx_phase this = Update \<and> oid \<noteq> [] then
                    (if replace_needed payload out then io_return (Replace True)
                     else io_bind (updateAiSearchInstance api oid payload)
                            (\<lambda>instance. io_return (Output (formatAiSearch instance))))
                  else create_path))"

definition AiSearch_handler :: "provider \<Rightarrow> AiSearch Context \<Rightarrow> string \<Rightarrow> AiSearchProps \<Rightarrow> AiSearch outcome io" where
  "AiSearch_handler api this i props =
     (if ctx_phase this = Delete then
        (case ctx_output this of
           None \<Rightarrow> io_return Destroy
         | Some out \<Rightarrow>
             (case o_id out of
                None \<Rightarrow> io_return Destroy
              | Some oid \<Rightarrow>
                  if as_delete props \<noteq> Some False \<and> oid \<noteq> [] then
                    io_bind (deleteIndex api (o_vectorizeName out))
                      (\<lambda>_. io_bind (deleteAiSearchInstance api oid) (\<lambda>_. io_return Destroy))
                  else io_return Destroy))
      else
        (let n = AiSearch_name this i props
         in if invalid_name n then
              io_throw (Error (''AI Search instance name must be 1-32 characters, got ''
                               @ show_nat (length n) @ '' ('' @ quoted n @ '')''))
            else
              io_bind (promise_all2 api (normalizeSource api (ctx_scope this) i (as_source props))
                         (normalizeTokenId api props))
                (\<lambda>(source, token_id). AiSearch_reconcile api this props n source token_id)))"

section \<open>AiSearchToken\<close>

definition token_output :: "AiSearchTokenApiResponse \<Rightarrow> AccountApiToken \<Rightarrow> string \<Rightarrow> AiSearchToken" where
  "token_output t accountToken cfApiKey_arg =
     \<lparr>tokenId = t_id t, accountTokenId = aat_id accountToken,
      tk_accountId = t_account_id t, tk_accountTag = t_account_tag t, tk_name = t_name t,
      cfApiId = t_cf_api_id t, cfApiKey = Secret cfApiKey_arg, tk_enabled = t_enabled t,
      tk_createdAt = t_created_at t, tk_modifiedAt = t_modified_at t\<rparr>"

text \<open>
  The handler of \<open>cloudflare::AiSearchToken\<close>, after \<open>createCloudflareApi(props)\<close> has
  returned. \<open>AccountApiToken("account-token", ...)\<close> declares a child resource; what
  the engine makes of it is a call here. The constant \<open>tokenName\<close> and the properties
  of the child resource come first.
\<close>

definition AiSearchToken_name :: "AiSearchToken Context \<Rightarrow> string \<Rightarrow> AiSearchTokenProps \<Rightarrow> string" where
  "AiSearchToken_name this i props =
     (case tkp_name props of
        Some n \<Rightarrow> n
      | None \<Rightarrow> createPhysicalName (ctx_scope this) i None None)"

definition account_token_props :: "string \<Rightarrow> AiSearchTokenProps \<Rightarrow> AccountApiTokenProps" where
  "account_token_props tokenName props =
     \<lparr>aat_name = tokenName @ '' (AI Search Service Token)'',
      aat_permissionGroups = [''AI Search Index Engine'', ''Workers R2 Storage Write''],
      aat_api = tkp_api props, aat_delete = tkp_delete props\<rparr>"

definition AiSearchToken_handler :: "provider \<Rightarrow> AiSearchToken Context \<Rightarrow> string \<Rightarrow> AiSearchTokenProps \<Rightarrow> AiSearchToken outcome io" where
  "AiSearchToken_handler api this i props =
     (let tokenName = AiSearchToken_name this i props;
          create_path =
            io_bind (request (answer_account_token api)
                       (C_AccountApiToken ''account-token'' (account_token_props tokenName props)))
              (\<lambda>accountToken.
                 case aat_value accountToken of
                   None \<Rightarrow> io_throw (Error ''Failed to create account API token for AI Search - no token value returned'')
                 | Some v \<Rightarrow>
                     (let cfApiId_v = aat_id accountToken; cfApiKey_v = unencrypted v
                      in io_catch
                           (io_bind (createAiSearchToken api
                                       \<lparr>tp_name = tokenName, tp_cf_api_id = cfApiId_v,
                                        tp_cf_api_key = cfApiKey_v\<rparr>)
                              (\<lambda>result. io_return (Output (token_output result accountToken cfApiKey_v))))
                           (\<lambda>error.
                              case error of
                                CloudflareApiError st ed m \<Rightarrow>
                                  if tkp_adopt props = Some True then
                                    io_bind (listAiSearchTokens api)
                                      (\<lambda>tokens.
                                         case find (\<lambda>t. t_name t = tokenName) tokens of
                                           Some existing \<Rightarrow>
                                             io_return (Output (token_output existing accountToken cfApiKey_v))
                                         | None \<Rightarrow> io_throw error)
                                  else io_throw error
                              | Error m \<Rightarrow> io_throw error
                              | TypeError m \<Rightarrow> io_throw error)))
      in if ctx_phase this = Delete then
           (case ctx_output this of
              None \<Rightarrow> io_return Destroy
            | Some out \<Rightarrow>
                if tokenId out \<noteq> [] \<and> tkp_delete props \<noteq> Some False then
                  io_bind (deleteAiSearchToken api (tokenId out)) (\<lambda>_. io_return Destroy)
                else io_return Destroy)
         else
           (case ctx_output this of
              None \<Rightarrow> create_path
            | Some out \<Rightarrow>
                if ctx_phase this = Update \<and> tokenId out \<noteq> [] then io_return (Output out)
                else create_path))"

section \<open>VpcService\<close>

text \<open>
  \<open>normalizeNetwork\<close> returns \<open>{ tunnel_id, ...rest }\<close>, where \<open>rest\<close> holds the other
  keys of the object it is given. The model takes these as a second argument: none for
  the network of an IP host, the key \<open>resolverIps\<close> for a resolver network.
\<close>

definition normalizeNetwork :: "Network \<Rightarrow> string list option \<Rightarrow> wire_network" where
  "normalizeNetwork network rest =
     (case network of
        TunnelIdNetwork t \<Rightarrow> \<lparr>tunnel_id = t, resolver_ips = None, rest_resolverIps = rest\<rparr>
      | TunnelNetwork tunnel \<Rightarrow>
          \<lparr>tunnel_id = tunnel_tunnelId tunnel, resolver_ips = None, rest_resolverIps = rest\<rparr>)"

definition normalizeHost :: "Host \<Rightarrow> wire_host" where
  "normalizeHost host =
     (case host of
        HostnameHost hostname resolverNetwork resolverIps \<Rightarrow>
          WireHostnameHost hostname (normalizeNetwork resolverNetwork resolverIps)
      | IPHost ipv4 ipv6 network \<Rightarrow> WireIPHost ipv4 ipv6 (normalizeNetwork network None))"

text \<open>The mapping of the host in \<open>formatOutput\<close>.\<close>

definition formatOutput_host :: "wire_host \<Rightarrow> Host" where
  "formatOutput_host h =
     (case h of
        WireHostnameHost hostname resolver_network \<Rightarrow>
          HostnameHost hostname (TunnelIdNetwork (tunnel_id resolver_network))
            (resolver_ips resolver_network)
      | WireIPHost ipv4 ipv6 network \<Rightarrow> IPHost ipv4 ipv6 (TunnelIdNetwork (tunnel_id network)))"

text \<open>
  \<open>new Date(s).getTime()\<close> is the platform's; it is the parameter \<open>getTime\<close>.
\<close>

definition formatOutput :: "(string \<Rightarrow> int) \<Rightarrow> ConnectivityService \<Rightarrow> VpcService" where
  "formatOutput getTime service =
     \<lparr>vs_name = in_name service, serviceId = service_id service,
      vs_serviceType = in_type service, vs_tcpPort = tcp_port service,
      vs_appProtocol = app_protocol service, vs_httpPort = http_port service,
      vs_httpsPort = https_port service, vs_host = formatOutput_host (in_host service),
      vs_createdAt = getTime (created_at service), vs_updatedAt = getTime (updated_at service)\<rparr>"

text \<open>
  The handler of \<open>cloudflare::VpcService\<close>, after \<open>createCloudflareApi(props)\<close>; its
  constants \<open>input\<close> and \<open>adopt\<close> come first.
\<close>

definition VpcService_input :: "VpcService Context \<Rightarrow> string \<Rightarrow> VpcServiceProps \<Rightarrow> ConnectivityService_Input" where
  "VpcService_input this i props =
     \<lparr>in_name = (case vp_name props of
                   Some n \<Rightarrow> n
                 | None \<Rightarrow> createPhysicalName (ctx_scope this) i None None),
      in_type = (case serviceType props of Some t \<Rightarrow> t | None \<Rightarrow> ''http''),
      tcp_port = tcpPort props, app_protocol = appProtocol props,
      http_port = httpPort props, https_port = httpsPort props,
      in_host = normalizeHost (vp_host props)\<rparr>"

definition VpcService_adopt :: "VpcService Context \<Rightarrow> VpcServiceProps \<Rightarrow> bool" where
  "VpcService_adopt this props =
     (case vp_adopt props of Some a \<Rightarrow> a | None \<Rightarrow> scope_adopt (ctx_scope this))"


definition VpcService_handler :: "(string \<Rightarrow> int) \<Rightarrow> provider \<Rightarrow> VpcService Context \<Rightarrow> string \<Rightarrow> VpcServiceProps \<Rightarrow> VpcService outcome io" where
  "VpcService_handler getTime api this i props =
     (if ctx_phase this = Delete then
        (case ctx_output this of
           None \<Rightarrow> io_return Destroy
         | Some out \<Rightarrow>
             if serviceId out \<noteq> [] then
               io_bind (deleteService api (serviceId out)) (\<lambda>_. io_return Destroy)
             else io_return Destroy)
      else
        (let input = VpcService_input this i props
         in case ctx_phase this of
              Create \<Rightarrow>
                (let adopt = VpcService_adopt this props
                 in io_bind
                      (io_catch (createService api input)
                         (\<lambda>err.
                            if isCloudflareApiError err None (Some 5101) \<and> adopt then
                              io_bind (listServices api)
                                (\<lambda>services.
                                   case find (\<lambda>s. in_name s = in_name input) services of
                                     Some service \<Rightarrow> updateService api (service_id service) input
                                   | None \<Rightarrow> io_throw err)
                            else io_throw err))
                      (\<lambda>service. io_return (Output (formatOutput getTime service))))
            | Update \<Rightarrow>
                (case ctx_output this of
                   None \<Rightarrow> io_throw (TypeError ''Cannot read properties of undefined (reading serviceId)'')
                 | Some out \<Rightarrow>
                     io_bind (updateService api (serviceId out) input)
                       (\<lambda>service. io_return (Output (formatOutput getTime service))))
            | Delete \<Rightarrow> io_return Destroy))"

section \<open>D1Database\<close>

definition DEFAULT_MIGRATIONS_TABLE :: string where
  "DEFAULT_MIGRATIONS_TABLE = ''d1_migrations''"

definition nonempty_files :: "D1SqlFile list option \<Rightarrow> bool" where
  "nonempty_files fs = (case fs of None \<Rightarrow> False | Some l \<Rightarrow> l \<noteq> [])"

definition files_or_empty :: "D1SqlFile list option \<Rightarrow> D1SqlFile list" where
  "files_or_empty fs = (case fs of None \<Rightarrow> [] | Some l \<Rightarrow> l)"

text \<open>
  \<open>Promise.all(importFiles.map(...))\<close>: every import is started, in the order of the
  list. When several fail, the one that fails first in time decides; the model takes the
  first of the list.
\<close>

fun import_all :: "provider \<Rightarrow> string \<Rightarrow> D1SqlFile list \<Rightarrow> unit io" where
  "import_all api databaseId [] = io_return ()"
| "import_all api databaseId (f # fs) =
     (\<lambda>h. case request (answer_unit api) (C_importD1Database databaseId (sql f) (sql_id f)) h of
             (r, h1) \<Rightarrow>
               (case import_all api databaseId fs h1 of
                  (rs, h2) \<Rightarrow> (case r of Inl e \<Rightarrow> (Inl e, h2) | Inr u \<Rightarrow> (rs, h2))))"

definition d1_adopt_existing :: "provider \<Rightarrow> string \<Rightarrow> D1DatabaseProps \<Rightarrow> D1ResponseObject io" where
  "d1_adopt_existing api databaseName props =
     io_bind (listDatabases api (Some databaseName))
       (\<lambda>databases.
          case find (\<lambda>db. d1_name db = databaseName) databases of
            None \<Rightarrow> io_throw (Error (''Failed to find existing database '' @ [CHR 0x27]
                                     @ databaseName @ [CHR 0x27] @ '' for adoption''))
          | Some existingDb \<Rightarrow>
              io_bind (getDatabase api (uuid existingDb))
                (\<lambda>dbData.
                   case readReplication props of
                     Some mode \<Rightarrow> updateReadReplicationMode api (uuid existingDb) mode
                   | None \<Rightarrow> io_return dbData))"

definition d1_create_or_adopt :: "provider \<Rightarrow> bool \<Rightarrow> string \<Rightarrow> D1DatabaseProps \<Rightarrow> D1ResponseObject io" where
  "d1_create_or_adopt api adopt databaseName props =
     io_catch
       (io_bind (createDatabase api databaseName props)
          (\<lambda>dbData.
             case clone props of
               None \<Rightarrow> io_return dbData
             | Some c \<Rightarrow>
                 if uuid dbData \<noteq> [] then io_bind (cloneDb api c (uuid dbData)) (\<lambda>_. io_return dbData)
                 else io_return dbData))
       (\<lambda>error.
          case error of
            CloudflareApiError st ed m \<Rightarrow>
              if adopt \<and> str_includes m ''already exists''
              then d1_adopt_existing api databaseName props
              else io_throw error
          | Error m \<Rightarrow> io_throw error
          | TypeError m \<Rightarrow> io_throw error)"

definition d1_update :: "provider \<Rightarrow> D1Database \<Rightarrow> D1DatabaseProps \<Rightarrow> D1ResponseObject io" where
  "d1_update api out props =
     (if truthy (primaryLocationHint props) \<and> primaryLocationHint props \<noteq> db_primaryLocationHint out
      then io_throw (Error (''Cannot update primaryLocationHint from '' @ [CHR 0x27]
               @ (case db_primaryLocationHint out of None \<Rightarrow> ''undefined'' | Some v \<Rightarrow> v) @ [CHR 0x27]
               @ '' to '' @ [CHR 0x27]
               @ (case primaryLocationHint props of None \<Rightarrow> ''undefined'' | Some v \<Rightarrow> v) @ [CHR 0x27]
               @ '' after database creation.''))
      else if (case d1p_jurisdiction props of None \<Rightarrow> ''default'' | Some j \<Rightarrow> j)
              \<noteq> (case db_jurisdiction out of None \<Rightarrow> ''default'' | Some j \<Rightarrow> j)
      then io_throw (Error (''Cannot update jurisdiction from '' @ [CHR 0x27]
               @ (case db_jurisdiction out of None \<Rightarrow> ''undefined'' | Some v \<Rightarrow> v) @ [CHR 0x27]
               @ '' to '' @ [CHR 0x27]
               @ (case d1p_jurisdiction props of None \<Rightarrow> ''undefined'' | Some v \<Rightarrow> v) @ [CHR 0x27]
               @ '' after database creation.''))
      else updateReadReplicationMode api (db_id out)
             (case readReplication props of None \<Rightarrow> ''disabled'' | Some mode \<Rightarrow> mode))"

text \<open>
  What follows once the database data is at hand: the migrations, the imports and the
  output.
\<close>

definition migrate_and_output :: "provider \<Rightarrow> D1DatabaseProps \<Rightarrow> string \<Rightarrow> d1_dev \<Rightarrow> string \<Rightarrow> D1ResponseObject \<Rightarrow> D1Database outcome io" where
  "migrate_and_output api props databaseName dev jurisdiction dbData =
     io_bind
       (if nonempty_files (migrationsFiles props) then
          request (answer_unit api)
            (C_applyMigrations (files_or_empty (migrationsFiles props))
               (case migrationsTable props of
                  None \<Rightarrow> DEFAULT_MIGRATIONS_TABLE
                | Some t \<Rightarrow> if t = [] then DEFAULT_MIGRATIONS_TABLE else t)
               (uuid dbData))
        else io_return ())
       (\<lambda>_. io_bind
               (if nonempty_files (importFiles props)
                then import_all api (uuid dbData) (files_or_empty (importFiles props))
                else io_return ())
               (\<lambda>_. io_return (Output
                       \<lparr>db_id = uuid dbData, db_name = databaseName,
                        db_readReplication = readReplication props,
                        db_primaryLocationHint = primaryLocationHint props,
                        db_migrationsDir = migrationsDir props,
                        db_migrationsTable =
                          Some (case migrationsTable props of
                                  None \<Rightarrow> DEFAULT_MIGRATIONS_TABLE
                                | Some t \<Rightarrow> t),
                        db_dev = Some dev,
                        db_jurisdiction = Some jurisdiction\<rparr>)))"

text \<open>
  The constants \<open>databaseName\<close>, \<open>dev\<close>, \<open>adopt\<close> and \<open>local\<close> of the handler, and the
  first step of its delete phase:
  \<open>deleteMiniflareBinding\<close> when the stored output has a \<open>dev.id\<close>.
\<close>

definition D1Database_name :: "D1Database Context \<Rightarrow> string \<Rightarrow> D1DatabaseProps \<Rightarrow> string" where
  "D1Database_name this i props =
     (case d1p_name props of
        Some n \<Rightarrow> n
      | None \<Rightarrow>
          (case ctx_output this of
             Some out \<Rightarrow> db_name out
           | None \<Rightarrow> createPhysicalName (ctx_scope this) i None None))"

definition D1Database_dev :: "D1Database Context \<Rightarrow> string \<Rightarrow> D1DatabaseProps \<Rightarrow> d1_dev" where
  "D1Database_dev this databaseName props =
     \<lparr>dev_id =
        (case ctx_output this of
           None \<Rightarrow> databaseName
         | Some out \<Rightarrow> (case db_dev out of Some d \<Rightarrow> dev_id d | None \<Rightarrow> db_id out)),
      dev_is_remote = (case dev_remote props of Some r \<Rightarrow> r | None \<Rightarrow> False)\<rparr>"

definition D1Database_adopt :: "D1Database Context \<Rightarrow> D1DatabaseProps \<Rightarrow> bool" where
  "D1Database_adopt this props =
     (case d1p_adopt props of Some a \<Rightarrow> a | None \<Rightarrow> scope_adopt (ctx_scope this))"

definition d1_local :: "D1Database Context \<Rightarrow> D1DatabaseProps \<Rightarrow> bool" where
  "d1_local this props = (scope_local (ctx_scope this) \<and> dev_remote props \<noteq> Some True)"

definition delete_dev_binding :: "provider \<Rightarrow> D1Database \<Rightarrow> unit io" where
  "delete_dev_binding api out =
     (case db_dev out of
        None \<Rightarrow> io_return ()
      | Some d \<Rightarrow>
          if dev_id d \<noteq> []
          then request (answer_unit api) (C_deleteMiniflareBinding (dev_id d))
          else io_return ())"

text \<open>
  The handler of \<open>cloudflare::D1Database\<close> (\<open>_D1Database\<close>). \<open>applyLocalD1Migrations\<close>,
  \<open>deleteMiniflareBinding\<close>, \<open>applyMigrations\<close> and \<open>importD1Database\<close> are collaborators
  whose sources are not at hand; each is a call. The provider \<open>api\<close> stands for
  \<open>createCloudflareApi(props)\<close>, which the handler calls once it has left the local
  branch.
\<close>

definition D1Database_handler :: "provider \<Rightarrow> D1Database Context \<Rightarrow> string \<Rightarrow> D1DatabaseProps \<Rightarrow> D1Database outcome io" where
  "D1Database_handler api this i props =
     (let databaseName = D1Database_name this i props;
          jurisdiction = (case d1p_jurisdiction props of None \<Rightarrow> ''default'' | Some j \<Rightarrow> j)
      in if ctx_phase this = Update \<and> map_option db_name (ctx_output this) \<noteq> Some databaseName
         then io_return (Replace False)
         else
           (let local_mode = d1_local this props;
                dev = D1Database_dev this databaseName props;
                adopt = D1Database_adopt this props;
                migrationsTable_out =
                  (case migrationsTable props of None \<Rightarrow> DEFAULT_MIGRATIONS_TABLE | Some t \<Rightarrow> t)
            in if local_mode then
                 io_bind
                   (if nonempty_files (migrationsFiles props) \<or> nonempty_files (importFiles props)
                    then request (answer_unit api)
                           (C_applyLocalD1Migrations (dev_id dev) migrationsTable_out
                              (files_or_empty (migrationsFiles props))
                              (files_or_empty (importFiles props))
                              (rootDir (ctx_scope this)))
                    else io_return ())
                   (\<lambda>_. io_return (Output
                           \<lparr>db_id = (case ctx_output this of None \<Rightarrow> [] | Some out \<Rightarrow> db_id out),
                            db_name = databaseName,
                            db_readReplication = readReplication props,
                            db_primaryLocationHint = primaryLocationHint props,
                            db_migrationsDir = migrationsDir props,
                            db_migrationsTable = Some migrationsTable_out,
                            db_dev = Some dev, db_jurisdiction = Some jurisdiction\<rparr>))
               else if ctx_phase this = Delete then
                 (case ctx_output this of
                    None \<Rightarrow> io_throw (TypeError ''Cannot read properties of undefined (reading dev)'')
                  | Some out \<Rightarrow>
                      io_bind (delete_dev_binding api out)
                        (\<lambda>_. io_bind
                                (if d1p_delete props \<noteq> Some False \<and> db_id out \<noteq> []
                                 then deleteDatabase api (db_id out) else io_return ())
                                (\<lambda>_. io_return Destroy)))
               else
                 io_bind
                   (case ctx_output this of
                      None \<Rightarrow> d1_create_or_adopt api adopt databaseName props
                    | Some out \<Rightarrow>
                        if ctx_phase this = Create \<or> db_id out = []
                        then d1_create_or_adopt api adopt databaseName props
                        else if db_id out \<noteq> [] then d1_update api out props
                        else createDatabase api databaseName props)
                   (migrate_and_output api props databaseName dev jurisdiction)))"

section \<open>DefaultRole\<close>

text \<open>
  The Database and Branch resources of PlanetScale (database.ts and branch.ts, not among
  the sources), with the properties the handler reads; the two environment variables;
  the output of the resource, a Role without \<open>successor\<close> (role.ts, not among the
  sources), with the keys the handler sets.
\<close>

record Database =
  database_organization :: string
  database_res_name :: string

datatype database_ref = DatabaseName string | DatabaseResource Database

record Branch =
  branch_res_name :: string

datatype branch_ref = BranchName string | BranchResource Branch

record DefaultRoleProps =
  dr_organization :: "string option"
  dr_database :: database_ref
  dr_branch :: "branch_ref option"
  forceReset :: "bool option"

record process_env =
  PLANETSCALE_ORGANIZATION :: "string option"
  PLANETSCALE_ORG_ID :: "string option"

record DefaultRole =
  role_id :: string
  role_name :: string
  expiresAt :: string
  role_host :: string
  username :: string
  ttl :: int
  password :: Secret
  databaseName :: string
  connectionUrl :: Secret
  connectionUrlPooled :: Secret
  inheritedRoles :: "string list"
  role_database :: string
  role_branch :: string
  role_organization :: string

definition connection_url :: "role_data \<Rightarrow> string \<Rightarrow> string" where
  "connection_url d port =
     ''postgresql://'' @ rd_username d @ '':'' @ rd_password d @ ''@'' @ access_host_url d
     @ '':'' @ port @ ''/'' @ database_name d @ ''?sslmode=verify-full''"

text \<open>
  The handler of \<open>planetscale::DefaultRole\<close>; \<open>api\<close> stands for
  \<open>createPlanetScaleClient(props)\<close>. The three constants of the handler,
  \<open>organization\<close>, \<open>database\<close> and \<open>branch\<close>, come first.
\<close>

definition role_organization_of :: "process_env \<Rightarrow> DefaultRoleProps \<Rightarrow> string option" where
  "role_organization_of env props =
     (case dr_organization props of
        Some organization_prop \<Rightarrow> Some organization_prop
      | None \<Rightarrow>
          (case dr_database props of
             DatabaseResource db \<Rightarrow> Some (database_organization db)
           | DatabaseName n \<Rightarrow>
               (case PLANETSCALE_ORGANIZATION env of
                  Some v \<Rightarrow> Some v
                | None \<Rightarrow> PLANETSCALE_ORG_ID env)))"

definition role_database_of :: "DefaultRoleProps \<Rightarrow> string" where
  "role_database_of props =
     (case dr_database props of
        DatabaseName n \<Rightarrow> n
      | DatabaseResource db \<Rightarrow> database_res_name db)"

definition role_branch_of :: "DefaultRoleProps \<Rightarrow> string" where
  "role_branch_of props =
     (case dr_branch props of
        Some (BranchName b) \<Rightarrow> b
      | Some (BranchResource b) \<Rightarrow> branch_res_name b
      | None \<Rightarrow> ''main'')"

definition DefaultRole_handler :: "process_env \<Rightarrow> provider \<Rightarrow> DefaultRole Context \<Rightarrow> string \<Rightarrow> DefaultRoleProps \<Rightarrow> DefaultRole outcome io" where
  "DefaultRole_handler env api this i props =
     (let organization = role_organization_of env props
      in if \<not> truthy organization then
           io_throw (Error ''PlanetScale organization is required. Please set the `organization` property or the `PLANETSCALE_ORGANIZATION` environment variable.'')
         else
           (let org = (case organization of Some v \<Rightarrow> v | None \<Rightarrow> []);
                database = role_database_of props;
                branch = role_branch_of props;
                role_at = \<lparr>path_organization = org, path_database = database, path_branch = branch\<rparr>
            in case ctx_phase this of
                 Create \<Rightarrow>
                   io_bind
                     (if forceReset props \<noteq> Some True then
                        io_bind (request (answer_role_lookup api) (C_getDefaultRole role_at))
                          (\<lambda>existing.
                             if lookup_data existing \<noteq> None then
                               io_throw (Error (''Default role already exists for database '' @ quoted database
                                  @ '' branch '' @ quoted branch @ ''. Use forceReset to reset the role.''))
                             else if lookup_error existing \<and> lookup_status existing \<noteq> 404 then
                               io_throw (Error (''Failed to check for default role in database '' @ quoted database
                                  @ '' branch '' @ quoted branch @ ''.''))
                             else io_return ())
                      else io_return ())
                     (\<lambda>_. io_bind (request (answer_unit api) (C_waitForBranchReady role_at))
                        (\<lambda>_. io_bind (request (answer_role api) (C_resetDefaultRole role_at))
                           (\<lambda>d. io_return (Output
                                   \<lparr>role_id = rd_id d, role_name = rd_name d, expiresAt = expires_at d,
                                    role_host = access_host_url d, username = rd_username d,
                                    ttl = rd_ttl d, password = Secret (rd_password d),
                                    databaseName = database_name d,
                                    connectionUrl = Secret (connection_url d ''5432''),
                                    connectionUrlPooled = Secret (connection_url d ''6432''),
                                    inheritedRoles = inherited_roles d,
                                    role_database = database, role_branch = branch,
                                    role_organization = org\<rparr>))))
               | Update \<Rightarrow>
                   (case ctx_output this of
                      None \<Rightarrow> io_throw (TypeError ''Cannot read properties of undefined (reading database)'')
                    | Some out \<Rightarrow>
                        if database \<noteq> role_database out \<or> branch \<noteq> role_branch out
                        then io_return (Replace False)
                        else io_return (Output out))
               | Delete \<Rightarrow>
                   io_bind (request (answer_role api) (C_resetDefaultRole role_at))
                     (\<lambda>_. io_return Destroy)))"

section \<open>Declared properties\<close>

text \<open>
  The properties that each properties interface declares itself, as the sources list
  them: name, type, whether the property is optional, and the documented default. The
  interfaces they extend (\<open>CloudflareApiOptions\<close>, \<open>PlanetScaleProps\<close>) carry the
  credentials of the provider and are declared in files that are not among the sources.
\<close>

datatype resource_type =
  AiSearch_resource | AiSearchToken_resource | D1Database_resource | VpcService_resource
  | DefaultRole_resource

record property =
  prop_name :: string
  prop_type :: string
  prop_optional :: bool
  prop_default :: "string option"

definition decl :: "string \<Rightarrow> string \<Rightarrow> bool \<Rightarrow> string option \<Rightarrow> property" where
  "decl n t opt d = \<lparr>prop_name = n, prop_type = t, prop_optional = opt, prop_default = d\<rparr>"

definition declared_properties :: "resource_type \<Rightarrow> property list" where
  "declared_properties r =
     (case r of
        AiSearch_resource \<Rightarrow>
          [decl ''name'' ''string'' True (Some ''${app}-${stage}-${id}''),
           decl ''source'' ''R2Bucket | AiSearchR2Source | AiSearchWebCrawlerSource'' False None,
           decl ''aiSearchModel'' ''AiSearch.Model'' True (Some ''@cf/meta/llama-3.3-70b-instruct-fp8-fast''),
           decl ''embeddingModel'' ''AiSearch.EmbeddingModel'' True (Some ''@cf/baai/bge-m3''),
           decl ''chunk'' ''boolean'' True (Some ''true''),
           decl ''chunkSize'' ''number'' True (Some ''256''),
           decl ''chunkOverlap'' ''number'' True (Some ''10''),
           decl ''maxNumResults'' ''number'' True (Some ''10''),
           decl ''scoreThreshold'' ''number'' True (Some ''0.4''),
           decl ''reranking'' ''boolean'' True (Some ''false''),
           decl ''rerankingModel'' ''AiSearch.RerankingModel'' True (Some ''@cf/baai/bge-reranker-base''),
           decl ''rewriteQuery'' ''boolean'' True (Some ''false''),
           decl ''rewriteModel'' ''AiSearch.Model'' True (Some ''@cf/meta/llama-3.3-70b-instruct-fp8-fast''),
           decl ''cache'' ''boolean'' True (Some ''false''),
           decl ''cacheThreshold'' ''string'' True (Some ''close_enough''),
           decl ''metadata'' ''Record<string, unknown>'' True None,
           decl ''indexOnCreate'' ''boolean'' True (Some ''true''),
           decl ''delete'' ''boolean'' True (Some ''true''),
           decl ''adopt'' ''boolean'' True (Some ''false''),
           decl ''token'' ''AiSearchToken'' True None,
           decl ''tokenId'' ''string'' True None]
      | AiSearchToken_resource \<Rightarrow>
          [decl ''name'' ''string'' True (Some ''Uses the resource ID''),
           decl ''adopt'' ''boolean'' True (Some ''false''),
           decl ''delete'' ''boolean'' True (Some ''true'')]
      | D1Database_resource \<Rightarrow>
          [decl ''name'' ''string'' True (Some ''${app}-${stage}-${id}''),
           decl ''primaryLocationHint'' ''PrimaryLocationHint'' True None,
           decl ''readReplication'' ''{ mode }'' True None,
           decl ''delete'' ''boolean'' True (Some ''true''),
           decl ''adopt'' ''boolean'' True (Some ''false''),
           decl ''clone'' ''D1Database | { id } | { name }'' True None,
           decl ''importFiles'' ''string[]'' True None,
           decl ''migrationsTable'' ''string'' True None,
           decl ''migrationsDir'' ''string'' True None,
           decl ''dev'' ''{ remote, force }'' True None,
           decl ''jurisdiction'' ''D1DatabaseJurisdiction'' True None]
      | VpcService_resource \<Rightarrow>
          [decl ''name'' ''string'' True (Some ''${app}-${stage}-${id}''),
           decl ''serviceType'' ''http'' True (Some ''http''),
           decl ''tcpPort'' ''number'' True None,
           decl ''appProtocol'' ''string'' True None,
           decl ''httpPort'' ''number'' True (Some ''80''),
           decl ''httpsPort'' ''number'' True (Some ''443''),
           decl ''host'' ''IPv4Host | IPv6Host | DualStackHost | HostnameHost'' False None,
           decl ''adopt'' ''boolean'' True (Some ''false'')]
      | DefaultRole_resource \<Rightarrow>
          [decl ''organization'' ''string'' True (Some ''process.env.PLANETSCALE_ORGANIZATION''),
           decl ''database'' ''string | Database'' False None,
           decl ''branch'' ''string | Branch'' True (Some ''main''),
           decl ''forceReset'' ''boolean'' True (Some ''false'')])"

text \<open>
  The resource type declares the optional property \<open>n\<close> of type \<open>t\<close>, with the
  documented default \<open>d\<close> when one is asked for.
\<close>

definition declares_optional :: "resource_type \<Rightarrow> string \<Rightarrow> string \<Rightarrow> string option \<Rightarrow> bool" where
  "declares_optional r n t d =
     list_ex (\<lambda>p. prop_name p = n \<and> prop_type p = t \<and> prop_optional p
                  \<and> (d = None \<or> prop_default p = d))
       (declared_properties r)"

definition declares :: "resource_type \<Rightarrow> string \<Rightarrow> bool" where
  "declares r n = list_ex (\<lambda>p. prop_name p = n) (declared_properties r)"

section \<open>Example values\<close>

text \<open>
  A provider that refuses every call, from which the examples below are made by
  replacing single answers; errors as the Cloudflare API sends them; a scope.
\<close>

definition refusing :: provider where
  "refusing =
     \<lparr>answer_unit = (\<lambda>h c. Inl (Error ''refused'')),
      answer_instance = (\<lambda>h c. Inl (Error ''refused'')),
      answer_domain_check = (\<lambda>h c. Inl (Error ''refused'')),
      answer_logs = (\<lambda>h c. Inl (Error ''refused'')),
      answer_token = (\<lambda>h c. Inl (Error ''refused'')),
      answer_tokens = (\<lambda>h c. Inl (Error ''refused'')),
      answer_token_resource = (\<lambda>h c. Inl (Error ''refused'')),
      answer_account_token = (\<lambda>h c. Inl (Error ''refused'')),
      answer_service = (\<lambda>h c. Inl (Error ''refused'')),
      answer_services = (\<lambda>h c. Inl (Error ''refused'')),
      answer_database = (\<lambda>h c. Inl (Error ''refused'')),
      answer_databases = (\<lambda>h c. Inl (Error ''refused'')),
      answer_role_lookup = (\<lambda>h c. Inl (Error ''refused'')),
      answer_role = (\<lambda>h c. Inl (Error ''refused'')),
      source_settles_first = (\<lambda>h. True)\<rparr>"

definition not_found :: thrown where
  "not_found =
     CloudflareApiError 404 (Some [\<lparr>code = Some 7002, payload_message = ''ai_search_not_found''\<rparr>])
       ''Error 404: 7002: ai_search_not_found''"

definition server_error :: thrown where
  "server_error =
     CloudflareApiError 500 (Some [\<lparr>code = Some 1000, payload_message = ''internal error''\<rparr>])
       ''Error 500: 1000: internal error''"

definition example_scope :: scope where
  "example_scope =
     \<lparr>scope_adopt = False, scope_local = False, rootDir = ''/app'', appName = ''myapp'',
      stage = ''dev''\<rparr>"

text \<open>A provider that answers every call with \<open>not_found\<close>, and one with \<open>server_error\<close>.\<close>

definition failing_with :: "thrown \<Rightarrow> provider" where
  "failing_with e =
     \<lparr>answer_unit = (\<lambda>h c. Inl e),
      answer_instance = (\<lambda>h c. Inl e),
      answer_domain_check = (\<lambda>h c. Inl e),
      answer_logs = (\<lambda>h c. Inl e),
      answer_token = (\<lambda>h c. Inl e),
      answer_tokens = (\<lambda>h c. Inl e),
      answer_token_resource = (\<lambda>h c. Inl e),
      answer_account_token = (\<lambda>h c. Inl e),
      answer_service = (\<lambda>h c. Inl e),
      answer_services = (\<lambda>h c. Inl e),
      answer_database = (\<lambda>h c. Inl e),
      answer_databases = (\<lambda>h c. Inl e),
      answer_role_lookup = (\<lambda>h c. Inl e),
      answer_role = (\<lambda>h c. Inl e),
      source_settles_first = (\<lambda>h. True)\<rparr>"

text \<open>The provider error whose HTTP status is 404.\<close>

definition status_404 :: "thrown \<Rightarrow> bool" where
  "status_404 e = (case e of CloudflareApiError st ed m \<Rightarrow> st = 404 | Error m \<Rightarrow> False | TypeError m \<Rightarrow> False)"

definition example_token :: AiSearchToken where
  "example_token =
     \<lparr>tokenId = ''0a1b2c3d-0000-4000-8000-0123456789ab'', accountTokenId = ''acct-token-1'',
      tk_accountId = ''account-1'', tk_accountTag = ''tag-1'', tk_name = ''myapp-dev-token'',
      cfApiId = ''acct-token-1'', cfApiKey = Secret ''key-1'', tk_enabled = True,
      tk_createdAt = ''2025-01-01T00:00:00Z'', tk_modifiedAt = ''2025-01-01T00:00:00Z''\<rparr>"

definition no_api_options :: CloudflareApiOptions where
  "no_api_options =
     \<lparr>baseUrl = None, profile = None, apiKey = None, apiToken = None, accountId = None,
      email = None\<rparr>"

definition accepting :: provider where
  "accepting = refusing\<lparr>answer_unit := (\<lambda>h c. Inr ())\<rparr>"

definition no_settings :: search_settings where
  "no_settings =
     \<lparr>aiSearchModel = None, embeddingModel = None, chunk = None, chunkSize = None,
      chunkOverlap = None, maxNumResults = None, scoreThreshold = None, reranking = None,
      rerankingModel = None, rewriteQuery = None, rewriteModel = None, cache = None,
      cacheThreshold = None, metadata = None\<rparr>"

definition example_instance :: ApiResponse where
  "example_instance =
     \<lparr>r_id = ''docs'', r_account_id = ''account-1'', r_account_tag = ''tag-1'',
      r_created_at = ''2025-01-01T00:00:00Z'', r_internal_id = ''internal-1'',
      r_modified_at = ''2025-01-01T00:00:00Z'', r_source = ''docs.example.com'',
      r_type = ''web-crawler'', r_vectorize_name = ''vec-docs'', r_settings = no_settings,
      r_token_id = Some ''0a1b2c3d-0000-4000-8000-0123456789ab''\<rparr>"

definition example_crawler :: AiSearchWebCrawlerSource where
  "example_crawler =
     \<lparr>wc_domain = ''docs.example.com'', wc_includePaths = None, wc_excludePaths = None,
      wc_parseOptions = None, wc_parseType = None, wc_storeOptions = None\<rparr>"

text \<open>
  Properties of an AiSearch named \<open>docs\<close> that crawls \<open>docs.example.com\<close> with a given
  token id; no indexing on create.
\<close>

definition example_search_props :: AiSearchProps where
  "example_search_props =
     \<lparr>as_api = no_api_options, as_name = Some ''docs'',
      as_source = SourceWebCrawler example_crawler, as_settings = no_settings,
      indexOnCreate = Some False, as_delete = None, as_adopt = None,
      as_token = TokenIdProperty ''0a1b2c3d-0000-4000-8000-0123456789ab''\<rparr>"

definition example_payload :: ApiPayload where
  "example_payload =
     \<lparr>p_id = ''docs'', p_source = ''docs.example.com'', p_type = ''web-crawler'',
      p_settings = no_settings,
      p_source_params =
        \<lparr>include_items = None, exclude_items = None, r2_jurisdiction = None, prefix = None,
         web_crawler = Some \<lparr>parse_type = None, parse_options = None, store_options = None\<rparr>\<rparr>,
      p_token_id = ''0a1b2c3d-0000-4000-8000-0123456789ab''\<rparr>"

definition domain_ok :: domain_check where
  "domain_ok = \<lparr>dc_status = 200, dc_success = True, dc_errors = []\<rparr>"

definition already_exists_7022 :: thrown where
  "already_exists_7022 =
     CloudflareApiError 400 (Some [\<lparr>code = Some 7022, payload_message = ''ai_search_already_exists''\<rparr>])
       ''Error 400: 7022: ai_search_already_exists''"

text \<open>
  A provider on which the instance \<open>docs\<close> exists already: the domain check succeeds,
  the create call fails with code 7022, get and update return the instance.
\<close>

definition search_exists :: provider where
  "search_exists =
     accepting
       \<lparr>answer_domain_check := (\<lambda>h c. Inr domain_ok),
        answer_instance :=
          (\<lambda>h c. case c of
                    C_createAiSearchInstance payload \<Rightarrow> Inl already_exists_7022
                  | _ \<Rightarrow> Inr example_instance)\<rparr>"

definition example_service_input :: ConnectivityService_Input where
  "example_service_input =
     \<lparr>in_name = ''internal-api'', in_type = ''http'', tcp_port = None, app_protocol = None,
      http_port = Some 8080, https_port = None,
      in_host = WireIPHost (Some ''192.168.1.100'') None
                  \<lparr>tunnel_id = ''tunnel-1'', resolver_ips = None, rest_resolverIps = None\<rparr>\<rparr>"

definition example_service :: ConnectivityService where
  "example_service =
     \<lparr>in_name = ''internal-api'', in_type = ''http'', tcp_port = None, app_protocol = None,
      http_port = Some 8080, https_port = None,
      in_host = WireIPHost (Some ''192.168.1.100'') None
                  \<lparr>tunnel_id = ''tunnel-1'', resolver_ips = None, rest_resolverIps = None\<rparr>,
      service_id = ''svc-1'', created_at = ''2025-01-01T00:00:00Z'',
      updated_at = ''2025-01-02T00:00:00Z''\<rparr>"

definition example_vpc_props :: VpcServiceProps where
  "example_vpc_props =
     \<lparr>vp_api = no_api_options, vp_name = Some ''internal-api'', serviceType = None,
      tcpPort = None, appProtocol = None, httpPort = Some 8080, httpsPort = None,
      vp_host = IPv4Host ''192.168.1.100'' (TunnelIdNetwork ''tunnel-1''), vp_adopt = Some True\<rparr>"

definition example_vpc_output :: VpcService where
  "example_vpc_output =
     \<lparr>vs_name = ''internal-api'', serviceId = ''svc-1'', vs_serviceType = ''http'',
      vs_tcpPort = None, vs_appProtocol = None, vs_httpPort = Some 8080, vs_httpsPort = None,
      vs_host = IPv4Host ''192.168.1.100'' (TunnelIdNetwork ''tunnel-1''),
      vs_createdAt = 0, vs_updatedAt = 0\<rparr>"

definition already_exists_5101 :: thrown where
  "already_exists_5101 =
     CloudflareApiError 409 (Some [\<lparr>code = Some 5101, payload_message = ''service already exists''\<rparr>])
       ''Error 409: 5101: service already exists''"

definition service_exists :: provider where
  "service_exists =
     accepting
       \<lparr>answer_service :=
          (\<lambda>h c. case c of
                    C_createService body \<Rightarrow> Inl already_exists_5101
                  | _ \<Rightarrow> Inr example_service),
        answer_services := (\<lambda>h c. Inr [example_service])\<rparr>"

definition example_token_response :: AiSearchTokenApiResponse where
  "example_token_response =
     \<lparr>t_id = ''0a1b2c3d-0000-4000-8000-0123456789ab'', t_account_id = ''account-1'',
      t_account_tag = ''tag-1'', t_name = ''docs-search-token'', t_cf_api_id = ''acct-token-1'',
      t_cf_api_key = ''key-1'', t_enabled = True, t_legacy = False,
      t_created_at = ''2025-01-01T00:00:00Z'', t_modified_at = ''2025-01-01T00:00:00Z''\<rparr>"

definition example_account_token :: AccountApiToken where
  "example_account_token = \<lparr>aat_id = ''acct-token-1'', aat_value = Some (Secret ''key-1'')\<rparr>"

definition token_conflict :: thrown where
  "token_conflict =
     CloudflareApiError 409 (Some [\<lparr>code = Some 7040, payload_message = ''token already exists''\<rparr>])
       ''Error 409: 7040: token already exists''"

definition token_exists :: provider where
  "token_exists =
     accepting
       \<lparr>answer_account_token := (\<lambda>h c. Inr example_account_token),
        answer_token := (\<lambda>h c. Inl token_conflict),
        answer_tokens := (\<lambda>h c. Inr [example_token_response])\<rparr>"

definition example_token_props :: AiSearchTokenProps where
  "example_token_props =
     \<lparr>tkp_api = no_api_options, tkp_name = Some ''docs-search-token'', tkp_adopt = Some True,
      tkp_delete = None\<rparr>"

definition example_database :: D1ResponseObject where
  "example_database =
     \<lparr>uuid = ''db-uuid-1'', d1_name = ''my-app-db'', d1_created_at = ''2025-01-01T00:00:00Z'',
      d1_version = ''production'', num_tables = 0, file_size = 0, running_in_region = ''WNAM'',
      read_replication = ''disabled'', d1_jurisdiction = None\<rparr>"

definition database_conflict :: thrown where
  "database_conflict =
     CloudflareApiError 400 (Some [\<lparr>code = Some 7502, payload_message = ''database already exists''\<rparr>])
       ''Error 400: 7502: database already exists''"

definition database_exists :: provider where
  "database_exists =
     accepting
       \<lparr>answer_database :=
          (\<lambda>h c. case c of
                    C_postD1Database payload \<Rightarrow> Inl database_conflict
                  | _ \<Rightarrow> Inr example_database),
        answer_databases := (\<lambda>h c. Inr [example_database])\<rparr>"

definition example_d1_props :: D1DatabaseProps where
  "example_d1_props =
     \<lparr>d1_api = no_api_options, d1p_name = Some ''my-app-db'', primaryLocationHint = None,
      readReplication = None, d1p_delete = None, d1p_adopt = Some True, clone = None,
      migrationsFiles = None, importFiles = None, migrationsTable = None, migrationsDir = None,
      dev_remote = None, dev_force = Some False, d1p_jurisdiction = None\<rparr>"

definition example_d1_output :: D1Database where
  "example_d1_output =
     \<lparr>db_id = ''db-uuid-1'', db_name = ''my-app-db'', db_readReplication = None,
      db_primaryLocationHint = Some ''wnam'', db_migrationsDir = None,
      db_migrationsTable = Some ''d1_migrations'',
      db_dev = Some \<lparr>dev_id = ''db-uuid-1'', dev_is_remote = False\<rparr>,
      db_jurisdiction = Some ''default''\<rparr>"

definition example_role :: DefaultRole where
  "example_role =
     \<lparr>role_id = ''role-1'', role_name = ''default'', expiresAt = ''2026-01-01T00:00:00Z'',
      role_host = ''db.example.com'', username = ''user'', ttl = 0, password = Secret ''pw'',
      databaseName = ''postgres'',
      connectionUrl = Secret ''postgresql://user:pw@db.example.com:5432/postgres?sslmode=verify-full'',
      connectionUrlPooled = Secret ''postgresql://user:pw@db.example.com:6432/postgres?sslmode=verify-full'',
      inheritedRoles = [], role_database = ''my-database'', role_branch = ''main'',
      role_organization = ''my-org''\<rparr>"

definition example_role_data :: role_data where
  "example_role_data =
     \<lparr>rd_id = ''role-2'', rd_name = ''default'', expires_at = ''2026-01-01T00:00:00Z'',
      access_host_url = ''db.example.com'', rd_username = ''user'', rd_ttl = 0,
      rd_password = ''pw2'', database_name = ''postgres'', inherited_roles = []\<rparr>"

definition example_role_props :: DefaultRoleProps where
  "example_role_props =
     \<lparr>dr_organization = Some ''my-org'', dr_database = DatabaseName ''my-database'',
      dr_branch = None, forceReset = None\<rparr>"

definition no_env :: process_env where
  "no_env = \<lparr>PLANETSCALE_ORGANIZATION = None, PLANETSCALE_ORG_ID = None\<rparr>"

definition role_provider :: provider where
  "role_provider = accepting\<lparr>answer_role := (\<lambda>h c. Inr example_role_data)\<rparr>"

text \<open>
  What the spec says of a delete helper: a provider error whose HTTP status is 404 is
  swallowed, any other error is thrown again.
\<close>

definition swallow_404 :: "thrown + unit \<Rightarrow> thrown + unit" where
  "swallow_404 r = (case r of Inr u \<Rightarrow> Inr () | Inl e \<Rightarrow> if status_404 e then Inr () else Inl e)"

section \<open>Properties of AiCrawler\<close>

lemma set_set_order: "set (set_order seen xs) = set seen \<union> set xs"
  by (induction xs arbitrary: seen) auto

lemma distinct_set_order: "distinct seen \<Longrightarrow> distinct (set_order seen xs)"
  by (induction xs arbitrary: seen) auto

lemma length_new_Set: "length (new_Set xs) = card (set xs)"
proof -
  have "distinct (new_Set xs)" by (simp add: new_Set_def distinct_set_order)
  then have "length (new_Set xs) = card (set (new_Set xs))" by (simp add: distinct_card)
  then show ?thesis by (simp add: new_Set_def set_set_order)
qed

lemma new_Set_one_domain:
  assumes "ps \<noteq> []" and "\<forall>p\<in>set ps. domain p = d"
  shows "length (new_Set (map domain ps)) = 1"
proof -
  from assms have "set (map domain ps) = {d}" by (cases ps) auto
  then show ?thesis by (simp add: length_new_Set)
qed

lemma new_Set_two_domains:
  assumes "p \<in> set ps" and "q \<in> set ps" and "domain p \<noteq> domain q"
  shows "length (new_Set (map domain ps)) > 1"
proof -
  have "{domain p, domain q} \<subseteq> set (map domain ps)" using assms by auto
  then have "card {domain p, domain q} \<le> card (set (map domain ps))"
    by (intro card_mono) auto
  with assms(3) show ?thesis by (simp add: length_new_Set)
qed

lemma map_parseUrl_nonempty: "map_parseUrl url us = Inr ps \<Longrightarrow> us \<noteq> [] \<Longrightarrow> ps \<noteq> []"
  by (cases us) (auto split: sum.splits)

lemma filter_specific_empty:
  "(filter is_specific_path (map path ps) = []) = (\<forall>p\<in>set ps. path p = [] \<or> path p = ''/'')"
  by (auto simp: filter_empty_conv is_specific_path_def)

lemma AiCrawler_missing: "AiCrawler url None = Inl (Error ''AiCrawler requires at least one URL'')"
  by (simp add: AiCrawler_def)

lemma AiCrawler_empty: "AiCrawler url (Some []) = Inl (Error ''AiCrawler requires at least one URL'')"
  by (simp add: AiCrawler_def)

lemma AiCrawler_two_domains:
  assumes "map_parseUrl url us = Inr ps" and "p \<in> set ps" and "q \<in> set ps"
    and "domain p \<noteq> domain q"
  shows "\<exists>m. AiCrawler url (Some us) = Inl (Error m)"
proof -
  from assms obtain u us' where us: "us = u # us'" by (cases us) auto
  from assms obtain p0 ps' where ps: "ps = p0 # ps'" by (cases ps) auto
  have "length (new_Set (map domain (p0 # ps'))) > 1"
    using new_Set_two_domains[OF assms(2,3,4)] ps by simp
  then show ?thesis using assms(1) unfolding us ps AiCrawler_def
    by (simp del: map_parseUrl.simps list.map add: Let_def)
qed

lemma AiCrawler_one_domain:
  assumes "us \<noteq> []" and "map_parseUrl url us = Inr ps" and "\<forall>p\<in>set ps. domain p = d"
  shows "AiCrawler url (Some us) =
           Inr \<lparr>wc_domain = d,
                wc_includePaths =
                  (if \<forall>p\<in>set ps. path p = [] \<or> path p = ''/'' then None
                   else Some (map pathToGlobPattern (filter is_specific_path (map path ps)))),
                wc_excludePaths = None, wc_parseOptions = None, wc_parseType = None,
                wc_storeOptions = None\<rparr>"
proof -
  from assms obtain u us' where us: "us = u # us'" by (cases us) auto
  from map_parseUrl_nonempty[OF assms(2,1)] obtain p0 ps' where ps: "ps = p0 # ps'"
    by (cases ps) auto
  have one: "length (new_Set (map domain (p0 # ps'))) = 1"
    using new_Set_one_domain[of ps d] assms(3) ps by simp
  have d: "domain p0 = d" using assms(3) ps by simp
  have f: "(filter is_specific_path (map path (p0 # ps')) = [])
             = (\<forall>p\<in>set (p0 # ps'). path p = [] \<or> path p = ''/'')"
    by (rule filter_specific_empty)
  show ?thesis using assms(2) one d f unfolding us ps AiCrawler_def
    by (simp del: map_parseUrl.simps list.map filter.simps add: Let_def)
qed

lemma pathToGlobPattern_specific:
  "is_specific_path p \<Longrightarrow>
     pathToGlobPattern p = (if p = ''//'' then ''**'' else ''**/'' @ strip_leading_slash p @ ''**'')"
  by (cases p) (auto simp: pathToGlobPattern_def is_specific_path_def Let_def)

text \<open>
  C10, as the code has it. \<open>AiCrawler\<close> throws an error for a missing and for an empty
  list of URLs, and for a list whose URLs parse to two different hostnames. For a
  non-empty list whose URLs all parse, to the same hostname \<open>d\<close>, it returns a web crawler
  source with domain \<open>d\<close> whose \<open>includePaths\<close> is undefined exactly when every path is
  empty or \<open>/\<close>, and otherwise holds one pattern for each other path, in order. The
  pattern of such a path is \<open>**/\<close>, the path without its leading slash, \<open>**\<close>; only the
  path \<open>//\<close> gives the pattern \<open>**\<close>.
\<close>

theorem AiCrawler_source:
  "AiCrawler url None = Inl (Error ''AiCrawler requires at least one URL'')
   \<and> AiCrawler url (Some []) = Inl (Error ''AiCrawler requires at least one URL'')
   \<and> (map_parseUrl url us1 = Inr ps1 \<and> p \<in> set ps1 \<and> q \<in> set ps1 \<and> domain p \<noteq> domain q
        \<longrightarrow> (\<exists>m. AiCrawler url (Some us1) = Inl (Error m)))
   \<and> (us2 \<noteq> [] \<and> map_parseUrl url us2 = Inr ps2 \<and> (\<forall>p\<in>set ps2. domain p = d)
        \<longrightarrow> AiCrawler url (Some us2) =
              Inr \<lparr>wc_domain = d,
                   wc_includePaths =
                     (if \<forall>p\<in>set ps2. path p = [] \<or> path p = ''/'' then None
                      else Some (map pathToGlobPattern (filter is_specific_path (map path ps2)))),
                   wc_excludePaths = None, wc_parseOptions = None, wc_parseType = None,
                   wc_storeOptions = None\<rparr>)
   \<and> (is_specific_path r
        \<longrightarrow> pathToGlobPattern r
              = (if r = ''//'' then ''**'' else ''**/'' @ strip_leading_slash r @ ''**''))"
  using AiCrawler_missing AiCrawler_empty AiCrawler_two_domains AiCrawler_one_domain
    pathToGlobPattern_specific
  by blast

text \<open>
  C10 at concrete lists: two hostnames; two paths of one hostname; the pattern of
  \<open>/blog\<close>.
\<close>

theorem AiCrawler_source_witness:
  "(\<exists>m. AiCrawler example_urls (Some [''https://example.com/blog'', ''https://other.org/''])
          = Inl (Error m))
   \<and> AiCrawler example_urls (Some [''https://example.com/blog'', ''https://example.com/news''])
       = Inr \<lparr>wc_domain = ''example.com'',
              wc_includePaths = Some [''**/blog**'', ''**/news**''],
              wc_excludePaths = None, wc_parseOptions = None, wc_parseType = None,
              wc_storeOptions = None\<rparr>
   \<and> pathToGlobPattern ''/blog'' = ''**/blog**''"
  using AiCrawler_source
          [where url = example_urls
             and ?us1.0 = "[''https://example.com/blog'', ''https://other.org/'']"
             and ?ps1.0 = "[\<lparr>domain = ''example.com'', path = ''/blog''\<rparr>,
                            \<lparr>domain = ''other.org'', path = ''/''\<rparr>]"
             and p = "\<lparr>domain = ''example.com'', path = ''/blog''\<rparr>"
             and q = "\<lparr>domain = ''other.org'', path = ''/''\<rparr>"
             and ?us2.0 = "[''https://example.com/blog'', ''https://example.com/news'']"
             and ?ps2.0 = "[\<lparr>domain = ''example.com'', path = ''/blog''\<rparr>,
                            \<lparr>domain = ''example.com'', path = ''/news''\<rparr>]"
             and d = "''example.com''" and r = "''/blog''"]
  by (simp add: parseUrl_def example_urls_def is_specific_path_def pathToGlobPattern_def)

text \<open>
  C10 as stated fails at the URL \<open>https://example.com//\<close>, whose path \<open>//\<close> is neither
  empty nor \<open>/\<close>: the pattern returned for it is \<open>**\<close>, which is not of the form
  \<open>**/<path>**\<close>, with or without the leading slash of the path.
\<close>

theorem AiCrawler_double_slash_counterexample:
  "AiCrawler example_urls (Some [''https://example.com//''])
     = Inr \<lparr>wc_domain = ''example.com'', wc_includePaths = Some [''**''],
            wc_excludePaths = None, wc_parseOptions = None, wc_parseType = None,
            wc_storeOptions = None\<rparr>
   \<and> ''**'' \<noteq> ''**/'' @ ''//'' @ ''**'' \<and> ''**'' \<noteq> ''**/'' @ ''/'' @ ''**''"
  by (simp add: AiCrawler_def parseUrl_def example_urls_def new_Set_def is_specific_path_def
      pathToGlobPattern_def)

section \<open>Properties of the provider helpers\<close>

lemma deleteAiSearchInstance_run:
  "deleteAiSearchInstance api i h =
     (swallow_404 (answer_unit api h (C_deleteAiSearchInstance i)), h @ [C_deleteAiSearchInstance i])"
  by (simp add: deleteAiSearchInstance_def io_catch_def request_def io_return_def io_throw_def
      status_404_def swallow_404_def split: sum.splits thrown.splits)

lemma deleteAiSearchToken_run:
  "deleteAiSearchToken api i h =
     (swallow_404 (answer_unit api h (C_deleteAiSearchToken i)), h @ [C_deleteAiSearchToken i])"
  by (simp add: deleteAiSearchToken_def io_catch_def request_def io_return_def io_throw_def
      status_404_def swallow_404_def split: sum.splits thrown.splits)

lemma deleteService_run:
  "deleteService api i h =
     (swallow_404 (answer_unit api h (C_deleteService i)), h @ [C_deleteService i])"
  by (simp add: deleteService_def io_catch_def request_def io_return_def io_throw_def
      status_404_def swallow_404_def isCloudflareApiError_def split: sum.splits thrown.splits)

lemma deleteDatabase_run:
  "deleteDatabase api i h =
     (swallow_404 (answer_unit api h (C_deleteDatabase i)), h @ [C_deleteDatabase i])"
  by (simp add: deleteDatabase_def io_catch_def request_def io_return_def io_throw_def
      status_404_def swallow_404_def split: sum.splits thrown.splits)

lemma listAiSearchJobLogs_run:
  "listAiSearchJobLogs api s j h =
     ((case answer_logs api h (C_listAiSearchJobLogs s j) of
         Inr l \<Rightarrow> Inr l
       | Inl e \<Rightarrow> if isCloudflareApiError e None (Some 7002) then Inr [] else Inl e),
      h @ [C_listAiSearchJobLogs s j])"
  by (simp add: listAiSearchJobLogs_def io_catch_def request_def io_return_def io_throw_def
      split: sum.splits)

lemmas read_update_helper_defs =
  getAiSearchInstance_def updateAiSearchInstance_def getAiSearchToken_def
  listAiSearchTokens_def getService_def listServices_def updateService_def getDatabase_def
  listDatabases_def updateReadReplicationMode_def

text \<open>
  C4, as the code has it. Each of the four delete helpers sends its request once; a
  provider error whose HTTP status is 404 is swallowed and the helper returns normally,
  any other error is thrown again. The helpers that read or update one of the four kinds
  of object (get, list and update of instances, tokens, services and databases) send
  their request once and return the answer as it is, so every error, also one with
  status 404, reaches the caller. The one read helper that swallows an error is
  \<open>listAiSearchJobLogs\<close>: on a Cloudflare error with code 7002, whatever its status, it
  returns the empty list.
\<close>

theorem helpers_and_status_404:
  "deleteAiSearchInstance api i h
     = (swallow_404 (answer_unit api h (C_deleteAiSearchInstance i)), h @ [C_deleteAiSearchInstance i])
   \<and> deleteAiSearchToken api i h
     = (swallow_404 (answer_unit api h (C_deleteAiSearchToken i)), h @ [C_deleteAiSearchToken i])
   \<and> deleteService api i h
     = (swallow_404 (answer_unit api h (C_deleteService i)), h @ [C_deleteService i])
   \<and> deleteDatabase api i h
     = (swallow_404 (answer_unit api h (C_deleteDatabase i)), h @ [C_deleteDatabase i])
   \<and> getAiSearchInstance api i h
     = (answer_instance api h (C_getAiSearchInstance i), h @ [C_getAiSearchInstance i])
   \<and> updateAiSearchInstance api i payload h
     = (answer_instance api h (C_updateAiSearchInstance i payload), h @ [C_updateAiSearchInstance i payload])
   \<and> getAiSearchToken api i h
     = (answer_token api h (C_getAiSearchToken i), h @ [C_getAiSearchToken i])
   \<and> listAiSearchTokens api h
     = (answer_tokens api h C_listAiSearchTokens, h @ [C_listAiSearchTokens])
   \<and> getService api i h
     = (answer_service api h (C_getService i), h @ [C_getService i])
   \<and> listServices api h
     = (answer_services api h C_listServices, h @ [C_listServices])
   \<and> updateService api i body h
     = (answer_service api h (C_updateService i body), h @ [C_updateService i body])
   \<and> getDatabase api i h
     = (answer_database api h (C_getDatabase i), h @ [C_getDatabase i])
   \<and> listDatabases api (Some (c # cs)) h
     = (answer_databases api h (C_listDatabases (Some (c # cs))), h @ [C_listDatabases (Some (c # cs))])
   \<and> updateReadReplicationMode api i mode h
     = (answer_database api h (C_updateReadReplicationMode i mode), h @ [C_updateReadReplicationMode i mode])
   \<and> listAiSearchJobLogs api s j h
     = ((case answer_logs api h (C_listAiSearchJobLogs s j) of
           Inr l \<Rightarrow> Inr l
         | Inl e \<Rightarrow> if isCloudflareApiError e None (Some 7002) then Inr [] else Inl e),
        h @ [C_listAiSearchJobLogs s j])"
  by (simp add: deleteAiSearchInstance_run deleteAiSearchToken_run deleteService_run
      deleteDatabase_run listAiSearchJobLogs_run read_update_helper_defs request_def truthy_def)

text \<open>
  C4 at a provider that answers 404 and at one that answers 500: the delete helper
  returns normally on the first and throws the error on the second; the get and update
  helpers throw the 404.
\<close>

theorem helpers_and_status_404_witness:
  "deleteAiSearchInstance (failing_with not_found) ''docs'' []
     = (Inr (), [C_deleteAiSearchInstance ''docs''])
   \<and> deleteService (failing_with server_error) ''svc-1'' []
     = (Inl server_error, [C_deleteService ''svc-1''])
   \<and> getAiSearchInstance (failing_with not_found) ''docs'' []
     = (Inl not_found, [C_getAiSearchInstance ''docs''])
   \<and> updateReadReplicationMode (failing_with not_found) ''db-1'' ''auto'' []
     = (Inl not_found, [C_updateReadReplicationMode ''db-1'' ''auto''])"
  using helpers_and_status_404 [of "failing_with not_found" "''docs''" "[]"]
    helpers_and_status_404 [of "failing_with server_error" "''svc-1''" "[]"]
    helpers_and_status_404 [where api = "failing_with not_found" and i = "''db-1''" and h = "[]"
      and mode = "''auto''"]
  by (simp add: failing_with_def swallow_404_def status_404_def not_found_def server_error_def)

text \<open>
  C4 as stated fails at the read helper \<open>listAiSearchJobLogs\<close>: on an error with status
  404 (and code 7002) it returns the empty list.
\<close>

theorem listAiSearchJobLogs_swallows_404_counterexample:
  "status_404 not_found
   \<and> listAiSearchJobLogs (failing_with not_found) ''docs'' ''job-1'' []
       = (Inr [], [C_listAiSearchJobLogs ''docs'' ''job-1''])"
  by (simp add: listAiSearchJobLogs_def io_catch_def request_def io_return_def io_throw_def
      failing_with_def not_found_def isCloudflareApiError_def status_404_def)

section \<open>Properties of the declared properties\<close>

text \<open>
  C6, as the code has it. The properties of AiSearch, AiSearchToken and D1Database
  declare the optional \<open>name\<close> (a string), \<open>adopt\<close> (a boolean, documented default false)
  and \<open>delete\<close> (a boolean, documented default true). The properties of VpcService
  declare \<open>name\<close> and \<open>adopt\<close> in the same way and no \<open>delete\<close>. The properties of
  DefaultRole declare none of the three.
\<close>

theorem declared_name_adopt_delete:
  "declares_optional AiSearch_resource ''name'' ''string'' None
   \<and> declares_optional AiSearch_resource ''adopt'' ''boolean'' (Some ''false'')
   \<and> declares_optional AiSearch_resource ''delete'' ''boolean'' (Some ''true'')
   \<and> declares_optional AiSearchToken_resource ''name'' ''string'' None
   \<and> declares_optional AiSearchToken_resource ''adopt'' ''boolean'' (Some ''false'')
   \<and> declares_optional AiSearchToken_resource ''delete'' ''boolean'' (Some ''true'')
   \<and> declares_optional D1Database_resource ''name'' ''string'' None
   \<and> declares_optional D1Database_resource ''adopt'' ''boolean'' (Some ''false'')
   \<and> declares_optional D1Database_resource ''delete'' ''boolean'' (Some ''true'')
   \<and> declares_optional VpcService_resource ''name'' ''string'' None
   \<and> declares_optional VpcService_resource ''adopt'' ''boolean'' (Some ''false'')
   \<and> \<not> declares VpcService_resource ''delete''
   \<and> \<not> declares DefaultRole_resource ''name''
   \<and> \<not> declares DefaultRole_resource ''adopt''
   \<and> \<not> declares DefaultRole_resource ''delete''"
  by (simp add: declares_optional_def declares_def declared_properties_def decl_def)

theorem declared_name_adopt_delete_witness:
  "list_ex (\<lambda>p. prop_name p = ''delete'' \<and> prop_type p = ''boolean'' \<and> prop_optional p
                \<and> prop_default p = Some ''true'')
     (declared_properties AiSearchToken_resource)"
  using declared_name_adopt_delete
  by (simp add: declares_optional_def)

text \<open>
  C6 as stated fails at DefaultRole, whose properties are \<open>organization\<close>, \<open>database\<close>,
  \<open>branch\<close> and \<open>forceReset\<close>.
\<close>

theorem DefaultRole_declares_counterexample:
  "map prop_name (declared_properties DefaultRole_resource)
     = [''organization'', ''database'', ''branch'', ''forceReset'']
   \<and> \<not> declares DefaultRole_resource ''name''
   \<and> \<not> declares DefaultRole_resource ''adopt''
   \<and> \<not> declares DefaultRole_resource ''delete''"
  by (simp add: declares_def declared_properties_def decl_def)

section \<open>Properties of the VpcService host\<close>

lemma IP_host_round_trip:
  "formatOutput_host (normalizeHost (IPHost a b (TunnelIdNetwork t))) = IPHost a b (TunnelIdNetwork t)"
  by (simp add: formatOutput_host_def normalizeHost_def normalizeNetwork_def)

lemma hostname_host_round_trip:
  "formatOutput_host (normalizeHost (HostnameHost n (TunnelIdNetwork t) r))
     = HostnameHost n (TunnelIdNetwork t) None"
  by (simp add: formatOutput_host_def normalizeHost_def normalizeNetwork_def)

text \<open>
  C8 at the hostname host of the documentation, with the resolver IP 127.0.0.1:
  \<open>normalizeHost\<close> leaves the resolver IPs under the key \<open>resolverIps\<close> of the rest,
  the wire key \<open>resolver_ips\<close> stays undefined, and the host that the mapping of
  \<open>formatOutput\<close> gives back has no resolver IPs.
\<close>

theorem hostname_host_loses_resolverIps:
  "normalizeHost (HostnameHost ''localhost''
       (TunnelIdNetwork ''e6a0817c-79c5-40ca-9776-a1c019defe70'') (Some [''127.0.0.1'']))
     = WireHostnameHost ''localhost''
         \<lparr>tunnel_id = ''e6a0817c-79c5-40ca-9776-a1c019defe70'', resolver_ips = None,
          rest_resolverIps = Some [''127.0.0.1'']\<rparr>
   \<and> formatOutput_host (normalizeHost (HostnameHost ''localhost''
       (TunnelIdNetwork ''e6a0817c-79c5-40ca-9776-a1c019defe70'') (Some [''127.0.0.1''])))
     = HostnameHost ''localhost'' (TunnelIdNetwork ''e6a0817c-79c5-40ca-9776-a1c019defe70'') None
   \<and> HostnameHost ''localhost'' (TunnelIdNetwork ''e6a0817c-79c5-40ca-9776-a1c019defe70'') None
     \<noteq> HostnameHost ''localhost''
         (TunnelIdNetwork ''e6a0817c-79c5-40ca-9776-a1c019defe70'') (Some [''127.0.0.1''])"
  by (simp add: formatOutput_host_def normalizeHost_def normalizeNetwork_def)

section \<open>Properties of AiSearchToken\<close>

text \<open>
  C9. In the update phase, with a prior output whose \<open>tokenId\<close> is not empty, the handler
  of AiSearchToken returns that output, and the list of calls is as it was: no request
  to the provider, no child resource.
\<close>

theorem AiSearchToken_update_returns_output:
  "ctx_phase this = Update \<Longrightarrow> ctx_output this = Some out \<Longrightarrow> tokenId out \<noteq> [] \<Longrightarrow>
     AiSearchToken_handler api this i props h = (Inr (Output out), h)"
  by (simp add: AiSearchToken_handler_def AiSearchToken_name_def account_token_props_def io_return_def Let_def)

theorem AiSearchToken_update_returns_output_witness:
  "AiSearchToken_handler refusing
     \<lparr>ctx_phase = Update, ctx_output = Some example_token, ctx_scope = example_scope\<rparr>
     ''my-token''
     \<lparr>tkp_api = no_api_options, tkp_name = Some ''docs-search-token'', tkp_adopt = None,
      tkp_delete = None\<rparr>
     [] = (Inr (Output example_token), [])"
  using AiSearchToken_update_returns_output
          [of "\<lparr>ctx_phase = Update, ctx_output = Some example_token, ctx_scope = example_scope\<rparr>"
              example_token refusing "''my-token''"
              "\<lparr>tkp_api = no_api_options, tkp_name = Some ''docs-search-token'',
                tkp_adopt = None, tkp_delete = None\<rparr>" "[]"]
  by (simp add: example_token_def)

section \<open>Properties of the delete phase\<close>

lemma AiSearch_delete_false:
  "ctx_phase this = Delete \<Longrightarrow> as_delete props = Some False \<Longrightarrow>
   AiSearch_handler api this i props h = (Inr Destroy, h)"
  by (simp add: AiSearch_handler_def io_return_def split: option.splits)

lemma AiSearch_delete_no_id:
  "ctx_phase this = Delete \<Longrightarrow> (\<forall>out. ctx_output this = Some out \<longrightarrow> \<not> truthy (o_id out)) \<Longrightarrow>
   AiSearch_handler api this i props h = (Inr Destroy, h)"
  by (auto simp add: AiSearch_handler_def io_return_def truthy_def split: option.splits)

lemma AiSearch_delete_calls:
  assumes "ctx_phase this = Delete" "as_delete props \<noteq> Some False" "ctx_output this = Some out"
    "o_id out = Some oid" "oid \<noteq> []"
    "answer_unit api h (C_deleteIndex (o_vectorizeName out)) = Inr ()"
    "swallow_404 (answer_unit api (h @ [C_deleteIndex (o_vectorizeName out)])
                   (C_deleteAiSearchInstance oid)) = Inr ()"
  shows "AiSearch_handler api this i props h =
     (Inr Destroy, h @ [C_deleteIndex (o_vectorizeName out), C_deleteAiSearchInstance oid])"
  using assms
  by (simp add: AiSearch_handler_def io_return_def io_bind_def deleteIndex_def request_def
      deleteAiSearchInstance_def io_catch_def io_throw_def swallow_404_def status_404_def
      split: sum.splits thrown.splits if_splits)

lemma AiSearchToken_delete_false:
  "ctx_phase this = Delete \<Longrightarrow> tkp_delete props = Some False \<Longrightarrow>
   AiSearchToken_handler api this i props h = (Inr Destroy, h)"
  by (simp add: AiSearchToken_handler_def AiSearchToken_name_def account_token_props_def io_return_def Let_def split: option.splits)

lemma AiSearchToken_delete_no_id:
  "ctx_phase this = Delete \<Longrightarrow> (\<forall>out. ctx_output this = Some out \<longrightarrow> tokenId out = []) \<Longrightarrow>
   AiSearchToken_handler api this i props h = (Inr Destroy, h)"
  by (auto simp add: AiSearchToken_handler_def AiSearchToken_name_def account_token_props_def io_return_def Let_def split: option.splits)

lemma AiSearchToken_delete_calls:
  assumes "ctx_phase this = Delete" "tkp_delete props \<noteq> Some False" "ctx_output this = Some out"
    "tokenId out \<noteq> []"
    "swallow_404 (answer_unit api h (C_deleteAiSearchToken (tokenId out))) = Inr ()"
  shows "AiSearchToken_handler api this i props h =
     (Inr Destroy, h @ [C_deleteAiSearchToken (tokenId out)])"
  using assms
  by (simp add: AiSearchToken_handler_def AiSearchToken_name_def account_token_props_def io_return_def io_bind_def request_def Let_def
      deleteAiSearchToken_def io_catch_def io_throw_def swallow_404_def status_404_def
      split: sum.splits thrown.splits if_splits)

lemma delete_dev_binding_calls:
  "snd (delete_dev_binding api out h) = h \<or>
   (\<exists>d. snd (delete_dev_binding api out h) = h @ [C_deleteMiniflareBinding d])"
  by (simp add: delete_dev_binding_def io_return_def request_def split: option.splits)

lemma D1Database_delete_false:
  assumes "ctx_phase this = Delete" "\<not> d1_local this props" "ctx_output this = Some out"
    "delete_dev_binding api out h = (Inr (), h1)" "d1p_delete props = Some False"
  shows "D1Database_handler api this i props h = (Inr Destroy, h1)"
  using assms
  by (simp add: D1Database_handler_def D1Database_name_def D1Database_adopt_def D1Database_dev_def Let_def io_return_def io_bind_def)

lemma D1Database_delete_no_id:
  assumes "ctx_phase this = Delete" "\<not> d1_local this props" "ctx_output this = Some out"
    "delete_dev_binding api out h = (Inr (), h1)" "db_id out = []"
  shows "D1Database_handler api this i props h = (Inr Destroy, h1)"
  using assms
  by (simp add: D1Database_handler_def D1Database_name_def D1Database_adopt_def D1Database_dev_def Let_def io_return_def io_bind_def)

lemma D1Database_delete_calls:
  assumes "ctx_phase this = Delete" "\<not> d1_local this props" "ctx_output this = Some out"
    "delete_dev_binding api out h = (Inr (), h1)" "d1p_delete props \<noteq> Some False"
    "db_id out \<noteq> []"
    "swallow_404 (answer_unit api h1 (C_deleteDatabase (db_id out))) = Inr ()"
  shows "D1Database_handler api this i props h = (Inr Destroy, h1 @ [C_deleteDatabase (db_id out)])"
  using assms
  by (simp add: D1Database_handler_def D1Database_name_def D1Database_adopt_def D1Database_dev_def Let_def io_return_def io_bind_def request_def
      deleteDatabase_def io_catch_def io_throw_def swallow_404_def status_404_def
      split: sum.splits thrown.splits if_splits)

lemma VpcService_delete_calls:
  assumes "ctx_phase this = Delete" "ctx_output this = Some out" "serviceId out \<noteq> []"
    "swallow_404 (answer_unit api h (C_deleteService (serviceId out))) = Inr ()"
  shows "VpcService_handler getTime api this i props h
           = (Inr Destroy, h @ [C_deleteService (serviceId out)])"
  using assms
  by (simp add: VpcService_handler_def VpcService_input_def VpcService_adopt_def Let_def io_return_def io_bind_def request_def
      deleteService_def io_catch_def io_throw_def swallow_404_def status_404_def
      isCloudflareApiError_def split: sum.splits thrown.splits if_splits)

lemma DefaultRole_delete_calls:
  assumes "ctx_phase this = Delete" "role_organization_of env props = Some org" "org \<noteq> []"
    "answer_role api h (C_resetDefaultRole
        \<lparr>path_organization = org, path_database = role_database_of props,
         path_branch = role_branch_of props\<rparr>) = Inr d"
  shows "DefaultRole_handler env api this i props h
           = (Inr Destroy,
              h @ [C_resetDefaultRole
                     \<lparr>path_organization = org, path_database = role_database_of props,
                      path_branch = role_branch_of props\<rparr>])"
  using assms
  by (simp add: DefaultRole_handler_def Let_def io_return_def io_bind_def request_def truthy_def)

text \<open>
  C2, as the code has it. AiSearch, AiSearchToken and D1Database declare the optional
  boolean \<open>delete\<close> with the documented default true. In their delete phase (for
  D1Database outside the local mode, once the local binding is removed): when \<open>delete\<close>
  is false, or when the prior output has no remote id, the handler calls no delete
  operation of the provider and returns the destroy value; when \<open>delete\<close> is not false
  and the prior output has an id, the delete operation is called with that id (for
  AiSearch after \<open>deleteIndex\<close>) and the handler returns the destroy value once the
  provider accepts, a 404 included. VpcService and DefaultRole declare no \<open>delete\<close>:
  the delete phase of VpcService calls \<open>deleteService\<close> whenever the prior output has a
  service id, and the delete phase of DefaultRole resets the default role.
\<close>

theorem delete_guard:
  "declares_optional AiSearch_resource ''delete'' ''boolean'' (Some ''true'')
   \<and> declares_optional AiSearchToken_resource ''delete'' ''boolean'' (Some ''true'')
   \<and> declares_optional D1Database_resource ''delete'' ''boolean'' (Some ''true'')
   \<and> \<not> declares VpcService_resource ''delete''
   \<and> \<not> declares DefaultRole_resource ''delete''
   \<and> (ctx_phase s_this = Delete \<and> as_delete s_props = Some False
        \<longrightarrow> AiSearch_handler api s_this i s_props h = (Inr Destroy, h))
   \<and> (ctx_phase s_this = Delete \<and> (\<forall>out. ctx_output s_this = Some out \<longrightarrow> \<not> truthy (o_id out))
        \<longrightarrow> AiSearch_handler api s_this i s_props h = (Inr Destroy, h))
   \<and> (ctx_phase s_this = Delete \<and> as_delete s_props \<noteq> Some False
        \<and> ctx_output s_this = Some s_out \<and> o_id s_out = Some s_id \<and> s_id \<noteq> []
        \<and> answer_unit api h (C_deleteIndex (o_vectorizeName s_out)) = Inr ()
        \<and> swallow_404 (answer_unit api (h @ [C_deleteIndex (o_vectorizeName s_out)])
                         (C_deleteAiSearchInstance s_id)) = Inr ()
        \<longrightarrow> AiSearch_handler api s_this i s_props h
              = (Inr Destroy,
                 h @ [C_deleteIndex (o_vectorizeName s_out), C_deleteAiSearchInstance s_id]))
   \<and> (ctx_phase t_this = Delete \<and> tkp_delete t_props = Some False
        \<longrightarrow> AiSearchToken_handler api t_this i t_props h = (Inr Destroy, h))
   \<and> (ctx_phase t_this = Delete \<and> (\<forall>out. ctx_output t_this = Some out \<longrightarrow> tokenId out = [])
        \<longrightarrow> AiSearchToken_handler api t_this i t_props h = (Inr Destroy, h))
   \<and> (ctx_phase t_this = Delete \<and> tkp_delete t_props \<noteq> Some False
        \<and> ctx_output t_this = Some t_out \<and> tokenId t_out \<noteq> []
        \<and> swallow_404 (answer_unit api h (C_deleteAiSearchToken (tokenId t_out))) = Inr ()
        \<longrightarrow> AiSearchToken_handler api t_this i t_props h
              = (Inr Destroy, h @ [C_deleteAiSearchToken (tokenId t_out)]))
   \<and> (snd (delete_dev_binding api d_out h) = h
        \<or> (\<exists>b. snd (delete_dev_binding api d_out h) = h @ [C_deleteMiniflareBinding b]))
   \<and> (ctx_phase d_this = Delete \<and> \<not> d1_local d_this d_props \<and> ctx_output d_this = Some d_out
        \<and> delete_dev_binding api d_out h = (Inr (), h1)
        \<and> (d1p_delete d_props = Some False \<or> db_id d_out = [])
        \<longrightarrow> D1Database_handler api d_this i d_props h = (Inr Destroy, h1))
   \<and> (ctx_phase d_this = Delete \<and> \<not> d1_local d_this d_props \<and> ctx_output d_this = Some d_out
        \<and> delete_dev_binding api d_out h = (Inr (), h1)
        \<and> d1p_delete d_props \<noteq> Some False \<and> db_id d_out \<noteq> []
        \<and> swallow_404 (answer_unit api h1 (C_deleteDatabase (db_id d_out))) = Inr ()
        \<longrightarrow> D1Database_handler api d_this i d_props h
              = (Inr Destroy, h1 @ [C_deleteDatabase (db_id d_out)]))
   \<and> (ctx_phase v_this = Delete \<and> ctx_output v_this = Some v_out \<and> serviceId v_out \<noteq> []
        \<and> swallow_404 (answer_unit api h (C_deleteService (serviceId v_out))) = Inr ()
        \<longrightarrow> VpcService_handler getTime api v_this i v_props h
              = (Inr Destroy, h @ [C_deleteService (serviceId v_out)]))
   \<and> (ctx_phase r_this = Delete \<and> role_organization_of env r_props = Some org \<and> org \<noteq> []
        \<and> answer_role api h (C_resetDefaultRole
              \<lparr>path_organization = org, path_database = role_database_of r_props,
               path_branch = role_branch_of r_props\<rparr>) = Inr d
        \<longrightarrow> DefaultRole_handler env api r_this i r_props h
              = (Inr Destroy,
                 h @ [C_resetDefaultRole
                        \<lparr>path_organization = org, path_database = role_database_of r_props,
                         path_branch = role_branch_of r_props\<rparr>]))"
  apply (intro conjI impI)
  subgoal by (simp add: declares_optional_def declared_properties_def decl_def)
  subgoal by (simp add: declares_optional_def declared_properties_def decl_def)
  subgoal by (simp add: declares_optional_def declared_properties_def decl_def)
  subgoal by (simp add: declares_def declared_properties_def decl_def)
  subgoal by (simp add: declares_def declared_properties_def decl_def)
  subgoal by (elim conjE) (rule AiSearch_delete_false; assumption)
  subgoal by (elim conjE) (rule AiSearch_delete_no_id; assumption)
  subgoal by (elim conjE) (rule AiSearch_delete_calls; assumption)
  subgoal by (elim conjE) (rule AiSearchToken_delete_false; assumption)
  subgoal by (elim conjE) (rule AiSearchToken_delete_no_id; assumption)
  subgoal by (elim conjE) (rule AiSearchToken_delete_calls; assumption)
  subgoal by (rule delete_dev_binding_calls)
  subgoal
    apply (elim conjE disjE)
     apply (rule D1Database_delete_false; assumption)
    apply (rule D1Database_delete_no_id; assumption)
    done
  subgoal by (elim conjE) (rule D1Database_delete_calls; assumption)
  subgoal by (elim conjE) (rule VpcService_delete_calls; assumption)
  subgoal by (elim conjE) (rule DefaultRole_delete_calls; assumption)
  done

text \<open>
  C2 at the example resources, on a provider that accepts every call: with \<open>delete\<close>
  false nothing is deleted; with \<open>delete\<close> left out the delete operations are called.
\<close>

theorem delete_guard_witness:
  "AiSearch_handler role_provider
     \<lparr>ctx_phase = Delete, ctx_output = Some (formatAiSearch example_instance),
      ctx_scope = example_scope\<rparr>
     ''res'' (example_search_props\<lparr>as_delete := Some False\<rparr>) [] = (Inr Destroy, [])
   \<and> AiSearch_handler role_provider
     \<lparr>ctx_phase = Delete, ctx_output = Some (formatAiSearch example_instance),
      ctx_scope = example_scope\<rparr>
     ''res'' example_search_props []
       = (Inr Destroy, [C_deleteIndex (Some ''vec-docs''), C_deleteAiSearchInstance ''docs''])
   \<and> AiSearchToken_handler role_provider
     \<lparr>ctx_phase = Delete, ctx_output = Some example_token, ctx_scope = example_scope\<rparr>
     ''res'' (example_token_props\<lparr>tkp_delete := Some False\<rparr>) [] = (Inr Destroy, [])
   \<and> AiSearchToken_handler role_provider
     \<lparr>ctx_phase = Delete, ctx_output = Some example_token, ctx_scope = example_scope\<rparr>
     ''res'' example_token_props []
       = (Inr Destroy, [C_deleteAiSearchToken ''0a1b2c3d-0000-4000-8000-0123456789ab''])
   \<and> D1Database_handler role_provider
     \<lparr>ctx_phase = Delete, ctx_output = Some example_d1_output, ctx_scope = example_scope\<rparr>
     ''res'' (example_d1_props\<lparr>d1p_delete := Some False\<rparr>) []
       = (Inr Destroy, [C_deleteMiniflareBinding ''db-uuid-1''])
   \<and> D1Database_handler role_provider
     \<lparr>ctx_phase = Delete, ctx_output = Some example_d1_output, ctx_scope = example_scope\<rparr>
     ''res'' example_d1_props []
       = (Inr Destroy, [C_deleteMiniflareBinding ''db-uuid-1'', C_deleteDatabase ''db-uuid-1''])
   \<and> VpcService_handler (\<lambda>s. 0) role_provider
     \<lparr>ctx_phase = Delete, ctx_output = Some example_vpc_output, ctx_scope = example_scope\<rparr>
     ''res'' example_vpc_props [] = (Inr Destroy, [C_deleteService ''svc-1''])
   \<and> DefaultRole_handler no_env role_provider
     \<lparr>ctx_phase = Delete, ctx_output = Some example_role, ctx_scope = example_scope\<rparr>
     ''res'' example_role_props []
       = (Inr Destroy,
          [C_resetDefaultRole \<lparr>path_organization = ''my-org'', path_database = ''my-database'',
                               path_branch = ''main''\<rparr>])"
proof -
  note defs = example_search_props_def example_token_props_def example_d1_props_def
    example_vpc_props_def example_role_props_def example_instance_def example_token_def
    example_d1_output_def example_vpc_output_def example_role_def example_scope_def
    formatAiSearch_def role_provider_def accepting_def refusing_def swallow_404_def
    truthy_def delete_dev_binding_def d1_local_def role_organization_of_def
    role_database_of_def role_branch_of_def request_def io_return_def
  show ?thesis
    using delete_guard
      [where api = role_provider and h = "[]" and i = "''res''"
         and s_this = "\<lparr>ctx_phase = Delete, ctx_output = Some (formatAiSearch example_instance),
                         ctx_scope = example_scope\<rparr>"
         and s_props = "example_search_props"
         and s_out = "formatAiSearch example_instance" and s_id = "''docs''"
         and t_this = "\<lparr>ctx_phase = Delete, ctx_output = Some example_token,
                         ctx_scope = example_scope\<rparr>"
         and t_props = "example_token_props" and t_out = example_token
         and d_this = "\<lparr>ctx_phase = Delete, ctx_output = Some example_d1_output,
                         ctx_scope = example_scope\<rparr>"
         and d_props = "example_d1_props" and d_out = example_d1_output
         and ?h1.0 = "[C_deleteMiniflareBinding ''db-uuid-1'']"
         and v_this = "\<lparr>ctx_phase = Delete, ctx_output = Some example_vpc_output,
                         ctx_scope = example_scope\<rparr>"
         and v_out = example_vpc_output and v_props = example_vpc_props
         and getTime = "\<lambda>s. 0"
         and r_this = "\<lparr>ctx_phase = Delete, ctx_output = Some example_role,
                         ctx_scope = example_scope\<rparr>"
         and env = no_env and r_props = example_role_props and org = "''my-org''"
         and d = example_role_data]
      delete_guard
      [where api = role_provider and h = "[]" and i = "''res''"
         and s_this = "\<lparr>ctx_phase = Delete, ctx_output = Some (formatAiSearch example_instance),
                         ctx_scope = example_scope\<rparr>"
         and s_props = "example_search_props\<lparr>as_delete := Some False\<rparr>"
         and s_out = "formatAiSearch example_instance" and s_id = "''docs''"
         and t_this = "\<lparr>ctx_phase = Delete, ctx_output = Some example_token,
                         ctx_scope = example_scope\<rparr>"
         and t_props = "example_token_props\<lparr>tkp_delete := Some False\<rparr>" and t_out = example_token
         and d_this = "\<lparr>ctx_phase = Delete, ctx_output = Some example_d1_output,
                         ctx_scope = example_scope\<rparr>"
         and d_props = "example_d1_props\<lparr>d1p_delete := Some False\<rparr>" and d_out = example_d1_output
         and ?h1.0 = "[C_deleteMiniflareBinding ''db-uuid-1'']"
         and v_this = "\<lparr>ctx_phase = Delete, ctx_output = Some example_vpc_output,
                         ctx_scope = example_scope\<rparr>"
         and v_out = example_vpc_output and v_props = example_vpc_props
         and getTime = "\<lambda>s. 0"
         and r_this = "\<lparr>ctx_phase = Delete, ctx_output = Some example_role,
                         ctx_scope = example_scope\<rparr>"
         and env = no_env and r_props = example_role_props and org = "''my-org''"
         and d = example_role_data]
    by (simp add: defs)
qed

text \<open>
  C2 as stated fails at VpcService: its properties declare no \<open>delete\<close>, and its delete
  phase calls \<open>deleteService\<close> with the stored service id.
\<close>

theorem VpcService_delete_counterexample:
  "\<not> declares VpcService_resource ''delete''
   \<and> VpcService_handler (\<lambda>s. 0) accepting
        \<lparr>ctx_phase = Delete, ctx_output = Some example_vpc_output, ctx_scope = example_scope\<rparr>
        ''internal-api'' example_vpc_props []
      = (Inr Destroy, [C_deleteService ''svc-1''])"
  by (simp add: declares_def declared_properties_def decl_def VpcService_handler_def VpcService_input_def VpcService_adopt_def
      example_vpc_output_def deleteService_def io_catch_def io_bind_def io_return_def
      request_def accepting_def refusing_def)

section \<open>Properties of the update phase\<close>

lemma AiSearch_handler_apply:
  assumes "ctx_phase this \<noteq> Delete" "\<not> invalid_name (AiSearch_name this i props)"
    "promise_all2 api (normalizeSource api (ctx_scope this) i (as_source props))
       (normalizeTokenId api props) h = (Inr (source, tok), h1)"
  shows "AiSearch_handler api this i props h
           = AiSearch_reconcile api this props (AiSearch_name this i props) source tok h1"
  using assms by (simp add: AiSearch_handler_def Let_def io_bind_def)

lemma AiSearch_reconcile_replace:
  assumes "ctx_phase this = Update" "ctx_output this = Some out" "o_id out = Some oid" "oid \<noteq> []"
    "payload = AiSearch_payload n source tok props"
    "o_source out \<noteq> None"
    "Some (p_type payload) \<noteq> o_type out \<or> Some (p_source payload) \<noteq> o_source out"
  shows "AiSearch_reconcile api this props n source tok h1 = (Inr (Replace True), h1)"
  using assms
  by (auto simp add: AiSearch_reconcile_def Let_def io_return_def replace_needed_def)

lemma AiSearch_reconcile_in_place:
  assumes "ctx_phase this = Update" "ctx_output this = Some out" "o_id out = Some oid" "oid \<noteq> []"
    "payload = AiSearch_payload n source tok props"
    "sourceType out = None"
    "Some (p_type payload) = o_type out" "Some (p_source payload) = o_source out"
  shows "AiSearch_reconcile api this props n source tok h1 =
     ((case answer_instance api h1 (C_updateAiSearchInstance oid payload) of
         Inl e \<Rightarrow> Inl e | Inr instance \<Rightarrow> Inr (Output (formatAiSearch instance))),
      h1 @ [C_updateAiSearchInstance oid payload])"
  using assms
  by (auto simp add: AiSearch_reconcile_def Let_def io_bind_def io_return_def replace_needed_def
      updateAiSearchInstance_def request_def split: sum.splits)

lemma AiSearch_update_replace:
  assumes "ctx_phase this = Update" "ctx_output this = Some out" "o_id out = Some oid" "oid \<noteq> []"
    "\<not> invalid_name (AiSearch_name this i props)"
    "promise_all2 api (normalizeSource api (ctx_scope this) i (as_source props))
       (normalizeTokenId api props) h = (Inr (source, tok), h1)"
    "payload = AiSearch_payload (AiSearch_name this i props) source tok props"
    "o_source out \<noteq> None"
    "Some (p_type payload) \<noteq> o_type out \<or> Some (p_source payload) \<noteq> o_source out"
  shows "AiSearch_handler api this i props h = (Inr (Replace True), h1)"
proof -
  have "ctx_phase this \<noteq> Delete" using assms(1) by simp
  from AiSearch_handler_apply[OF this assms(5,6)]
  show ?thesis using AiSearch_reconcile_replace[OF assms(1-4) assms(7-9)] by simp
qed

lemma AiSearch_update_in_place:
  assumes "ctx_phase this = Update" "ctx_output this = Some out" "o_id out = Some oid" "oid \<noteq> []"
    "\<not> invalid_name (AiSearch_name this i props)"
    "promise_all2 api (normalizeSource api (ctx_scope this) i (as_source props))
       (normalizeTokenId api props) h = (Inr (source, tok), h1)"
    "payload = AiSearch_payload (AiSearch_name this i props) source tok props"
    "sourceType out = None"
    "Some (p_type payload) = o_type out" "Some (p_source payload) = o_source out"
  shows "AiSearch_handler api this i props h =
     ((case answer_instance api h1 (C_updateAiSearchInstance oid payload) of
         Inl e \<Rightarrow> Inl e | Inr instance \<Rightarrow> Inr (Output (formatAiSearch instance))),
      h1 @ [C_updateAiSearchInstance oid payload])"
proof -
  have "ctx_phase this \<noteq> Delete" using assms(1) by simp
  from AiSearch_handler_apply[OF this assms(5,6)]
  show ?thesis using AiSearch_reconcile_in_place[OF assms(1-4) assms(7-10)] by simp
qed

lemma D1Database_update_name_replace:
  assumes "ctx_phase this = Update" "ctx_output this = Some out" "d1p_name props = Some n"
    "n \<noteq> db_name out"
  shows "D1Database_handler api this i props h = (Inr (Replace False), h)"
  using assms by (simp add: D1Database_handler_def D1Database_name_def D1Database_adopt_def D1Database_dev_def Let_def io_return_def)

lemma D1Database_update_step:
  assumes "ctx_phase this = Update" "ctx_output this = Some out"
    "d1p_name props = None \<or> d1p_name props = Some (db_name out)"
    "\<not> d1_local this props" "db_id out \<noteq> []"
  shows "D1Database_handler api this i props h =
     io_bind (d1_update api out props)
       (migrate_and_output api props (db_name out)
          \<lparr>dev_id = (case db_dev out of Some d \<Rightarrow> dev_id d | None \<Rightarrow> db_id out),
           dev_is_remote = (case dev_remote props of Some r \<Rightarrow> r | None \<Rightarrow> False)\<rparr>
          (case d1p_jurisdiction props of None \<Rightarrow> ''default'' | Some j \<Rightarrow> j)) h"
  using assms
  by (auto simp add: D1Database_handler_def D1Database_name_def D1Database_adopt_def D1Database_dev_def Let_def)

lemma D1Database_update_hint_error:
  assumes "ctx_phase this = Update" "ctx_output this = Some out"
    "d1p_name props = None \<or> d1p_name props = Some (db_name out)"
    "\<not> d1_local this props" "db_id out \<noteq> []"
    "primaryLocationHint props = Some hint" "hint \<noteq> []" "db_primaryLocationHint out \<noteq> Some hint"
  shows "D1Database_handler api this i props h =
     (Inl (Error (''Cannot update primaryLocationHint from '' @ [CHR 0x27]
               @ (case db_primaryLocationHint out of None \<Rightarrow> ''undefined'' | Some v \<Rightarrow> v) @ [CHR 0x27]
               @ '' to '' @ [CHR 0x27] @ hint @ [CHR 0x27]
               @ '' after database creation.'')), h)"
proof -
  have "d1_update api out props h = (Inl (Error (''Cannot update primaryLocationHint from '' @ [CHR 0x27]
               @ (case db_primaryLocationHint out of None \<Rightarrow> ''undefined'' | Some v \<Rightarrow> v) @ [CHR 0x27]
               @ '' to '' @ [CHR 0x27] @ hint @ [CHR 0x27]
               @ '' after database creation.'')), h)"
    using assms(6-8) by (auto simp add: d1_update_def truthy_def io_throw_def)
  then show ?thesis unfolding D1Database_update_step[OF assms(1-5)] by (simp add: io_bind_def)
qed

lemma D1Database_update_in_place:
  assumes "ctx_phase this = Update" "ctx_output this = Some out"
    "d1p_name props = None \<or> d1p_name props = Some (db_name out)"
    "\<not> d1_local this props" "db_id out \<noteq> []"
    "\<not> truthy (primaryLocationHint props) \<or> primaryLocationHint props = db_primaryLocationHint out"
    "(case d1p_jurisdiction props of None \<Rightarrow> ''default'' | Some j \<Rightarrow> j)
       = (case db_jurisdiction out of None \<Rightarrow> ''default'' | Some j \<Rightarrow> j)"
  shows "D1Database_handler api this i props h =
     io_bind (updateReadReplicationMode api (db_id out)
                (case readReplication props of None \<Rightarrow> ''disabled'' | Some mode \<Rightarrow> mode))
       (migrate_and_output api props (db_name out)
          \<lparr>dev_id = (case db_dev out of Some d \<Rightarrow> dev_id d | None \<Rightarrow> db_id out),
           dev_is_remote = (case dev_remote props of Some r \<Rightarrow> r | None \<Rightarrow> False)\<rparr>
          (case d1p_jurisdiction props of None \<Rightarrow> ''default'' | Some j \<Rightarrow> j)) h"
proof -
  have "d1_update api out props = updateReadReplicationMode api (db_id out)
                (case readReplication props of None \<Rightarrow> ''disabled'' | Some mode \<Rightarrow> mode)"
    using assms(6,7) by (auto simp add: d1_update_def)
  then show ?thesis unfolding D1Database_update_step[OF assms(1-5)] by (simp add: io_bind_def)
qed

lemma DefaultRole_update:
  assumes "ctx_phase this = Update" "ctx_output this = Some out"
    "truthy (role_organization_of env props)"
  shows "DefaultRole_handler env api this i props h =
     (if role_database_of props \<noteq> role_database out \<or> role_branch_of props \<noteq> role_branch out
      then Inr (Replace False) else Inr (Output out), h)"
  using assms by (simp add: DefaultRole_handler_def Let_def io_return_def)

text \<open>
  C3, as the code has it, for the update phase with a prior output that has an id.
  AiSearch (valid name, source and token id normalized): when the prior output has the
  key \<open>source\<close> and the type or the source of the payload differs from it, the handler
  leaves through \<open>replace(true)\<close> and sends nothing more; when both are equal (and the
  output has no key \<open>sourceType\<close>) it sends one update call with the payload.
  D1Database: when the declared name differs from the name of the prior output the
  handler leaves through \<open>replace()\<close>; with the name unchanged, outside the local mode,
  a declared primary location hint that differs from the prior one makes the handler
  throw an error, without any call; otherwise, with the jurisdiction unchanged, it
  updates the read replication mode in place. DefaultRole: when the database or the
  branch differs from the prior output the handler leaves through \<open>replace()\<close>, and
  otherwise it returns the prior output without any call.
\<close>

theorem replacement_detection:
  "(ctx_phase s_this = Update \<and> ctx_output s_this = Some s_out \<and> o_id s_out = Some s_id
      \<and> s_id \<noteq> [] \<and> \<not> invalid_name (AiSearch_name s_this i s_props)
      \<and> promise_all2 api (normalizeSource api (ctx_scope s_this) i (as_source s_props))
            (normalizeTokenId api s_props) h = (Inr (source, tok), h1)
      \<and> payload = AiSearch_payload (AiSearch_name s_this i s_props) source tok s_props
      \<and> o_source s_out \<noteq> None
      \<and> (Some (p_type payload) \<noteq> o_type s_out \<or> Some (p_source payload) \<noteq> o_source s_out)
      \<longrightarrow> AiSearch_handler api s_this i s_props h = (Inr (Replace True), h1))
   \<and> (ctx_phase s_this = Update \<and> ctx_output s_this = Some s_out \<and> o_id s_out = Some s_id
      \<and> s_id \<noteq> [] \<and> \<not> invalid_name (AiSearch_name s_this i s_props)
      \<and> promise_all2 api (normalizeSource api (ctx_scope s_this) i (as_source s_props))
            (normalizeTokenId api s_props) h = (Inr (source, tok), h1)
      \<and> payload = AiSearch_payload (AiSearch_name s_this i s_props) source tok s_props
      \<and> sourceType s_out = None
      \<and> Some (p_type payload) = o_type s_out \<and> Some (p_source payload) = o_source s_out
      \<longrightarrow> AiSearch_handler api s_this i s_props h
            = ((case answer_instance api h1 (C_updateAiSearchInstance s_id payload) of
                  Inl e \<Rightarrow> Inl e
                | Inr instance \<Rightarrow> Inr (Output (formatAiSearch instance))),
               h1 @ [C_updateAiSearchInstance s_id payload]))
   \<and> (ctx_phase d_this = Update \<and> ctx_output d_this = Some d_out \<and> d1p_name d_props = Some n
      \<and> n \<noteq> db_name d_out
      \<longrightarrow> D1Database_handler api d_this i d_props h = (Inr (Replace False), h))
   \<and> (ctx_phase d_this = Update \<and> ctx_output d_this = Some d_out
      \<and> (d1p_name d_props = None \<or> d1p_name d_props = Some (db_name d_out))
      \<and> \<not> d1_local d_this d_props \<and> db_id d_out \<noteq> []
      \<and> primaryLocationHint d_props = Some hint \<and> hint \<noteq> []
      \<and> db_primaryLocationHint d_out \<noteq> Some hint
      \<longrightarrow> D1Database_handler api d_this i d_props h
            = (Inl (Error (''Cannot update primaryLocationHint from '' @ [CHR 0x27]
                   @ (case db_primaryLocationHint d_out of None \<Rightarrow> ''undefined'' | Some v \<Rightarrow> v)
                   @ [CHR 0x27] @ '' to '' @ [CHR 0x27] @ hint @ [CHR 0x27]
                   @ '' after database creation.'')), h))
   \<and> (ctx_phase d_this = Update \<and> ctx_output d_this = Some d_out
      \<and> (d1p_name d_props = None \<or> d1p_name d_props = Some (db_name d_out))
      \<and> \<not> d1_local d_this d_props \<and> db_id d_out \<noteq> []
      \<and> (\<not> truthy (primaryLocationHint d_props)
           \<or> primaryLocationHint d_props = db_primaryLocationHint d_out)
      \<and> (case d1p_jurisdiction d_props of None \<Rightarrow> ''default'' | Some j \<Rightarrow> j)
           = (case db_jurisdiction d_out of None \<Rightarrow> ''default'' | Some j \<Rightarrow> j)
      \<longrightarrow> D1Database_handler api d_this i d_props h
            = io_bind (updateReadReplicationMode api (db_id d_out)
                         (case readReplication d_props of None \<Rightarrow> ''disabled'' | Some mode \<Rightarrow> mode))
                (migrate_and_output api d_props (db_name d_out)
                   \<lparr>dev_id = (case db_dev d_out of Some d \<Rightarrow> dev_id d | None \<Rightarrow> db_id d_out),
                    dev_is_remote = (case dev_remote d_props of Some r \<Rightarrow> r | None \<Rightarrow> False)\<rparr>
                   (case d1p_jurisdiction d_props of None \<Rightarrow> ''default'' | Some j \<Rightarrow> j)) h)
   \<and> (ctx_phase r_this = Update \<and> ctx_output r_this = Some r_out
      \<and> truthy (role_organization_of env r_props)
      \<longrightarrow> DefaultRole_handler env api r_this i r_props h
            = (if role_database_of r_props \<noteq> role_database r_out
                  \<or> role_branch_of r_props \<noteq> role_branch r_out
               then Inr (Replace False) else Inr (Output r_out), h))"
  apply (intro conjI impI)
  subgoal by (elim conjE) (rule AiSearch_update_replace; assumption)
  subgoal by (elim conjE) (rule AiSearch_update_in_place; assumption)
  subgoal by (elim conjE) (rule D1Database_update_name_replace; assumption)
  subgoal by (elim conjE) (rule D1Database_update_hint_error; assumption)
  subgoal by (elim conjE) (rule D1Database_update_in_place; assumption)
  subgoal by (elim conjE) (rule DefaultRole_update; assumption)
  done

lemma example_token_id_is_uuid: "is_uuid ''0a1b2c3d-0000-4000-8000-0123456789ab''"
  by code_simp

lemma example_props_normalized:
  "promise_all2 search_exists
     (normalizeSource search_exists example_scope i (SourceWebCrawler example_crawler))
     (normalizeTokenId search_exists example_search_props) []
   = (Inr (NormalizedWebCrawler example_crawler, ''0a1b2c3d-0000-4000-8000-0123456789ab''),
      [C_postAiSearchDomains ''docs.example.com''])"
  by (simp add: promise_all2_def normalizeSource_def normalizeTokenId_def validateTokenId_def
      validateWebCrawlerSourceDomain_def example_crawler_def example_search_props_def
      example_token_id_is_uuid io_bind_def io_return_def io_throw_def request_def
      search_exists_def accepting_def refusing_def domain_ok_def)

lemma example_props_payload:
  "AiSearch_payload ''docs'' (NormalizedWebCrawler example_crawler)
     ''0a1b2c3d-0000-4000-8000-0123456789ab'' example_search_props = example_payload"
  by (simp add: AiSearch_payload_def example_crawler_def example_search_props_def
      example_payload_def)

text \<open>
  C3 at the example resources: the AiSearch whose prior output has the same source is
  updated in place and the one whose prior output has another source is replaced; the
  renamed database is replaced and the unchanged one is updated in place; the role on
  another database is replaced and the unchanged one keeps its output.
\<close>

theorem replacement_detection_witness:
  "AiSearch_handler search_exists
     \<lparr>ctx_phase = Update, ctx_output = Some (formatAiSearch example_instance),
      ctx_scope = example_scope\<rparr> ''res'' example_search_props []
     = (Inr (Output (formatAiSearch example_instance)),
        [C_postAiSearchDomains ''docs.example.com'', C_updateAiSearchInstance ''docs'' example_payload])
   \<and> AiSearch_handler search_exists
     \<lparr>ctx_phase = Update,
      ctx_output = Some (formatAiSearch (example_instance\<lparr>r_source := ''old.example.com''\<rparr>)),
      ctx_scope = example_scope\<rparr> ''res'' example_search_props []
     = (Inr (Replace True), [C_postAiSearchDomains ''docs.example.com''])
   \<and> D1Database_handler search_exists
     \<lparr>ctx_phase = Update, ctx_output = Some example_d1_output, ctx_scope = example_scope\<rparr>
     ''res'' (example_d1_props\<lparr>d1p_name := Some ''renamed-db''\<rparr>) [] = (Inr (Replace False), [])
   \<and> D1Database_handler search_exists
     \<lparr>ctx_phase = Update, ctx_output = Some example_d1_output, ctx_scope = example_scope\<rparr>
     ''res'' (example_d1_props\<lparr>primaryLocationHint := Some ''enam''\<rparr>) []
     = (Inl (Error (''Cannot update primaryLocationHint from '' @ [CHR 0x27] @ ''wnam''
                    @ [CHR 0x27] @ '' to '' @ [CHR 0x27] @ ''enam'' @ [CHR 0x27]
                    @ '' after database creation.'')), [])
   \<and> snd (D1Database_handler search_exists
     \<lparr>ctx_phase = Update, ctx_output = Some example_d1_output, ctx_scope = example_scope\<rparr>
     ''res'' example_d1_props []) = [C_updateReadReplicationMode ''db-uuid-1'' ''disabled'']
   \<and> DefaultRole_handler no_env search_exists
     \<lparr>ctx_phase = Update, ctx_output = Some example_role, ctx_scope = example_scope\<rparr>
     ''res'' (example_role_props\<lparr>dr_database := DatabaseName ''other-database''\<rparr>) []
     = (Inr (Replace False), [])
   \<and> DefaultRole_handler no_env search_exists
     \<lparr>ctx_phase = Update, ctx_output = Some example_role, ctx_scope = example_scope\<rparr>
     ''res'' example_role_props [] = (Inr (Output example_role), [])"
proof -
  note defs = example_search_props_def example_d1_props_def example_role_props_def
    example_instance_def example_d1_output_def example_role_def example_scope_def
    formatAiSearch_def search_exists_def accepting_def refusing_def truthy_def d1_local_def
    role_organization_of_def role_database_of_def role_branch_of_def request_def io_return_def
    io_bind_def AiSearch_name_def invalid_name_def example_payload_def example_crawler_def
    updateReadReplicationMode_def migrate_and_output_def nonempty_files_def
  note norm = example_props_normalized[of "''res''", unfolded example_search_props_def]
  note pay = example_props_payload[unfolded example_search_props_def example_payload_def]
  show ?thesis
    using replacement_detection
      [where api = search_exists and h = "[]" and i = "''res''"
         and s_this = "\<lparr>ctx_phase = Update, ctx_output = Some (formatAiSearch example_instance),
                         ctx_scope = example_scope\<rparr>"
         and s_props = example_search_props
         and s_out = "formatAiSearch example_instance" and s_id = "''docs''"
         and source = "NormalizedWebCrawler example_crawler"
         and tok = "''0a1b2c3d-0000-4000-8000-0123456789ab''"
         and ?h1.0 = "[C_postAiSearchDomains ''docs.example.com'']"
         and payload = example_payload
         and d_this = "\<lparr>ctx_phase = Update, ctx_output = Some example_d1_output,
                         ctx_scope = example_scope\<rparr>"
         and d_props = "example_d1_props" and d_out = example_d1_output
         and n = "''renamed-db''" and hint = "''enam''"
         and r_this = "\<lparr>ctx_phase = Update, ctx_output = Some example_role,
                         ctx_scope = example_scope\<rparr>"
         and env = no_env and r_props = "example_role_props" and r_out = example_role]
      replacement_detection
      [where api = search_exists and h = "[]" and i = "''res''"
         and s_this = "\<lparr>ctx_phase = Update, ctx_output = Some (formatAiSearch (example_instance\<lparr>r_source := ''old.example.com''\<rparr>)),
                         ctx_scope = example_scope\<rparr>"
         and s_props = example_search_props
         and s_out = "formatAiSearch (example_instance\<lparr>r_source := ''old.example.com''\<rparr>)" and s_id = "''docs''"
         and source = "NormalizedWebCrawler example_crawler"
         and tok = "''0a1b2c3d-0000-4000-8000-0123456789ab''"
         and ?h1.0 = "[C_postAiSearchDomains ''docs.example.com'']"
         and payload = example_payload
         and d_this = "\<lparr>ctx_phase = Update, ctx_output = Some example_d1_output,
                         ctx_scope = example_scope\<rparr>"
         and d_props = "example_d1_props\<lparr>d1p_name := Some ''renamed-db''\<rparr>" and d_out = example_d1_output
         and n = "''renamed-db''" and hint = "''enam''"
         and r_this = "\<lparr>ctx_phase = Update, ctx_output = Some example_role,
                         ctx_scope = example_scope\<rparr>"
         and env = no_env and r_props = "example_role_props\<lparr>dr_database := DatabaseName ''other-database''\<rparr>" and r_out = example_role]
      replacement_detection
      [where api = search_exists and h = "[]" and i = "''res''"
         and s_this = "\<lparr>ctx_phase = Update, ctx_output = Some (formatAiSearch example_instance),
                         ctx_scope = example_scope\<rparr>"
         and s_props = example_search_props
         and s_out = "formatAiSearch example_instance" and s_id = "''docs''"
         and source = "NormalizedWebCrawler example_crawler"
         and tok = "''0a1b2c3d-0000-4000-8000-0123456789ab''"
         and ?h1.0 = "[C_postAiSearchDomains ''docs.example.com'']"
         and payload = example_payload
         and d_this = "\<lparr>ctx_phase = Update, ctx_output = Some example_d1_output,
                         ctx_scope = example_scope\<rparr>"
         and d_props = "example_d1_props\<lparr>primaryLocationHint := Some ''enam''\<rparr>" and d_out = example_d1_output
         and n = "''renamed-db''" and hint = "''enam''"
         and r_this = "\<lparr>ctx_phase = Update, ctx_output = Some example_role,
                         ctx_scope = example_scope\<rparr>"
         and env = no_env and r_props = "example_role_props" and r_out = example_role]
      norm pay
    by (simp add: defs)
qed

text \<open>
  C3 as stated fails at a D1Database whose primary location hint changes from \<open>wnam\<close> to
  \<open>enam\<close>: the handler throws an error; it does not leave through \<open>replace()\<close>.
\<close>

theorem D1Database_hint_change_counterexample:
  "D1Database_handler refusing
     \<lparr>ctx_phase = Update, ctx_output = Some example_d1_output, ctx_scope = example_scope\<rparr>
     ''my-app-db'' (example_d1_props\<lparr>primaryLocationHint := Some ''enam''\<rparr>) []
   = (Inl (Error (''Cannot update primaryLocationHint from '' @ [CHR 0x27] @ ''wnam''
                  @ [CHR 0x27] @ '' to '' @ [CHR 0x27] @ ''enam'' @ [CHR 0x27]
                  @ '' after database creation.'')), [])
   \<and> fst (D1Database_handler refusing
     \<lparr>ctx_phase = Update, ctx_output = Some example_d1_output, ctx_scope = example_scope\<rparr>
     ''my-app-db'' (example_d1_props\<lparr>primaryLocationHint := Some ''enam''\<rparr>) [])
     \<noteq> Inr (Replace False)"
  by (simp add: D1Database_handler_def D1Database_name_def D1Database_adopt_def D1Database_dev_def Let_def example_d1_output_def example_d1_props_def
      example_scope_def d1_local_def d1_update_def truthy_def io_bind_def io_throw_def)

section \<open>Properties of the validation\<close>

lemma AiSearch_invalid_name:
  assumes "ctx_phase this \<noteq> Delete" "invalid_name (AiSearch_name this i props)"
  shows "AiSearch_handler api this i props h
           = (Inl (Error (''AI Search instance name must be 1-32 characters, got ''
                          @ show_nat (length (AiSearch_name this i props)) @ '' (''
                          @ quoted (AiSearch_name this i props) @ '')'')), h)"
  using assms by (simp add: AiSearch_handler_def Let_def io_throw_def)

lemma validateTokenId_fails:
  "\<not> is_uuid t \<Longrightarrow> validateTokenId t h = (Inl (invalid_token_id t), h)"
  by (simp add: validateTokenId_def io_throw_def)

lemma normalizeTokenId_fails:
  assumes "as_token props = TokenIdProperty t \<or> (as_token props = TokenProperty tk \<and> tokenId tk = t)"
    "\<not> is_uuid t"
  shows "normalizeTokenId api props h = (Inl (invalid_token_id t), h)"
  using assms
  by (auto simp add: normalizeTokenId_def validateTokenId_def io_bind_def io_throw_def)

lemma bad_domain_fails:
  assumes "str_includes d ''://'' \<or> str_includes d ''/''"
  shows "\<exists>m. validateWebCrawlerSourceDomain api d h = (Inl (Error m), h)"
  using assms by (auto simp add: validateWebCrawlerSourceDomain_def io_throw_def)

lemma normalizeSource_bad_domain:
  assumes "as_source props = SourceWebCrawler w"
    "str_includes (wc_domain w) ''://'' \<or> str_includes (wc_domain w) ''/''"
  shows "\<exists>m. normalizeSource api sc i (as_source props) h = (Inl (Error m), h)"
  using bad_domain_fails[OF assms(2), of api h] assms(1)
  by (auto simp add: normalizeSource_def io_bind_def)

lemma validateBucketSource_calls:
  "snd (validateBucketSource api sc i b j h) = h
   \<or> (\<exists>n jur. snd (validateBucketSource api sc i b j h) = h @ [C_getBucket n jur])"
  by (auto simp add: validateBucketSource_def getBucket_def io_catch_def io_throw_def request_def
      Let_def split: bucket_ref.splits sum.splits)

lemma io_bind_return_calls: "snd (io_bind m (\<lambda>x. io_return (f x)) h) = snd (m h)"
  by (simp add: io_bind_def io_return_def split: prod.splits sum.splits)

lemma normalizeSource_calls:
  "snd (normalizeSource api sc i src h) = h
   \<or> (\<exists>n jur. snd (normalizeSource api sc i src h) = h @ [C_getBucket n jur])
   \<or> (\<exists>d. snd (normalizeSource api sc i src h) = h @ [C_postAiSearchDomains d])"
proof (cases src)
  case (SourceBucket b)
  then show ?thesis
    using validateBucketSource_calls[of api sc i "BucketResource b" "bucket_jurisdiction b" h]
    by (auto simp add: normalizeSource_def io_bind_return_calls)
next
  case (SourceR2 s)
  then show ?thesis
  proof (cases "r2_bucket s")
    case (BucketName n)
    then show ?thesis
      using SourceR2 validateBucketSource_calls[of api sc i "BucketName n" "r2s_jurisdiction s" h]
      by (auto simp add: normalizeSource_def io_bind_return_calls)
  next
    case (BucketResource b)
    then show ?thesis
      using SourceR2
        validateBucketSource_calls[of api sc i "BucketResource b" "bucket_jurisdiction b" h]
      by (auto simp add: normalizeSource_def io_bind_return_calls)
  qed
next
  case (SourceWebCrawler w)
  have "snd (validateWebCrawlerSourceDomain api (wc_domain w) h) = h
        \<or> snd (validateWebCrawlerSourceDomain api (wc_domain w) h)
            = h @ [C_postAiSearchDomains (wc_domain w)]"
    by (simp add: validateWebCrawlerSourceDomain_def io_throw_def io_bind_def request_def
        io_return_def split: sum.splits)
  then show ?thesis using SourceWebCrawler
    by (auto simp add: normalizeSource_def io_bind_return_calls)
qed

lemma promise_all2_first_fails_at_once:
  assumes "m1 h = (Inl e1, h)"
  shows "promise_all2 api m1 m2 h
           = ((case m2 h of
                 (Inl e2, h2) \<Rightarrow> if h2 = h then Inl e2 else Inl e1
               | (Inr b, h2) \<Rightarrow> Inl e1), snd (m2 h))"
  using assms by (simp add: promise_all2_def split: prod.splits sum.splits)

lemma promise_all2_second_fails_at_once:
  assumes "\<And>h'. m2 h' = (Inl e2, h')"
  shows "promise_all2 api m1 m2 h = (Inl e2, snd (m1 h))"
  using assms by (simp add: promise_all2_def split: prod.splits sum.splits)

lemma AiSearch_bad_domain:
  assumes "ctx_phase this \<noteq> Delete" "\<not> invalid_name (AiSearch_name this i props)"
    "as_source props = SourceWebCrawler w"
    "str_includes (wc_domain w) ''://'' \<or> str_includes (wc_domain w) ''/''"
  shows "\<exists>m. AiSearch_handler api this i props h
               = ((case normalizeTokenId api props h of
                     (Inl e2, h2) \<Rightarrow> if h2 = h then Inl e2 else Inl (Error m)
                   | (Inr tok, h2) \<Rightarrow> Inl (Error m)),
                  snd (normalizeTokenId api props h))"
proof -
  from normalizeSource_bad_domain[OF assms(3,4), of api "ctx_scope this" i h]
  obtain m where m: "normalizeSource api (ctx_scope this) i (as_source props) h = (Inl (Error m), h)"
    by blast
  have "AiSearch_handler api this i props h
          = ((case normalizeTokenId api props h of
                (Inl e2, h2) \<Rightarrow> if h2 = h then Inl e2 else Inl (Error m)
              | (Inr tok, h2) \<Rightarrow> Inl (Error m)),
             snd (normalizeTokenId api props h))"
    using assms(1,2) m
      promise_all2_first_fails_at_once
        [of "normalizeSource api (ctx_scope this) i (as_source props)" h "Error m" api
            "normalizeTokenId api props"]
    by (simp add: AiSearch_handler_def Let_def io_bind_def split: prod.splits sum.splits)
  then show ?thesis by blast
qed

lemma normalizeTokenId_given_calls:
  assumes "as_token props \<noteq> NoToken"
  shows "snd (normalizeTokenId api props h) = h"
  using assms
  by (cases "as_token props")
    (simp_all add: normalizeTokenId_def validateTokenId_def io_bind_def io_return_def io_throw_def)

lemma AiSearch_bad_token_id:
  assumes "ctx_phase this \<noteq> Delete" "\<not> invalid_name (AiSearch_name this i props)"
    "as_token props = TokenIdProperty t \<or> (as_token props = TokenProperty tk \<and> tokenId tk = t)"
    "\<not> is_uuid t"
  shows "AiSearch_handler api this i props h
           = (Inl (invalid_token_id t),
              snd (normalizeSource api (ctx_scope this) i (as_source props) h))"
proof -
  have tok: "normalizeTokenId api props h' = (Inl (invalid_token_id t), h')" for h'
    using normalizeTokenId_fails[OF assms(3,4)] by simp
  show ?thesis
    using assms(1,2)
      promise_all2_second_fails_at_once[of "normalizeTokenId api props" "invalid_token_id t" api
        "normalizeSource api (ctx_scope this) i (as_source props)" h, OF tok]
    by (simp add: AiSearch_handler_def Let_def io_bind_def split: sum.splits)
qed

text \<open>
  C5, as the code has it, for the create and update phases of AiSearch (the delete
  phase validates nothing). A name shorter than 1 or longer than 32 characters makes
  the handler throw the validation error with no call made. A web crawler domain that
  contains \<open>://\<close> or \<open>/\<close> makes the handler throw a validation error: the one of the
  token id when the token, which is normalized at the same time, has failed without
  sending anything, else the one of the domain; the source sends nothing, and the only
  calls are those of the token: none when a token or a token id is declared. A declared
  token id that is not a UUID makes the handler throw the validation error of the token
  id: the token sends nothing, and the only calls are those of the source, which is
  normalized at the same time and started first: nothing, or one bucket lookup, or one
  domain check. In each case the handler ends with the error, and the calls show no
  create or update of an instance and no second attempt.
\<close>

theorem validation_errors:
  "(ctx_phase this \<noteq> Delete \<and> invalid_name (AiSearch_name this i props)
      \<longrightarrow> AiSearch_handler api this i props h
            = (Inl (Error (''AI Search instance name must be 1-32 characters, got ''
                           @ show_nat (length (AiSearch_name this i props)) @ '' (''
                           @ quoted (AiSearch_name this i props) @ '')'')), h))
   \<and> (ctx_phase this \<noteq> Delete \<and> \<not> invalid_name (AiSearch_name this i props)
      \<and> as_source props = SourceWebCrawler w
      \<and> (str_includes (wc_domain w) ''://'' \<or> str_includes (wc_domain w) ''/'')
      \<longrightarrow> (\<exists>m. AiSearch_handler api this i props h
                  = ((case normalizeTokenId api props h of
                        (Inl e2, h2) \<Rightarrow> if h2 = h then Inl e2 else Inl (Error m)
                      | (Inr tok, h2) \<Rightarrow> Inl (Error m)),
                     snd (normalizeTokenId api props h))))
   \<and> (as_token props \<noteq> NoToken \<longrightarrow> snd (normalizeTokenId api props h) = h)
   \<and> (ctx_phase this \<noteq> Delete \<and> \<not> invalid_name (AiSearch_name this i props)
      \<and> (as_token props = TokenIdProperty t
           \<or> (as_token props = TokenProperty tk \<and> tokenId tk = t))
      \<and> \<not> is_uuid t
      \<longrightarrow> AiSearch_handler api this i props h
            = (Inl (invalid_token_id t),
               snd (normalizeSource api (ctx_scope this) i (as_source props) h)))
   \<and> (snd (normalizeSource api sc i src h) = h
      \<or> (\<exists>n jur. snd (normalizeSource api sc i src h) = h @ [C_getBucket n jur])
      \<or> (\<exists>d. snd (normalizeSource api sc i src h) = h @ [C_postAiSearchDomains d]))"
  apply (intro conjI impI)
  subgoal by (elim conjE) (rule AiSearch_invalid_name; assumption)
  subgoal by (elim conjE) (rule AiSearch_bad_domain; assumption)
  subgoal by (rule normalizeTokenId_given_calls)
  subgoal by (elim conjE) (rule AiSearch_bad_token_id; assumption)
  subgoal by (rule normalizeSource_calls)
  done

lemma not_a_uuid: "\<not> is_uuid ''not-a-uuid''"
  by code_simp

lemma show_nat_40: "show_nat 40 = ''40''"
  by code_simp

text \<open>
  C5 at the example AiSearch, in the create phase: with a name of 40 characters; with
  the domain \<open>https://docs.example.com\<close>; with the token id \<open>not-a-uuid\<close>; with both
  that domain and that token id.
\<close>

theorem validation_errors_witness:
  "AiSearch_handler search_exists
     \<lparr>ctx_phase = Create, ctx_output = None, ctx_scope = example_scope\<rparr> ''res''
     (example_search_props\<lparr>as_name := Some ''an-instance-name-of-more-than-32-letters''\<rparr>) []
     = (Inl (Error (''AI Search instance name must be 1-32 characters, got 40 (''
                    @ quoted ''an-instance-name-of-more-than-32-letters'' @ '')'')), [])
   \<and> (\<exists>m. AiSearch_handler search_exists
     \<lparr>ctx_phase = Create, ctx_output = None, ctx_scope = example_scope\<rparr> ''res''
     (example_search_props
        \<lparr>as_source := SourceWebCrawler (example_crawler\<lparr>wc_domain := ''https://docs.example.com''\<rparr>)\<rparr>)
     [] = (Inl (Error m), []))
   \<and> AiSearch_handler search_exists
     \<lparr>ctx_phase = Create, ctx_output = None, ctx_scope = example_scope\<rparr> ''res''
     (example_search_props\<lparr>as_token := TokenIdProperty ''not-a-uuid''\<rparr>) []
     = (Inl (invalid_token_id ''not-a-uuid''), [C_postAiSearchDomains ''docs.example.com''])
   \<and> AiSearch_handler search_exists
     \<lparr>ctx_phase = Create, ctx_output = None, ctx_scope = example_scope\<rparr> ''res''
     (example_search_props
        \<lparr>as_source := SourceWebCrawler (example_crawler\<lparr>wc_domain := ''https://docs.example.com''\<rparr>),
         as_token := TokenIdProperty ''not-a-uuid''\<rparr>) []
     = (Inl (invalid_token_id ''not-a-uuid''), [])"
proof -
  note defs = example_search_props_def example_crawler_def example_scope_def AiSearch_name_def
    invalid_name_def normalizeSource_def validateWebCrawlerSourceDomain_def normalizeTokenId_def
    validateTokenId_def example_token_id_is_uuid io_bind_def io_return_def io_throw_def
    request_def search_exists_def accepting_def refusing_def domain_ok_def
  have a: "AiSearch_handler search_exists
     \<lparr>ctx_phase = Create, ctx_output = None, ctx_scope = example_scope\<rparr> ''res''
     (example_search_props\<lparr>as_name := Some ''an-instance-name-of-more-than-32-letters''\<rparr>) []
     = (Inl (Error (''AI Search instance name must be 1-32 characters, got 40 (''
                    @ quoted ''an-instance-name-of-more-than-32-letters'' @ '')'')), [])"
    using validation_errors
      [where this = "\<lparr>ctx_phase = Create, ctx_output = None, ctx_scope = example_scope\<rparr>"
         and i = "''res''" and api = search_exists and h = "[]"
         and props = "example_search_props\<lparr>as_name := Some ''an-instance-name-of-more-than-32-letters''\<rparr>",
       THEN conjunct1]
      show_nat_40
    by (simp add: AiSearch_name_def invalid_name_def example_search_props_def)
  have b1: "normalizeTokenId search_exists
     (example_search_props
        \<lparr>as_source := SourceWebCrawler (example_crawler\<lparr>wc_domain := ''https://docs.example.com''\<rparr>)\<rparr>)
     [] = (Inr ''0a1b2c3d-0000-4000-8000-0123456789ab'', [])"
    by (simp add: normalizeTokenId_def validateTokenId_def example_search_props_def
        example_token_id_is_uuid io_bind_def io_return_def)
  have b0: "\<exists>m. AiSearch_handler search_exists
     \<lparr>ctx_phase = Create, ctx_output = None, ctx_scope = example_scope\<rparr> ''res''
     (example_search_props
        \<lparr>as_source := SourceWebCrawler (example_crawler\<lparr>wc_domain := ''https://docs.example.com''\<rparr>)\<rparr>)
     [] = ((case normalizeTokenId search_exists
                  (example_search_props
                     \<lparr>as_source := SourceWebCrawler (example_crawler\<lparr>wc_domain := ''https://docs.example.com''\<rparr>)\<rparr>)
                  [] of
              (Inl e2, h2) \<Rightarrow> if h2 = [] then Inl e2 else Inl (Error m)
            | (Inr tok, h2) \<Rightarrow> Inl (Error m)),
           snd (normalizeTokenId search_exists
                  (example_search_props
                     \<lparr>as_source := SourceWebCrawler (example_crawler\<lparr>wc_domain := ''https://docs.example.com''\<rparr>)\<rparr>)
                  []))"
    using validation_errors
      [where this = "\<lparr>ctx_phase = Create, ctx_output = None, ctx_scope = example_scope\<rparr>"
         and i = "''res''" and api = search_exists and h = "[]"
         and props = "example_search_props
            \<lparr>as_source := SourceWebCrawler (example_crawler\<lparr>wc_domain := ''https://docs.example.com''\<rparr>)\<rparr>"
         and w = "example_crawler\<lparr>wc_domain := ''https://docs.example.com''\<rparr>",
       THEN conjunct2, THEN conjunct1]
    by (simp add: AiSearch_name_def invalid_name_def example_search_props_def example_crawler_def)
  have b: "\<exists>m. AiSearch_handler search_exists
     \<lparr>ctx_phase = Create, ctx_output = None, ctx_scope = example_scope\<rparr> ''res''
     (example_search_props
        \<lparr>as_source := SourceWebCrawler (example_crawler\<lparr>wc_domain := ''https://docs.example.com''\<rparr>)\<rparr>)
     [] = (Inl (Error m), [])"
    using b0 unfolding b1 by simp
  have c: "AiSearch_handler search_exists
     \<lparr>ctx_phase = Create, ctx_output = None, ctx_scope = example_scope\<rparr> ''res''
     (example_search_props\<lparr>as_token := TokenIdProperty ''not-a-uuid''\<rparr>) []
     = (Inl (invalid_token_id ''not-a-uuid''), [C_postAiSearchDomains ''docs.example.com''])"
    using validation_errors
      [where this = "\<lparr>ctx_phase = Create, ctx_output = None, ctx_scope = example_scope\<rparr>"
         and i = "''res''" and api = search_exists and h = "[]"
         and props = "example_search_props\<lparr>as_token := TokenIdProperty ''not-a-uuid''\<rparr>"
         and t = "''not-a-uuid''",
       THEN conjunct2, THEN conjunct2, THEN conjunct2, THEN conjunct1]
      not_a_uuid
    by (simp add: defs)
  have d: "AiSearch_handler search_exists
     \<lparr>ctx_phase = Create, ctx_output = None, ctx_scope = example_scope\<rparr> ''res''
     (example_search_props
        \<lparr>as_source := SourceWebCrawler (example_crawler\<lparr>wc_domain := ''https://docs.example.com''\<rparr>),
         as_token := TokenIdProperty ''not-a-uuid''\<rparr>) []
     = (Inl (invalid_token_id ''not-a-uuid''), [])"
    using validation_errors
      [where this = "\<lparr>ctx_phase = Create, ctx_output = None, ctx_scope = example_scope\<rparr>"
         and i = "''res''" and api = search_exists and h = "[]"
         and props = "example_search_props
            \<lparr>as_source := SourceWebCrawler (example_crawler\<lparr>wc_domain := ''https://docs.example.com''\<rparr>),
             as_token := TokenIdProperty ''not-a-uuid''\<rparr>"
         and t = "''not-a-uuid''",
       THEN conjunct2, THEN conjunct2, THEN conjunct2, THEN conjunct1]
      not_a_uuid
    by (simp add: defs)
  from a b c d show ?thesis by blast
qed

text \<open>
  C5 as stated fails at an AiSearch that crawls \<open>docs.example.com\<close> and declares the
  token id \<open>not-a-uuid\<close>: when the handler throws the validation error of the token id,
  the request that checks the domain has been sent.
\<close>

theorem token_id_validation_counterexample:
  "\<not> is_uuid ''not-a-uuid''
   \<and> AiSearch_handler search_exists
        \<lparr>ctx_phase = Create, ctx_output = None, ctx_scope = example_scope\<rparr> ''docs-search''
        (example_search_props\<lparr>as_token := TokenIdProperty ''not-a-uuid''\<rparr>) []
      = (Inl (invalid_token_id ''not-a-uuid''), [C_postAiSearchDomains ''docs.example.com''])"
  using not_a_uuid
  by (simp add: AiSearch_handler_def promise_all2_def example_search_props_def
      example_crawler_def example_scope_def AiSearch_name_def invalid_name_def
      normalizeSource_def validateWebCrawlerSourceDomain_def normalizeTokenId_def
      validateTokenId_def io_bind_def io_return_def io_throw_def request_def search_exists_def
      accepting_def refusing_def domain_ok_def)

section \<open>Properties of the names\<close>





















section \<open>Properties of the adoption\<close>

lemma AiSearch_reconcile_create:
  assumes "ctx_phase this = Create"
  shows "AiSearch_reconcile api this props n source tok
           = AiSearch_create api props (AiSearch_adopt this props) n
               (AiSearch_payload n source tok props)"
  using assms by (simp add: AiSearch_reconcile_def Let_def split: option.splits)

lemma AiSearch_create_adopts:
  assumes "answer_instance api h1 (C_createAiSearchInstance payload) = Inl error"
    "isAlreadyExistsError error = Inr True" "adopt"
    "answer_instance api (h1 @ [C_createAiSearchInstance payload]) (C_getAiSearchInstance n)
       = Inr existing"
    "answer_instance api (h1 @ [C_createAiSearchInstance payload, C_getAiSearchInstance n])
       (C_updateAiSearchInstance (r_id existing) payload) = Inr updated"
  shows "AiSearch_create api props adopt n payload h1
           = index_and_output api props updated
               (h1 @ [C_createAiSearchInstance payload, C_getAiSearchInstance n,
                      C_updateAiSearchInstance (r_id existing) payload])"
  using assms
  by (simp add: AiSearch_create_def io_bind_def io_catch_def createAiSearchInstance_def
      getAiSearchInstance_def updateAiSearchInstance_def request_def)

lemma AiSearch_create_refuses:
  assumes "answer_instance api h1 (C_createAiSearchInstance payload) = Inl error"
    "isAlreadyExistsError error = Inr already" "\<not> adopt"
  shows "AiSearch_create api props adopt n payload h1
           = (Inl error, h1 @ [C_createAiSearchInstance payload])"
  using assms
  by (simp add: AiSearch_create_def io_bind_def io_catch_def createAiSearchInstance_def
      request_def io_throw_def)

lemma AiSearch_adopts:
  assumes "ctx_phase this = Create" "\<not> invalid_name (AiSearch_name this i props)"
    "promise_all2 api (normalizeSource api (ctx_scope this) i (as_source props))
       (normalizeTokenId api props) h = (Inr (source, tok), h1)"
    "payload = AiSearch_payload (AiSearch_name this i props) source tok props"
    "answer_instance api h1 (C_createAiSearchInstance payload) = Inl error"
    "isAlreadyExistsError error = Inr True" "AiSearch_adopt this props"
    "answer_instance api (h1 @ [C_createAiSearchInstance payload])
       (C_getAiSearchInstance (AiSearch_name this i props)) = Inr existing"
    "answer_instance api
       (h1 @ [C_createAiSearchInstance payload, C_getAiSearchInstance (AiSearch_name this i props)])
       (C_updateAiSearchInstance (r_id existing) payload) = Inr updated"
  shows "AiSearch_handler api this i props h
           = index_and_output api props updated
               (h1 @ [C_createAiSearchInstance payload,
                      C_getAiSearchInstance (AiSearch_name this i props),
                      C_updateAiSearchInstance (r_id existing) payload])"
proof -
  have "ctx_phase this \<noteq> Delete" using assms(1) by simp
  from AiSearch_handler_apply[OF this assms(2,3)]
  show ?thesis
    using AiSearch_reconcile_create[OF assms(1)]
      AiSearch_create_adopts[OF assms(5,6,7,8,9)] assms(4)
    by simp
qed

lemma AiSearch_refuses:
  assumes "ctx_phase this = Create" "\<not> invalid_name (AiSearch_name this i props)"
    "promise_all2 api (normalizeSource api (ctx_scope this) i (as_source props))
       (normalizeTokenId api props) h = (Inr (source, tok), h1)"
    "payload = AiSearch_payload (AiSearch_name this i props) source tok props"
    "answer_instance api h1 (C_createAiSearchInstance payload) = Inl error"
    "isAlreadyExistsError error = Inr True" "\<not> AiSearch_adopt this props"
  shows "AiSearch_handler api this i props h
           = (Inl error, h1 @ [C_createAiSearchInstance payload])"
proof -
  have "ctx_phase this \<noteq> Delete" using assms(1) by simp
  from AiSearch_handler_apply[OF this assms(2,3)]
  show ?thesis
    using AiSearch_reconcile_create[OF assms(1)]
      AiSearch_create_refuses[OF assms(5,6,7)] assms(4)
    by simp
qed

lemma VpcService_adopts:
  assumes "ctx_phase this = Create" "input = VpcService_input this i props"
    "answer_service api h (C_createService input) = Inl err"
    "isCloudflareApiError err None (Some 5101)" "VpcService_adopt this props"
    "answer_services api (h @ [C_createService input]) C_listServices = Inr services"
    "find (\<lambda>s. in_name s = in_name input) services = Some service"
    "answer_service api (h @ [C_createService input, C_listServices])
       (C_updateService (service_id service) input) = Inr updated"
  shows "VpcService_handler getTime api this i props h
           = (Inr (Output (formatOutput getTime updated)),
              h @ [C_createService input, C_listServices,
                   C_updateService (service_id service) input])"
  using assms
  by (simp add: VpcService_handler_def Let_def io_bind_def io_catch_def io_return_def
      createService_def listServices_def updateService_def request_def)

lemma VpcService_refuses:
  assumes "ctx_phase this = Create" "input = VpcService_input this i props"
    "answer_service api h (C_createService input) = Inl err"
    "\<not> VpcService_adopt this props"
  shows "VpcService_handler getTime api this i props h = (Inl err, h @ [C_createService input])"
  using assms
  by (simp add: VpcService_handler_def Let_def io_bind_def io_catch_def io_throw_def
      createService_def request_def)

lemma AiSearchToken_adopts:
  assumes "ctx_phase this = Create" "tokenName = AiSearchToken_name this i props"
    "answer_account_token api h (C_AccountApiToken ''account-token'' (account_token_props tokenName props))
       = Inr accountToken"
    "aat_value accountToken = Some v"
    "payload = \<lparr>tp_name = tokenName, tp_cf_api_id = aat_id accountToken,
                 tp_cf_api_key = unencrypted v\<rparr>"
    "answer_token api (h @ [C_AccountApiToken ''account-token'' (account_token_props tokenName props)])
       (C_createAiSearchToken payload) = Inl (CloudflareApiError st ed m)"
    "tkp_adopt props = Some True"
    "answer_tokens api
       (h @ [C_AccountApiToken ''account-token'' (account_token_props tokenName props),
             C_createAiSearchToken payload]) C_listAiSearchTokens = Inr tokens"
    "find (\<lambda>t. t_name t = tokenName) tokens = Some existing"
  shows "AiSearchToken_handler api this i props h
           = (Inr (Output (token_output existing accountToken (unencrypted v))),
              h @ [C_AccountApiToken ''account-token'' (account_token_props tokenName props),
                   C_createAiSearchToken payload, C_listAiSearchTokens])"
  using assms
  by (simp add: AiSearchToken_handler_def Let_def io_bind_def io_catch_def io_return_def
      createAiSearchToken_def listAiSearchTokens_def request_def split: option.splits)

lemma AiSearchToken_refuses:
  assumes "ctx_phase this = Create" "tokenName = AiSearchToken_name this i props"
    "answer_account_token api h (C_AccountApiToken ''account-token'' (account_token_props tokenName props))
       = Inr accountToken"
    "aat_value accountToken = Some v"
    "payload = \<lparr>tp_name = tokenName, tp_cf_api_id = aat_id accountToken,
                 tp_cf_api_key = unencrypted v\<rparr>"
    "answer_token api (h @ [C_AccountApiToken ''account-token'' (account_token_props tokenName props)])
       (C_createAiSearchToken payload) = Inl error"
    "\<not> (case tkp_adopt props of Some a \<Rightarrow> a | None \<Rightarrow> scope_adopt (ctx_scope this))"
  shows "AiSearchToken_handler api this i props h
           = (Inl error,
              h @ [C_AccountApiToken ''account-token'' (account_token_props tokenName props),
                   C_createAiSearchToken payload])"
  using assms
  by (simp add: AiSearchToken_handler_def Let_def io_bind_def io_catch_def io_throw_def
      createAiSearchToken_def request_def split: option.splits thrown.splits)

lemma D1Database_create_step:
  assumes "ctx_phase this = Create" "\<not> d1_local this props"
  shows "D1Database_handler api this i props h
           = io_bind (d1_create_or_adopt api (D1Database_adopt this props)
                        (D1Database_name this i props) props)
               (migrate_and_output api props (D1Database_name this i props)
                  (D1Database_dev this (D1Database_name this i props) props)
                  (case d1p_jurisdiction props of None \<Rightarrow> ''default'' | Some j \<Rightarrow> j)) h"
  using assms by (simp add: D1Database_handler_def Let_def split: option.splits)

lemma createDatabase_fails:
  assumes "answer_database api h (C_postD1Database (createPayload n props)) = Inl error"
  shows "createDatabase api n props h = (Inl error, h @ [C_postD1Database (createPayload n props)])"
  using assms by (simp add: createDatabase_def Let_def io_bind_def request_def)

lemma d1_adopt_existing_run:
  assumes "n \<noteq> []"
    "answer_databases api h1 (C_listDatabases (Some n)) = Inr databases"
    "find (\<lambda>db. d1_name db = n) databases = Some existingDb"
    "answer_database api (h1 @ [C_listDatabases (Some n)]) (C_getDatabase (uuid existingDb))
       = Inr dbData"
  shows "d1_adopt_existing api n props h1
           = (case readReplication props of
                None \<Rightarrow>
                  (Inr dbData, h1 @ [C_listDatabases (Some n), C_getDatabase (uuid existingDb)])
              | Some mode \<Rightarrow>
                  (answer_database api
                     (h1 @ [C_listDatabases (Some n), C_getDatabase (uuid existingDb)])
                     (C_updateReadReplicationMode (uuid existingDb) mode),
                   h1 @ [C_listDatabases (Some n), C_getDatabase (uuid existingDb),
                         C_updateReadReplicationMode (uuid existingDb) mode]))"
  using assms
  by (simp add: d1_adopt_existing_def io_bind_def io_return_def listDatabases_def
      getDatabase_def updateReadReplicationMode_def request_def truthy_def
      split: option.splits)

lemma d1_adopts:
  assumes "answer_database api h (C_postD1Database (createPayload n props))
             = Inl (CloudflareApiError st ed m)"
    "str_includes m ''already exists''" "adopt" "n \<noteq> []"
    "answer_databases api (h @ [C_postD1Database (createPayload n props)])
       (C_listDatabases (Some n)) = Inr databases"
    "find (\<lambda>db. d1_name db = n) databases = Some existingDb"
    "answer_database api
       (h @ [C_postD1Database (createPayload n props), C_listDatabases (Some n)])
       (C_getDatabase (uuid existingDb)) = Inr dbData"
  shows "d1_create_or_adopt api adopt n props h
           = (case readReplication props of
                None \<Rightarrow>
                  (Inr dbData,
                   h @ [C_postD1Database (createPayload n props), C_listDatabases (Some n),
                        C_getDatabase (uuid existingDb)])
              | Some mode \<Rightarrow>
                  (answer_database api
                     (h @ [C_postD1Database (createPayload n props), C_listDatabases (Some n),
                           C_getDatabase (uuid existingDb)])
                     (C_updateReadReplicationMode (uuid existingDb) mode),
                   h @ [C_postD1Database (createPayload n props), C_listDatabases (Some n),
                        C_getDatabase (uuid existingDb),
                        C_updateReadReplicationMode (uuid existingDb) mode]))"
proof -
  have run: "d1_create_or_adopt api adopt n props h
               = d1_adopt_existing api n props (h @ [C_postD1Database (createPayload n props)])"
    using createDatabase_fails[OF assms(1)] assms(2,3)
    by (simp add: d1_create_or_adopt_def io_catch_def io_bind_def)
  have "answer_database api
          ((h @ [C_postD1Database (createPayload n props)]) @ [C_listDatabases (Some n)])
          (C_getDatabase (uuid existingDb)) = Inr dbData"
    using assms(7) by simp
  from d1_adopt_existing_run[OF assms(4,5,6) this, of props] show ?thesis
    unfolding run by (simp split: option.splits)
qed

lemma d1_refuses:
  assumes "answer_database api h (C_postD1Database (createPayload n props)) = Inl error"
    "\<not> adopt"
  shows "d1_create_or_adopt api adopt n props h
           = (Inl error, h @ [C_postD1Database (createPayload n props)])"
  using createDatabase_fails[OF assms(1)] assms(2)
  by (simp add: d1_create_or_adopt_def io_catch_def io_bind_def io_throw_def
      split: thrown.splits)

lemma D1Database_adopts:
  assumes "ctx_phase this = Create" "\<not> d1_local this props" "n = D1Database_name this i props"
    "answer_database api h (C_postD1Database (createPayload n props))
       = Inl (CloudflareApiError st ed m)"
    "str_includes m ''already exists''" "D1Database_adopt this props" "n \<noteq> []"
    "answer_databases api (h @ [C_postD1Database (createPayload n props)])
       (C_listDatabases (Some n)) = Inr databases"
    "find (\<lambda>db. d1_name db = n) databases = Some existingDb"
    "answer_database api
       (h @ [C_postD1Database (createPayload n props), C_listDatabases (Some n)])
       (C_getDatabase (uuid existingDb)) = Inr dbData"
    "readReplication props = None"
  shows "D1Database_handler api this i props h
           = migrate_and_output api props n (D1Database_dev this n props)
               (case d1p_jurisdiction props of None \<Rightarrow> ''default'' | Some j \<Rightarrow> j) dbData
               (h @ [C_postD1Database (createPayload n props), C_listDatabases (Some n),
                     C_getDatabase (uuid existingDb)])"
  using D1Database_create_step[OF assms(1,2), of api i h]
    d1_adopts[OF assms(4,5) _ assms(7,8,9,10), of "D1Database_adopt this props"] assms(3,6,11)
  by (simp add: io_bind_def)

lemma D1Database_adopts_and_updates:
  assumes "ctx_phase this = Create" "\<not> d1_local this props" "n = D1Database_name this i props"
    "answer_database api h (C_postD1Database (createPayload n props))
       = Inl (CloudflareApiError st ed m)"
    "str_includes m ''already exists''" "D1Database_adopt this props" "n \<noteq> []"
    "answer_databases api (h @ [C_postD1Database (createPayload n props)])
       (C_listDatabases (Some n)) = Inr databases"
    "find (\<lambda>db. d1_name db = n) databases = Some existingDb"
    "answer_database api
       (h @ [C_postD1Database (createPayload n props), C_listDatabases (Some n)])
       (C_getDatabase (uuid existingDb)) = Inr dbData"
    "readReplication props = Some mode"
    "answer_database api
       (h @ [C_postD1Database (createPayload n props), C_listDatabases (Some n),
             C_getDatabase (uuid existingDb)])
       (C_updateReadReplicationMode (uuid existingDb) mode) = Inr updated"
  shows "D1Database_handler api this i props h
           = migrate_and_output api props n (D1Database_dev this n props)
               (case d1p_jurisdiction props of None \<Rightarrow> ''default'' | Some j \<Rightarrow> j) updated
               (h @ [C_postD1Database (createPayload n props), C_listDatabases (Some n),
                     C_getDatabase (uuid existingDb),
                     C_updateReadReplicationMode (uuid existingDb) mode])"
  using D1Database_create_step[OF assms(1,2), of api i h]
    d1_adopts[OF assms(4,5) _ assms(7,8,9,10), of "D1Database_adopt this props"] assms(3,6,11,12)
  by (simp add: io_bind_def)

lemma D1Database_refuses:
  assumes "ctx_phase this = Create" "\<not> d1_local this props" "n = D1Database_name this i props"
    "answer_database api h (C_postD1Database (createPayload n props)) = Inl error"
    "\<not> D1Database_adopt this props"
  shows "D1Database_handler api this i props h
           = (Inl error, h @ [C_postD1Database (createPayload n props)])"
  using D1Database_create_step[OF assms(1,2), of api i h]
    d1_refuses[OF assms(4), of "D1Database_adopt this props"] assms(3,5)
  by (simp add: io_bind_def)

text \<open>
  C1, as the four handlers have it. In the create phase, when the create call fails:

  \<^item> AiSearch, on the error of status 400 with code 7022 and with the effective adopt flag
    (the declared \<open>adopt\<close>, else the default of the scope) true, gets the instance by name,
    updates it with the declared payload and goes on with the updated instance; with the
    flag false the error is thrown again after the create call;
  \<^item> VpcService, on the error with code 5101 and with the effective flag true, lists the
    services, finds the one of that name, updates it with the declared input and returns
    the output of the updated service; with the flag false the error is thrown again;
  \<^item> AiSearchToken, on a Cloudflare API error and with the declared \<open>adopt\<close> true, lists
    the tokens, finds the one of that name and returns its output: no update call is
    made; with the effective flag false the error is thrown again;
  \<^item> D1Database, on a Cloudflare API error whose message contains \<open>already exists\<close> and
    with the effective flag true, lists the databases by name, gets the one of that
    name and goes on with it; an update call (of the read replication mode) follows
    only when \<open>readReplication\<close> is declared; with the flag false the error is thrown
    again.
\<close>

theorem adoption_protocol:
  "(ctx_phase s_this = Create \<and> \<not> invalid_name (AiSearch_name s_this i s_props)
      \<and> promise_all2 api (normalizeSource api (ctx_scope s_this) i (as_source s_props))
            (normalizeTokenId api s_props) h = (Inr (source, tok), h1)
      \<and> payload = AiSearch_payload (AiSearch_name s_this i s_props) source tok s_props
      \<and> answer_instance api h1 (C_createAiSearchInstance payload) = Inl s_error
      \<and> isAlreadyExistsError s_error = Inr True \<and> AiSearch_adopt s_this s_props
      \<and> answer_instance api (h1 @ [C_createAiSearchInstance payload])
            (C_getAiSearchInstance (AiSearch_name s_this i s_props)) = Inr existing
      \<and> answer_instance api
            (h1 @ [C_createAiSearchInstance payload,
                   C_getAiSearchInstance (AiSearch_name s_this i s_props)])
            (C_updateAiSearchInstance (r_id existing) payload) = Inr updated
      \<longrightarrow> AiSearch_handler api s_this i s_props h
            = index_and_output api s_props updated
                (h1 @ [C_createAiSearchInstance payload,
                       C_getAiSearchInstance (AiSearch_name s_this i s_props),
                       C_updateAiSearchInstance (r_id existing) payload]))
   \<and> (ctx_phase s_this = Create \<and> \<not> invalid_name (AiSearch_name s_this i s_props)
      \<and> promise_all2 api (normalizeSource api (ctx_scope s_this) i (as_source s_props))
            (normalizeTokenId api s_props) h = (Inr (source, tok), h1)
      \<and> payload = AiSearch_payload (AiSearch_name s_this i s_props) source tok s_props
      \<and> answer_instance api h1 (C_createAiSearchInstance payload) = Inl s_error
      \<and> isAlreadyExistsError s_error = Inr True \<and> \<not> AiSearch_adopt s_this s_props
      \<longrightarrow> AiSearch_handler api s_this i s_props h
            = (Inl s_error, h1 @ [C_createAiSearchInstance payload]))
   \<and> (ctx_phase v_this = Create \<and> input = VpcService_input v_this i v_props
      \<and> answer_service api h (C_createService input) = Inl v_error
      \<and> isCloudflareApiError v_error None (Some 5101) \<and> VpcService_adopt v_this v_props
      \<and> answer_services api (h @ [C_createService input]) C_listServices = Inr services
      \<and> find (\<lambda>s. in_name s = in_name input) services = Some service
      \<and> answer_service api (h @ [C_createService input, C_listServices])
            (C_updateService (service_id service) input) = Inr v_updated
      \<longrightarrow> VpcService_handler getTime api v_this i v_props h
            = (Inr (Output (formatOutput getTime v_updated)),
               h @ [C_createService input, C_listServices,
                    C_updateService (service_id service) input]))
   \<and> (ctx_phase v_this = Create \<and> input = VpcService_input v_this i v_props
      \<and> answer_service api h (C_createService input) = Inl v_error
      \<and> \<not> VpcService_adopt v_this v_props
      \<longrightarrow> VpcService_handler getTime api v_this i v_props h
            = (Inl v_error, h @ [C_createService input]))
   \<and> (ctx_phase t_this = Create \<and> tokenName = AiSearchToken_name t_this i t_props
      \<and> answer_account_token api h
            (C_AccountApiToken ''account-token'' (account_token_props tokenName t_props))
          = Inr accountToken
      \<and> aat_value accountToken = Some v
      \<and> t_payload = \<lparr>tp_name = tokenName, tp_cf_api_id = aat_id accountToken,
                       tp_cf_api_key = unencrypted v\<rparr>
      \<and> answer_token api
            (h @ [C_AccountApiToken ''account-token'' (account_token_props tokenName t_props)])
            (C_createAiSearchToken t_payload) = Inl (CloudflareApiError st ed m)
      \<and> tkp_adopt t_props = Some True
      \<and> answer_tokens api
            (h @ [C_AccountApiToken ''account-token'' (account_token_props tokenName t_props),
                  C_createAiSearchToken t_payload]) C_listAiSearchTokens = Inr tokens
      \<and> find (\<lambda>t. t_name t = tokenName) tokens = Some t_existing
      \<longrightarrow> AiSearchToken_handler api t_this i t_props h
            = (Inr (Output (token_output t_existing accountToken (unencrypted v))),
               h @ [C_AccountApiToken ''account-token'' (account_token_props tokenName t_props),
                    C_createAiSearchToken t_payload, C_listAiSearchTokens]))
   \<and> (ctx_phase t_this = Create \<and> tokenName = AiSearchToken_name t_this i t_props
      \<and> answer_account_token api h
            (C_AccountApiToken ''account-token'' (account_token_props tokenName t_props))
          = Inr accountToken
      \<and> aat_value accountToken = Some v
      \<and> t_payload = \<lparr>tp_name = tokenName, tp_cf_api_id = aat_id accountToken,
                       tp_cf_api_key = unencrypted v\<rparr>
      \<and> answer_token api
            (h @ [C_AccountApiToken ''account-token'' (account_token_props tokenName t_props)])
            (C_createAiSearchToken t_payload) = Inl t_error
      \<and> \<not> (case tkp_adopt t_props of
                Some a \<Rightarrow> a
              | None \<Rightarrow> scope_adopt (ctx_scope t_this))
      \<longrightarrow> AiSearchToken_handler api t_this i t_props h
            = (Inl t_error,
               h @ [C_AccountApiToken ''account-token'' (account_token_props tokenName t_props),
                    C_createAiSearchToken t_payload]))
   \<and> (ctx_phase d_this = Create \<and> \<not> d1_local d_this d_props
      \<and> n = D1Database_name d_this i d_props
      \<and> answer_database api h (C_postD1Database (createPayload n d_props))
          = Inl (CloudflareApiError dst ded dm)
      \<and> str_includes dm ''already exists'' \<and> D1Database_adopt d_this d_props \<and> n \<noteq> []
      \<and> answer_databases api (h @ [C_postD1Database (createPayload n d_props)])
            (C_listDatabases (Some n)) = Inr databases
      \<and> find (\<lambda>db. d1_name db = n) databases = Some existingDb
      \<and> answer_database api
            (h @ [C_postD1Database (createPayload n d_props), C_listDatabases (Some n)])
            (C_getDatabase (uuid existingDb)) = Inr dbData
      \<and> readReplication d_props = None
      \<longrightarrow> D1Database_handler api d_this i d_props h
            = migrate_and_output api d_props n (D1Database_dev d_this n d_props)
                (case d1p_jurisdiction d_props of None \<Rightarrow> ''default'' | Some j \<Rightarrow> j) dbData
                (h @ [C_postD1Database (createPayload n d_props), C_listDatabases (Some n),
                      C_getDatabase (uuid existingDb)]))
   \<and> (ctx_phase d_this = Create \<and> \<not> d1_local d_this d_props
      \<and> n = D1Database_name d_this i d_props
      \<and> answer_database api h (C_postD1Database (createPayload n d_props))
          = Inl (CloudflareApiError dst ded dm)
      \<and> str_includes dm ''already exists'' \<and> D1Database_adopt d_this d_props \<and> n \<noteq> []
      \<and> answer_databases api (h @ [C_postD1Database (createPayload n d_props)])
            (C_listDatabases (Some n)) = Inr databases
      \<and> find (\<lambda>db. d1_name db = n) databases = Some existingDb
      \<and> answer_database api
            (h @ [C_postD1Database (createPayload n d_props), C_listDatabases (Some n)])
            (C_getDatabase (uuid existingDb)) = Inr dbData
      \<and> readReplication d_props = Some mode
      \<and> answer_database api
            (h @ [C_postD1Database (createPayload n d_props), C_listDatabases (Some n),
                  C_getDatabase (uuid existingDb)])
            (C_updateReadReplicationMode (uuid existingDb) mode) = Inr d_updated
      \<longrightarrow> D1Database_handler api d_this i d_props h
            = migrate_and_output api d_props n (D1Database_dev d_this n d_props)
                (case d1p_jurisdiction d_props of None \<Rightarrow> ''default'' | Some j \<Rightarrow> j) d_updated
                (h @ [C_postD1Database (createPayload n d_props), C_listDatabases (Some n),
                      C_getDatabase (uuid existingDb),
                      C_updateReadReplicationMode (uuid existingDb) mode]))
   \<and> (ctx_phase d_this = Create \<and> \<not> d1_local d_this d_props
      \<and> n = D1Database_name d_this i d_props
      \<and> answer_database api h (C_postD1Database (createPayload n d_props)) = Inl d_error
      \<and> \<not> D1Database_adopt d_this d_props
      \<longrightarrow> D1Database_handler api d_this i d_props h
            = (Inl d_error, h @ [C_postD1Database (createPayload n d_props)]))"
  apply (intro conjI impI)
  subgoal by (elim conjE) (rule AiSearch_adopts; assumption)
  subgoal by (elim conjE) (rule AiSearch_refuses; assumption)
  subgoal by (elim conjE) (rule VpcService_adopts; assumption)
  subgoal by (elim conjE) (rule VpcService_refuses; assumption)
  subgoal by (elim conjE) (rule AiSearchToken_adopts; assumption)
  subgoal by (elim conjE) (rule AiSearchToken_refuses; assumption)
  subgoal by (elim conjE) (rule D1Database_adopts; assumption)
  subgoal by (elim conjE) (rule D1Database_adopts_and_updates; assumption)
  subgoal by (elim conjE) (rule D1Database_refuses; assumption)
  done

lemma adopting_props_normalized:
  "promise_all2 search_exists
     (normalizeSource search_exists example_scope i (SourceWebCrawler example_crawler))
     (normalizeTokenId search_exists (example_search_props\<lparr>as_adopt := a\<rparr>)) []
   = (Inr (NormalizedWebCrawler example_crawler, ''0a1b2c3d-0000-4000-8000-0123456789ab''),
      [C_postAiSearchDomains ''docs.example.com''])"
  by (simp add: promise_all2_def normalizeSource_def normalizeTokenId_def validateTokenId_def
      validateWebCrawlerSourceDomain_def example_crawler_def example_search_props_def
      example_token_id_is_uuid io_bind_def io_return_def io_throw_def request_def
      search_exists_def accepting_def refusing_def domain_ok_def)

lemma adopting_props_payload:
  "AiSearch_payload ''docs'' (NormalizedWebCrawler example_crawler)
     ''0a1b2c3d-0000-4000-8000-0123456789ab'' (example_search_props\<lparr>as_adopt := a\<rparr>)
   = example_payload"
  by (simp add: AiSearch_payload_def example_crawler_def example_search_props_def
      example_payload_def)

text \<open>
  C1 at the example resources, each on a provider where the object exists already: the
  adopting AiSearch and VpcService update what they found; the adopting AiSearchToken
  returns what it found; the adopting D1Database updates only when a read replication
  mode is declared; the AiSearch that does not adopt throws the error of the create call.
\<close>

theorem adoption_protocol_witness:
  "AiSearch_handler search_exists
     \<lparr>ctx_phase = Create, ctx_output = None, ctx_scope = example_scope\<rparr> ''res''
     (example_search_props\<lparr>as_adopt := Some True\<rparr>) []
     = (Inr (Output (formatAiSearch example_instance)),
        [C_postAiSearchDomains ''docs.example.com'', C_createAiSearchInstance example_payload,
         C_getAiSearchInstance ''docs'', C_updateAiSearchInstance ''docs'' example_payload])
   \<and> AiSearch_handler search_exists
     \<lparr>ctx_phase = Create, ctx_output = None, ctx_scope = example_scope\<rparr> ''res''
     example_search_props []
     = (Inl already_exists_7022,
        [C_postAiSearchDomains ''docs.example.com'', C_createAiSearchInstance example_payload])
   \<and> VpcService_handler (\<lambda>s. 0) service_exists
     \<lparr>ctx_phase = Create, ctx_output = None, ctx_scope = example_scope\<rparr> ''res''
     example_vpc_props []
     = (Inr (Output example_vpc_output),
        [C_createService example_service_input, C_listServices,
         C_updateService ''svc-1'' example_service_input])
   \<and> AiSearchToken_handler token_exists
     \<lparr>ctx_phase = Create, ctx_output = None, ctx_scope = example_scope\<rparr> ''res''
     example_token_props []
     = (Inr (Output (token_output example_token_response example_account_token ''key-1'')),
        [C_AccountApiToken ''account-token''
           (account_token_props ''docs-search-token'' example_token_props),
         C_createAiSearchToken
           \<lparr>tp_name = ''docs-search-token'', tp_cf_api_id = ''acct-token-1'',
            tp_cf_api_key = ''key-1''\<rparr>,
         C_listAiSearchTokens])
   \<and> snd (D1Database_handler database_exists
     \<lparr>ctx_phase = Create, ctx_output = None, ctx_scope = example_scope\<rparr> ''res''
     example_d1_props [])
     = [C_postD1Database (createPayload ''my-app-db'' example_d1_props),
        C_listDatabases (Some ''my-app-db''), C_getDatabase ''db-uuid-1'']
   \<and> snd (D1Database_handler database_exists
     \<lparr>ctx_phase = Create, ctx_output = None, ctx_scope = example_scope\<rparr> ''res''
     (example_d1_props\<lparr>readReplication := Some ''auto''\<rparr>) [])
     = [C_postD1Database (createPayload ''my-app-db'' (example_d1_props\<lparr>readReplication := Some ''auto''\<rparr>)),
        C_listDatabases (Some ''my-app-db''), C_getDatabase ''db-uuid-1'',
        C_updateReadReplicationMode ''db-uuid-1'' ''auto'']"
proof -
  note defs = example_search_props_def example_d1_props_def example_vpc_props_def
    example_token_props_def example_instance_def example_scope_def example_service_def
    example_service_input_def example_vpc_output_def example_token_response_def
    example_account_token_def example_database_def
    formatAiSearch_def search_exists_def service_exists_def token_exists_def
    database_exists_def accepting_def refusing_def truthy_def d1_local_def
    request_def io_return_def io_bind_def AiSearch_name_def invalid_name_def
    AiSearch_adopt_def VpcService_adopt_def D1Database_adopt_def D1Database_name_def
    D1Database_dev_def VpcService_input_def AiSearchToken_name_def
    example_payload_def example_crawler_def index_and_output_def
    migrate_and_output_def nonempty_files_def isAlreadyExistsError_def
    isCloudflareApiError_def already_exists_7022_def already_exists_5101_def
    token_conflict_def database_conflict_def formatOutput_def formatOutput_host_def
    normalizeHost_def normalizeNetwork_def token_output_def IPv4Host_def
  note norm = adopting_props_normalized[of "''res''" "Some True", unfolded example_search_props_def]
  note pay = adopting_props_payload[of "Some True", unfolded example_search_props_def example_payload_def]
  note norm0 = example_props_normalized[of "''res''", unfolded example_search_props_def]
  note pay0 = example_props_payload[unfolded example_search_props_def example_payload_def]
  have w1: "AiSearch_handler search_exists
     \<lparr>ctx_phase = Create, ctx_output = None, ctx_scope = example_scope\<rparr> ''res''
     (example_search_props\<lparr>as_adopt := Some True\<rparr>) []
     = (Inr (Output (formatAiSearch example_instance)),
        [C_postAiSearchDomains ''docs.example.com'', C_createAiSearchInstance example_payload,
         C_getAiSearchInstance ''docs'', C_updateAiSearchInstance ''docs'' example_payload])"
    using adoption_protocol
      [where api = search_exists and h = "[]" and i = "''res''"
         and s_this = "\<lparr>ctx_phase = Create, ctx_output = None, ctx_scope = example_scope\<rparr>"
         and s_props = "example_search_props\<lparr>as_adopt := Some True\<rparr>"
         and source = "NormalizedWebCrawler example_crawler"
         and tok = "''0a1b2c3d-0000-4000-8000-0123456789ab''"
         and ?h1.0 = "[C_postAiSearchDomains ''docs.example.com'']"
         and payload = example_payload and s_error = already_exists_7022
         and existing = example_instance and updated = example_instance,
       THEN conjunct1] norm pay
    by (simp add: defs)
  have w2: "AiSearch_handler search_exists
     \<lparr>ctx_phase = Create, ctx_output = None, ctx_scope = example_scope\<rparr> ''res''
     example_search_props []
     = (Inl already_exists_7022,
        [C_postAiSearchDomains ''docs.example.com'', C_createAiSearchInstance example_payload])"
    using adoption_protocol
      [where api = search_exists and h = "[]" and i = "''res''"
         and s_this = "\<lparr>ctx_phase = Create, ctx_output = None, ctx_scope = example_scope\<rparr>"
         and s_props = "example_search_props"
         and source = "NormalizedWebCrawler example_crawler"
         and tok = "''0a1b2c3d-0000-4000-8000-0123456789ab''"
         and ?h1.0 = "[C_postAiSearchDomains ''docs.example.com'']"
         and payload = example_payload and s_error = already_exists_7022,
       THEN conjunct2, THEN conjunct1] norm0 pay0
    by (simp add: defs)
  have w3: "VpcService_handler (\<lambda>s. 0) service_exists
     \<lparr>ctx_phase = Create, ctx_output = None, ctx_scope = example_scope\<rparr> ''res''
     example_vpc_props []
     = (Inr (Output example_vpc_output),
        [C_createService example_service_input, C_listServices,
         C_updateService ''svc-1'' example_service_input])"
    using adoption_protocol
      [where api = service_exists and h = "[]" and i = "''res''"
         and v_this = "\<lparr>ctx_phase = Create, ctx_output = None, ctx_scope = example_scope\<rparr>"
         and v_props = example_vpc_props and getTime = "\<lambda>s. 0"
         and input = example_service_input and v_error = already_exists_5101
         and services = "[example_service]" and service = example_service
         and v_updated = example_service,
       THEN conjunct2, THEN conjunct2, THEN conjunct1]
    by (simp add: defs)
  have w4: "AiSearchToken_handler token_exists
     \<lparr>ctx_phase = Create, ctx_output = None, ctx_scope = example_scope\<rparr> ''res''
     example_token_props []
     = (Inr (Output (token_output example_token_response example_account_token ''key-1'')),
        [C_AccountApiToken ''account-token''
           (account_token_props ''docs-search-token'' example_token_props),
         C_createAiSearchToken
           \<lparr>tp_name = ''docs-search-token'', tp_cf_api_id = ''acct-token-1'',
            tp_cf_api_key = ''key-1''\<rparr>,
         C_listAiSearchTokens])"
    using adoption_protocol
      [where api = token_exists and h = "[]" and i = "''res''"
         and t_this = "\<lparr>ctx_phase = Create, ctx_output = None, ctx_scope = example_scope\<rparr>"
         and t_props = example_token_props and tokenName = "''docs-search-token''"
         and accountToken = example_account_token and v = "Secret ''key-1''"
         and t_payload = "\<lparr>tp_name = ''docs-search-token'', tp_cf_api_id = ''acct-token-1'',
                            tp_cf_api_key = ''key-1''\<rparr>"
         and st = 409
         and ed = "Some [\<lparr>code = Some 7040, payload_message = ''token already exists''\<rparr>]"
         and m = "''Error 409: 7040: token already exists''"
         and tokens = "[example_token_response]" and t_existing = example_token_response,
       THEN conjunct2, THEN conjunct2, THEN conjunct2, THEN conjunct2, THEN conjunct1]
    by (simp add: defs)
  have w5: "snd (D1Database_handler database_exists
     \<lparr>ctx_phase = Create, ctx_output = None, ctx_scope = example_scope\<rparr> ''res''
     example_d1_props [])
     = [C_postD1Database (createPayload ''my-app-db'' example_d1_props),
        C_listDatabases (Some ''my-app-db''), C_getDatabase ''db-uuid-1'']"
    using adoption_protocol
      [where api = database_exists and h = "[]" and i = "''res''"
         and d_this = "\<lparr>ctx_phase = Create, ctx_output = None, ctx_scope = example_scope\<rparr>"
         and d_props = example_d1_props and n = "''my-app-db''"
         and dst = 400
         and ded = "Some [\<lparr>code = Some 7502, payload_message = ''database already exists''\<rparr>]"
         and dm = "''Error 400: 7502: database already exists''"
         and databases = "[example_database]" and existingDb = example_database
         and dbData = example_database,
       THEN conjunct2, THEN conjunct2, THEN conjunct2, THEN conjunct2, THEN conjunct2,
       THEN conjunct2, THEN conjunct1]
    by (simp add: defs)
  have w6: "snd (D1Database_handler database_exists
     \<lparr>ctx_phase = Create, ctx_output = None, ctx_scope = example_scope\<rparr> ''res''
     (example_d1_props\<lparr>readReplication := Some ''auto''\<rparr>) [])
     = [C_postD1Database (createPayload ''my-app-db'' (example_d1_props\<lparr>readReplication := Some ''auto''\<rparr>)),
        C_listDatabases (Some ''my-app-db''), C_getDatabase ''db-uuid-1'',
        C_updateReadReplicationMode ''db-uuid-1'' ''auto'']"
    using adoption_protocol
      [where api = database_exists and h = "[]" and i = "''res''"
         and d_this = "\<lparr>ctx_phase = Create, ctx_output = None, ctx_scope = example_scope\<rparr>"
         and d_props = "example_d1_props\<lparr>readReplication := Some ''auto''\<rparr>"
         and n = "''my-app-db''" and dst = 400
         and ded = "Some [\<lparr>code = Some 7502, payload_message = ''database already exists''\<rparr>]"
         and dm = "''Error 400: 7502: database already exists''"
         and databases = "[example_database]" and existingDb = example_database
         and dbData = example_database and mode = "''auto''" and d_updated = example_database,
       THEN conjunct2, THEN conjunct2, THEN conjunct2, THEN conjunct2, THEN conjunct2,
       THEN conjunct2, THEN conjunct2, THEN conjunct1]
    by (simp add: defs)
  from w1 w2 w3 w4 w5 w6 show ?thesis by (intro conjI)
qed

text \<open>
  C1 as stated fails at an AiSearchToken with the declared \<open>adopt\<close> true and the token
  on the provider already: the handler returns the token it found by name, after three
  calls, none of them an update.
\<close>

theorem AiSearchToken_adopts_without_update_counterexample:
  "AiSearchToken_handler token_exists
     \<lparr>ctx_phase = Create, ctx_output = None, ctx_scope = example_scope\<rparr> ''docs-token''
     example_token_props []
     = (Inr (Output (token_output example_token_response example_account_token ''key-1'')),
        [C_AccountApiToken ''account-token''
           (account_token_props ''docs-search-token'' example_token_props),
         C_createAiSearchToken
           \<lparr>tp_name = ''docs-search-token'', tp_cf_api_id = ''acct-token-1'',
            tp_cf_api_key = ''key-1''\<rparr>,
         C_listAiSearchTokens])"
  by (simp add: AiSearchToken_handler_def AiSearchToken_name_def account_token_props_def
      Let_def io_bind_def io_catch_def io_return_def io_throw_def createAiSearchToken_def
      listAiSearchTokens_def request_def token_exists_def accepting_def refusing_def
      example_token_props_def example_account_token_def example_token_response_def
      token_conflict_def example_scope_def token_output_def)

end
